theory Spec2Isabelle
  imports Main "HOL-Library.Word"
begin

section \<open>The jobqueue server (server.go, two revisions)\<close>

text \<open>
  The source file holds two revisions of the request handler of the jobqueue server:
  the 2016 revision (a whole \<^verbatim>\<open>server.go\<close>, lines 1--936, functions suffixed
  \<open>_old\<close> below) and the 2019 revision of \<^verbatim>\<open>handleRequest\<close> with its helpers
  (lines 937--1889). Both are embedded as state-passing functions on one record
  \<open>Server\<close>, whose fields are the union of what the two revisions keep in the
  \<^verbatim>\<open>Server\<close> struct.

  Go's \<^verbatim>\<open>int\<close> counters are modelled as \<open>int\<close>: every counter below moves by
  one per operation or counts elements of a list held in memory, so the 64-bit range is
  never left and no wrap-around is written out. A \<^verbatim>\<open>time.Time\<close> is a \<open>nat\<close>
  with \<open>0\<close> the zero time; a \<^verbatim>\<open>uuid.UUID\<close> is a 128-bit word; a byte slice is
  a \<open>string\<close>. Mutexes are not modelled: every function below runs atomically.
\<close>

subsection \<open>Errors\<close>

text \<open>
  The \<^verbatim>\<open>Err*\<close> string variables of the package. A reply's \<^verbatim>\<open>Err\<close> field
  is \<open>None\<close> where the source leaves the string empty.
\<close>

datatype jqerr =
    ErrInternalError
  | ErrUnknownCommand
  | ErrBadRequest
  | ErrBadJob
  | ErrMissingJob
  | ErrMustReserve
  | ErrDBError
  | ErrQueueClosed
  | ErrClosedStop
  | ErrPermissionDenied

text \<open>The errors of the queue package that the server tells apart, and any other.\<close>

datatype queue_err = queue_ErrQueueClosed | queue_ErrNothingReady | queue_ErrOther

subsection \<open>Jobs\<close>

type_synonym Time = nat
type_synonym UUID = "128 word"

datatype JobState =
    JobStateDelayed | JobStateReady | JobStateReserved | JobStateRunning | JobStateLost
  | JobStateBuried | JobStateComplete | JobStateDependent | JobStateUnknown

record Requirements =
  RMemory :: int
  RTime :: int
  RCPUs :: int
  ROther :: string

text \<open>
  The fields of \<^verbatim>\<open>Job\<close> that the handlers read or write. The 2016 revision
  spells \<^verbatim>\<open>starttime\<close>, \<^verbatim>\<open>endtime\<close>, \<^verbatim>\<open>envKey\<close> and
  \<^verbatim>\<open>Peakmem\<close> what the 2019 revision spells \<^verbatim>\<open>StartTime\<close>,
  \<^verbatim>\<open>EndTime\<close>, \<^verbatim>\<open>EnvKey\<close> and \<^verbatim>\<open>PeakRAM\<close>.
\<close>

record Job =
  Cmd :: string
  Cwd :: string
  CwdMatters :: bool
  RepGroup :: string
  Memory :: int
  Time :: int
  CPUs :: int
  Priority :: nat
  Retries :: int
  UntilBuried :: int
  State :: JobState
  FailReason :: string
  ReservedBy :: UUID
  Exited :: bool
  Exitcode :: int
  Pid :: int
  Host :: string
  HostID :: string
  HostIP :: string
  StartTime :: Time
  EndTime :: Time
  Walltime :: int
  PeakRAM :: int
  PeakDisk :: int
  Attempts :: int
  schedulerGroup :: string
  killCalled :: bool
  Lost :: bool
  EnvKey :: string
  EnvC :: string
  EnvCRetrieved :: bool
  incrementedLimitGroups :: "string list"

definition jobKey :: "Job \<Rightarrow> string" where
  \<comment> \<open>Modelled from the spec: \<^verbatim>\<open>jobKey(job)\<close> / \<^verbatim>\<open>job.Key()\<close> is not in the
      source file; the key is "deterministic from (Cwd, Cmd, CwdMatters flag)". The
      digest the program applies to it is left out.\<close>
  "jobKey j = (if CwdMatters j then Cwd j @ ''.'' @ Cmd j else Cmd j)"

subsection \<open>The queue primitive\<close>

text \<open>
  The \<^verbatim>\<open>queue\<close> package is not among the source files; its operations are modelled
  from section 4.1 of the specification. A queue is the list of its items in insertion
  order; an item removed from the queue leaves the list. Timers (delay and
  time-to-run) run outside the request handlers and are not modelled. An item holds
  its job as \<open>iData\<close>; a write through the \<^verbatim>\<open>*Job\<close> pointer is \<open>modify_job\<close>.
\<close>

datatype ItemState =
    ItemStateDelay | ItemStateReady | ItemStateRun | ItemStateBury
  | ItemStateDependent | ItemStateRemoved

record Item =
  iKey :: string
  iData :: Job
  iPriority :: nat
  iDelay :: int
  iTTR :: int
  iState :: ItemState
  iReserveGroup :: string

record Queue =
  Name :: string
  items :: "Item list"
  closed :: bool

record ItemDef =
  dKey :: string
  dData :: Job
  dPriority :: nat
  dDelay :: int
  dTTR :: int

definition queue_New :: "string \<Rightarrow> Queue" where
  \<comment> \<open>Modelled from the spec: a new, empty, named queue.\<close>
  "queue_New name = \<lparr>Name = name, items = [], closed = False\<rparr>"

definition lookup :: "Queue \<Rightarrow> string \<Rightarrow> Item option" where
  "lookup q key = find (\<lambda>i. iKey i = key) (items q)"

definition Get :: "Queue \<Rightarrow> string \<Rightarrow> queue_err + Item" where
  \<comment> \<open>Modelled from the spec: \<^verbatim>\<open>Get(key)\<close> returns the item of that key, or an error.\<close>
  "Get q key =
     (if closed q then Inl queue_ErrQueueClosed
      else case lookup q key of
             None \<Rightarrow> Inl queue_ErrOther
           | Some i \<Rightarrow> Inr i)"

definition item_state :: "Queue \<Rightarrow> string \<Rightarrow> ItemState" where
  \<comment> \<open>\<^verbatim>\<open>item.Stats().State\<close> read through an item pointer obtained earlier: the
      sub-queue the item is in now, \<^verbatim>\<open>removed\<close> once it has left the queue.\<close>
  "item_state q key =
     (case lookup q key of
        None \<Rightarrow> ItemStateRemoved
      | Some i \<Rightarrow> iState i)"

definition modify_item :: "Queue \<Rightarrow> string \<Rightarrow> (Item \<Rightarrow> Item) \<Rightarrow> Queue" where
  "modify_item q key f = q\<lparr>items := map (\<lambda>i. if iKey i = key then f i else i) (items q)\<rparr>"

definition modify_job :: "Queue \<Rightarrow> string \<Rightarrow> (Job \<Rightarrow> Job) \<Rightarrow> Queue" where
  "modify_job q key f = modify_item q key (\<lambda>i. i\<lparr>iData := f (iData i)\<rparr>)"

definition move_item ::
  "Queue \<Rightarrow> string \<Rightarrow> ItemState list \<Rightarrow> ItemState \<Rightarrow> queue_err + Queue" where
  \<comment> \<open>Modelled from the spec: an operation that moves the item of a key from one of the
      sub-queues \<open>src\<close> to the sub-queue \<open>dst\<close>, and fails anywhere else.\<close>
  "move_item q key src dst =
     (if closed q then Inl queue_ErrQueueClosed
      else case lookup q key of
             None \<Rightarrow> Inl queue_ErrOther
           | Some i \<Rightarrow>
               if iState i \<in> set src
               then Inr (modify_item q key (\<lambda>i. i\<lparr>iState := dst\<rparr>))
               else Inl queue_ErrOther)"

definition Touch :: "Queue \<Rightarrow> string \<Rightarrow> queue_err + Queue" where
  \<comment> \<open>Modelled from the spec: "re-arms the TTR; fails if Item is not in run".\<close>
  "Touch q key = move_item q key [ItemStateRun] ItemStateRun"

definition SetDelay :: "Queue \<Rightarrow> string \<Rightarrow> int \<Rightarrow> queue_err + Queue" where
  \<comment> \<open>Modelled from the spec: "updates the delay parameter".\<close>
  "SetDelay q key d =
     (if closed q then Inl queue_ErrQueueClosed
      else case lookup q key of
             None \<Rightarrow> Inl queue_ErrOther
           | Some i \<Rightarrow> Inr (modify_item q key (\<lambda>i. i\<lparr>iDelay := d\<rparr>)))"

definition Release :: "Queue \<Rightarrow> string \<Rightarrow> queue_err + Queue" where
  \<comment> \<open>Modelled from the spec: "moves from run to delayed (with current delay)".\<close>
  "Release q key = move_item q key [ItemStateRun] ItemStateDelay"

definition Bury :: "Queue \<Rightarrow> string \<Rightarrow> queue_err + Queue" where
  \<comment> \<open>Modelled from the spec: "moves from run (or ready) to bury".\<close>
  "Bury q key = move_item q key [ItemStateRun, ItemStateReady] ItemStateBury"

definition Kick :: "Queue \<Rightarrow> string \<Rightarrow> queue_err + Queue" where
  \<comment> \<open>Modelled from the spec: "moves from bury to ready".\<close>
  "Kick q key = move_item q key [ItemStateBury] ItemStateReady"

definition Remove :: "Queue \<Rightarrow> string \<Rightarrow> queue_err + Queue" where
  \<comment> \<open>Modelled from the spec: "moves from any sub-queue to removed".\<close>
  "Remove q key =
     (if closed q then Inl queue_ErrQueueClosed
      else case lookup q key of
             None \<Rightarrow> Inl queue_ErrOther
           | Some i \<Rightarrow> Inr (q\<lparr>items := filter (\<lambda>i. iKey i \<noteq> key) (items q)\<rparr>))"

definition eligible :: "string option \<Rightarrow> Item \<Rightarrow> bool" where
  "eligible g i =
     (iState i = ItemStateReady \<and> (case g of None \<Rightarrow> True | Some grp \<Rightarrow> iReserveGroup i = grp))"

fun first_best :: "Item option \<Rightarrow> Item list \<Rightarrow> Item option" where
  "first_best b [] = b"
| "first_best None (i # is) = first_best (Some i) is"
| "first_best (Some b) (i # is) =
     first_best (if iPriority b < iPriority i then Some i else Some b) is"

definition Reserve :: "Queue \<Rightarrow> string option \<Rightarrow> queue_err + (Item \<times> Queue)" where
  \<comment> \<open>Modelled from the spec: "pops the highest-priority ready Item (tie-break FIFO by
      insertion), moves it to run [...] If group is supplied, only Items whose
      reserve-group matches are eligible. If none eligible, fails with ErrNothingReady."\<close>
  "Reserve q g =
     (if closed q then Inl queue_ErrQueueClosed
      else case first_best None (filter (eligible g) (items q)) of
             None \<Rightarrow> Inl queue_ErrNothingReady
           | Some i \<Rightarrow>
               Inr (i\<lparr>iState := ItemStateRun\<rparr>,
                    modify_item q (iKey i) (\<lambda>i. i\<lparr>iState := ItemStateRun\<rparr>)))"

fun add_defs :: "Item list \<Rightarrow> ItemDef list \<Rightarrow> int \<Rightarrow> int \<Rightarrow> Item list \<times> int \<times> int" where
  "add_defs is [] added dups = (is, added, dups)"
| "add_defs is (d # ds) added dups =
     (if dKey d \<in> iKey ` set is then add_defs is ds added (dups + 1)
      else add_defs
             (is @ [\<lparr>iKey = dKey d, iData = dData d, iPriority = dPriority d,
                     iDelay = dDelay d, iTTR = dTTR d,
                     iState = (if dDelay d = 0 then ItemStateReady else ItemStateDelay),
                     iReserveGroup = ''''\<rparr>])
             ds (added + 1) dups)"

definition AddMany :: "Queue \<Rightarrow> ItemDef list \<Rightarrow> queue_err + (int \<times> int \<times> Queue)" where
  \<comment> \<open>Modelled from the spec: "AddMany(itemdefs) returns (added, duplicates, err): a
      duplicate is any Key already present in a non-removed sub-queue; duplicates are
      not modified." A new item without delay enters the ready sub-queue.\<close>
  "AddMany q ds =
     (if closed q then Inl queue_ErrQueueClosed
      else case add_defs (items q) ds 0 0 of
             (is, added, dups) \<Rightarrow> Inr (added, dups, q\<lparr>items := is\<rparr>))"

subsection \<open>The database\<close>

text \<open>
  The database is an external collaborator; its operations are modelled from the
  contracts of section 6 of the specification. A write can fail: \<open>faults\<close> lists, for
  the fallible writes to come, whether each one fails (none fails once the list is
  used up).
\<close>

record DB =
  envs :: "string \<rightharpoonup> string"
  live :: "string \<rightharpoonup> Job"
  complete :: "string \<rightharpoonup> Job"
  faults :: "bool list"

definition next_fault :: "DB \<Rightarrow> bool \<times> DB" where
  "next_fault d = (case faults d of [] \<Rightarrow> (False, d) | f # fs \<Rightarrow> (f, d\<lparr>faults := fs\<rparr>))"

definition storeEnv :: "DB \<Rightarrow> string \<Rightarrow> (string option) \<times> DB" where
  \<comment> \<open>Modelled from the spec: "storeEnv(env) -> key, err (content-addressed,
      idempotent)"; the key is the content itself here. \<open>None\<close> is the error.\<close>
  "storeEnv d env =
     (case next_fault d of
        (True, d') \<Rightarrow> (None, d')
      | (False, d') \<Rightarrow> (Some env, d'\<lparr>envs := (envs d')(env \<mapsto> env)\<rparr>))"

definition storeNewJobs :: "DB \<Rightarrow> Job list \<Rightarrow> bool \<times> DB" where
  \<comment> \<open>Modelled from the spec: "storeNewJobs(jobs) -> err (atomic batch)"; the
      result is whether it succeeded.\<close>
  "storeNewJobs d jobs =
     (case next_fault d of
        (True, d') \<Rightarrow> (False, d')
      | (False, d') \<Rightarrow>
          (True, d'\<lparr>live := fold (\<lambda>j m. m(jobKey j \<mapsto> j)) jobs (live d')\<rparr>))"

definition archiveJob :: "DB \<Rightarrow> string \<Rightarrow> Job \<Rightarrow> bool \<times> DB" where
  \<comment> \<open>Modelled from the spec: "archiveJob(key, job) -> err (move live -> complete)";
      the result is whether it succeeded.\<close>
  "archiveJob d key job =
     (case next_fault d of
        (True, d') \<Rightarrow> (False, d')
      | (False, d') \<Rightarrow>
          (True, d'\<lparr>live := (live d')(key := None), complete := (complete d')(key \<mapsto> job)\<rparr>))"

definition updateJobAfterChange :: "DB \<Rightarrow> Job \<Rightarrow> DB" where
  \<comment> \<open>Modelled from the spec: rewrites the job's row of the live bucket; the handlers
      ignore its outcome.\<close>
  "updateJobAfterChange d job = d\<lparr>live := (live d)(jobKey job \<mapsto> job)\<rparr>"

definition retrieveEnv :: "DB \<Rightarrow> string \<Rightarrow> string" where
  \<comment> \<open>Modelled from the spec: "retrieveEnv(key) -> envBlob", empty when unknown.\<close>
  "retrieveEnv d k = (case envs d k of None \<Rightarrow> '''' | Some e \<Rightarrow> e)"

subsection \<open>The limiter\<close>

text \<open>
  The limiter package is not among the source files; it is modelled from section 4.4
  of the specification: named counters, each with an optional limit.
\<close>

record Limiter =
  limits :: "string \<rightharpoonup> nat"
  counts :: "string \<Rightarrow> nat"

definition fits :: "Limiter \<Rightarrow> string \<Rightarrow> bool" where
  "fits l g = (case limits l g of None \<Rightarrow> True | Some n \<Rightarrow> counts l g < n)"

definition Increment :: "Limiter \<Rightarrow> string list \<Rightarrow> bool \<times> Limiter" where
  \<comment> \<open>Modelled from the spec: "atomically checks every group's current count against
      its configured limit; if all fit, increments all and returns true; else modifies
      none and returns false".\<close>
  "Increment l gs =
     (if list_all (fits l) gs
      then (True, l\<lparr>counts := (\<lambda>g. counts l g + count_list gs g)\<rparr>)
      else (False, l))"

definition Decrement :: "Limiter \<Rightarrow> string list \<Rightarrow> Limiter" where
  \<comment> \<open>Modelled from the spec: "Decrement(groups) is unconditional".\<close>
  "Decrement l gs = l\<lparr>counts := (\<lambda>g. counts l g - count_list gs g)\<rparr>"

subsection \<open>Server state, requests and replies\<close>

record ServerInfo =
  Addr :: string
  Host' :: string
  Port :: string
  PID :: int

text \<open>
  A call \<^verbatim>\<open>Schedule(fmt.Sprintf(s.rc, queuename, group), req, count)\<close> of the
  external scheduler: the format with its two arguments, the requirements pointer and
  the count.
\<close>

record SchedCall =
  scFormat :: string
  scArgs :: "string list"
  scReq :: "Requirements option"
  scCount :: int

text \<open>
  The fields of \<^verbatim>\<open>Server\<close>. The 2016 revision keeps a map \<open>qs\<close> of named queues,
  the 2019 revision one queue \<open>q\<close> (nil once destroyed). \<open>scheduled\<close> records the calls
  made to the scheduler's \<^verbatim>\<open>Schedule\<close>, the latest last.
\<close>

record Server =
  up :: bool
  drain :: bool
  token :: string
  q :: "Queue option"
  qs :: "string \<rightharpoonup> Queue"
  rpl :: "string \<rightharpoonup> (string \<rightharpoonup> bool)"
  sgroupcounts :: "string \<rightharpoonup> int"
  sgtr :: "string \<rightharpoonup> Requirements"
  rc :: string
  db :: DB
  limiter :: Limiter
  killRunners :: bool
  ServerInfo :: ServerInfo
  scheduled :: "SchedCall list"

text \<open>
  The type \<^verbatim>\<open>JobEndState\<close> is not in the source file. The handlers write its
  fields \<^verbatim>\<open>Stdout\<close> and \<^verbatim>\<open>Stderr\<close> (lines 1337--1338); the other fields
  are the exit observations that section 3 of the specification lists for a job and
  that \<^verbatim>\<open>jarchive\<close> tests after the merge: whether the command exited, its exit
  code and its end time. The \<^verbatim>\<open>jrelease\<close> case dereferences
  \<^verbatim>\<open>cr.JobEndState\<close> without a check; a request always carries one here.
\<close>

record JobEndState =
  Stdout :: string
  Stderr :: string
  esExited :: bool
  esExitcode :: int
  esEndTime :: Time

record clientRequest =
  Method :: string
  Token :: string
  QueueName :: string
  Jobs :: "Job list option"
  Job :: "Job option"
  StdOutC :: string
  StdErrC :: string
  Keys :: "string list option"
  Env :: "string option"
  ClientID :: UUID
  SchedulerGroup :: string
  FirstReserve :: bool
  Timeout :: int
  JobEndState :: JobEndState
  IgnoreComplete :: bool

text \<open>
  \<open>StdOutC\<close> and \<open>StdErrC\<close> stand for \<^verbatim>\<open>cr.Job.StdOutC\<close> and
  \<^verbatim>\<open>cr.Job.StdErrC\<close>, \<open>QueueName\<close> for \<^verbatim>\<open>cr.Queue\<close>. A nil pointer or nil
  slice of the request is \<open>None\<close>.
\<close>

record serverResponse =
  Err :: "jqerr option"
  Added :: int
  Existed :: int
  SJob :: "Job option"
  SJobs :: "Job list"
  SInfo :: "ServerInfo option"
  KillCalled :: bool

definition empty_response :: serverResponse where
  "empty_response =
     \<lparr>Err = None, Added = 0, Existed = 0, SJob = None, SJobs = [], SInfo = None,
      KillCalled = False\<rparr>"

type_synonym outcome = "serverResponse option \<times> jqerr option \<times> Server"

text \<open>
  What the source file uses and does not define, taken as parameters: the scheduler
  adapter's \<^verbatim>\<open>Place\<close> and \<^verbatim>\<open>HostToID\<close>, the constants
  \<^verbatim>\<open>tokenLength\<close>, \<^verbatim>\<open>ClientReleaseDelay\<close> and the two separators, and
  the handlers of the methods that no property below is about (\<open>other_methods\<close>,
  which receives the request and with it the method name).
\<close>

record Deps =
  Place :: "Requirements \<Rightarrow> string"
  HostToID :: "string \<Rightarrow> string"
  tokenLength :: nat
  ClientReleaseDelay :: int
  jobSchedLimitGroupSeparator :: string
  jobLimitGroupSeparator :: string
  other_methods :: "Server \<Rightarrow> clientRequest \<Rightarrow> outcome"

definition ServerItemTTR :: int where
  "ServerItemTTR = 60 * 1000000000"

subsection \<open>getij (both revisions)\<close>

text \<open>
  \<^verbatim>\<open>getij\<close> is the same in both revisions but for where the queue comes from. The
  source returns the item, the job and an error string; its callers read the item and
  the job only when the string is empty, so the model returns either the error or the
  item with its job.
\<close>

definition getij :: "Queue \<Rightarrow> clientRequest \<Rightarrow> jqerr + (Item \<times> Job)" where
  "getij qu cr =
     (case Job cr of
        None \<Rightarrow> Inl ErrBadRequest
      | Some j \<Rightarrow>
          (case Get qu (jobKey j) of
             Inl e \<Rightarrow> Inl ErrBadJob
           | Inr item \<Rightarrow>
               if iState item \<noteq> ItemStateRun then Inl ErrBadJob
               else if ClientID cr \<noteq> ReservedBy (iData item) then Inl ErrMustReserve
               else Inr (item, iData item)))"

definition reqJob :: "clientRequest \<Rightarrow> Job" where
  \<comment> \<open>\<^verbatim>\<open>*cr.Job\<close>, which the handlers read only after \<open>getij\<close> has found the
      pointer non-nil.\<close>
  "reqJob cr = (case Job cr of Some j \<Rightarrow> j | None \<Rightarrow> undefined)"

definition reply_of :: "outcome \<Rightarrow> serverResponse \<times> Server" where
  \<comment> \<open>The end of \<^verbatim>\<open>handleRequest\<close>: an error is sent back alone, and a handler that
      set no response sends the empty one. The error value returned for the log and
      a failure of the transport are left out.\<close>
  "reply_of out =
     (case out of (sr, srerr, s) \<Rightarrow>
        (case srerr of
           Some e \<Rightarrow> (empty_response\<lparr>Err := Some e\<rparr>, s)
         | None \<Rightarrow> (case sr of None \<Rightarrow> (empty_response, s) | Some r \<Rightarrow> (r, s))))"

subsection \<open>The 2016 revision\<close>

definition select_queue :: "Server \<Rightarrow> string \<Rightarrow> Queue \<times> Server" where
  \<comment> \<open>\<^verbatim>\<open>q, existed := s.qs[cr.Queue]\<close>, creating the queue when it is new. The
      callback the source registers on a new queue is \<open>readyAddedCallback_old\<close>.\<close>
  "select_queue s name =
     (case qs s name of
        Some qu \<Rightarrow> (qu, s)
      | None \<Rightarrow> (queue_New name, s\<lparr>qs := (qs s)(name \<mapsto> queue_New name)\<rparr>))"

definition put_queue :: "Server \<Rightarrow> string \<Rightarrow> Queue \<Rightarrow> Server" where
  \<comment> \<open>The queue \<^verbatim>\<open>q\<close> is a pointer: what an operation does to it is seen in
      \<^verbatim>\<open>s.qs[cr.Queue]\<close>.\<close>
  "put_queue s name qu = s\<lparr>qs := (qs s)(name \<mapsto> qu)\<rparr>"

definition modify_job_in :: "Server \<Rightarrow> string \<Rightarrow> string \<Rightarrow> (Job \<Rightarrow> Job) \<Rightarrow> Server" where
  \<comment> \<open>A write to a job held by an item of the named queue.\<close>
  "modify_job_in s name k f =
     (case qs s name of None \<Rightarrow> s | Some qu \<Rightarrow> put_queue s name (modify_job qu k f))"

definition count_of :: "Server \<Rightarrow> string \<Rightarrow> int" where
  \<comment> \<open>Reading a Go map of ints at an absent key gives 0.\<close>
  "count_of s g = (case sgroupcounts s g of None \<Rightarrow> 0 | Some c \<Rightarrow> c)"

definition decrementGroupCount_old :: "Server \<Rightarrow> Job \<Rightarrow> string \<Rightarrow> Server" where
  "decrementGroupCount_old s job queuename =
     (let g = schedulerGroup job;
          c = count_of s g - 1
      in if c \<le> 0
         then s\<lparr>sgroupcounts := (sgroupcounts s)(g := None), sgtr := (sgtr s)(g := None)\<rparr>
         else s\<lparr>sgroupcounts := (sgroupcounts s)(g \<mapsto> c),
                scheduled := scheduled s @
                  [\<lparr>scFormat = rc s, scArgs = [queuename, g], scReq = sgtr s g, scCount = c\<rparr>]\<rparr>)"

text \<open>
  The callback for items entering the ready sub-queue. \<^verbatim>\<open>groups\<close> is a Go map; the
  model keeps it as an association list in the order the groups are first seen, and
  the second loop goes through it in that order (Go leaves the order open). The jobs
  are handed over with the keys of their items.
\<close>

fun bump :: "(string \<times> int) list \<Rightarrow> string \<Rightarrow> (string \<times> int) list" where
  "bump [] g = [(g, 1)]"
| "bump ((h, c) # r) g = (if h = g then (h, c + 1) # r else (h, c) # bump r g)"

fun place_all ::
  "Deps \<Rightarrow> string \<Rightarrow> (string \<times> Job) list \<Rightarrow> Server \<Rightarrow> (string \<times> int) list
    \<Rightarrow> Server \<times> (string \<times> int) list" where
  "place_all D queuename [] s groups = (s, groups)"
| "place_all D queuename ((k, job) # r) s groups =
     (let req = \<lparr>RMemory = Memory job, RTime = Time job, RCPUs = CPUs job, ROther = ''''\<rparr>;
          g = Place D req;
          s1 = modify_job_in s queuename k (\<lambda>j. j\<lparr>schedulerGroup := g\<rparr>);
          s2 = (if sgtr s1 g = None then s1\<lparr>sgtr := (sgtr s1)(g \<mapsto> req)\<rparr> else s1)
      in place_all D queuename r s2 (bump groups g))"

fun schedule_groups :: "string \<Rightarrow> (string \<times> int) list \<Rightarrow> Server \<Rightarrow> Server" where
  "schedule_groups queuename [] s = s"
| "schedule_groups queuename ((g, c) # r) s =
     schedule_groups queuename r
       (s\<lparr>sgroupcounts := (sgroupcounts s)(g \<mapsto> c),
          scheduled := scheduled s @
            [\<lparr>scFormat = rc s, scArgs = [queuename, g], scReq = sgtr s g, scCount = c\<rparr>]\<rparr>)"

definition readyAddedCallback_old ::
  "Deps \<Rightarrow> Server \<Rightarrow> string \<Rightarrow> (string \<times> Job) list \<Rightarrow> Server" where
  "readyAddedCallback_old D s queuename allitemdata =
     (case place_all D queuename allitemdata s [] of
        (s1, groups) \<Rightarrow>
          if rc s1 \<noteq> '''' then schedule_groups queuename groups s1 else s1)"

definition rpl_add :: "(string \<rightharpoonup> (string \<rightharpoonup> bool)) \<Rightarrow> ItemDef \<Rightarrow> (string \<rightharpoonup> (string \<rightharpoonup> bool))" where
  "rpl_add m d =
     (let rp = RepGroup (dData d);
          inner = (case m rp of None \<Rightarrow> Map.empty | Some km \<Rightarrow> km)
      in m(rp \<mapsto> inner(dKey d \<mapsto> True)))"

definition add_old :: "Server \<Rightarrow> Queue \<Rightarrow> clientRequest \<Rightarrow> outcome" where
  "add_old s qu cr =
     (case (Env cr, Jobs cr) of
        (Some env, Some jobs) \<Rightarrow>
          (case storeEnv (db s) env of
             (None, d1) \<Rightarrow> (None, Some ErrDBError, s\<lparr>db := d1\<rparr>)
           | (Some envkey, d1) \<Rightarrow>
               let jobs1 = map (\<lambda>j. j\<lparr>EnvKey := envkey, UntilBuried := 3\<rparr>) jobs;
                   itemdefs = map (\<lambda>j. \<lparr>dKey = jobKey j, dData = j, dPriority = Priority j,
                                          dDelay = 0, dTTR = ServerItemTTR\<rparr>) jobs1
               in (case storeNewJobs d1 jobs1 of
                     (False, d2) \<Rightarrow> (None, Some ErrDBError, s\<lparr>db := d2\<rparr>)
                   | (True, d2) \<Rightarrow>
                       (case AddMany qu itemdefs of
                          Inl e \<Rightarrow>
                            (Some (empty_response\<lparr>Added := 0, Existed := 0\<rparr>),
                             Some ErrInternalError,
                             s\<lparr>db := d2, rpl := fold (\<lambda>d m. rpl_add m d) itemdefs (rpl s)\<rparr>)
                        | Inr (added, dups, qu1) \<Rightarrow>
                            (Some (empty_response\<lparr>Added := added, Existed := dups\<rparr>),
                             None,
                             put_queue
                               (s\<lparr>db := d2, rpl := fold (\<lambda>d m. rpl_add m d) itemdefs (rpl s)\<rparr>)
                               (QueueName cr) qu1))))
      | _ \<Rightarrow> (None, Some ErrBadRequest, s))"

definition rpl_delete :: "(string \<rightharpoonup> (string \<rightharpoonup> bool)) \<Rightarrow> string \<Rightarrow> string \<Rightarrow> (string \<rightharpoonup> (string \<rightharpoonup> bool))" where
  \<comment> \<open>\<^verbatim>\<open>if m, exists := s.rpl.lookup[rgroup]; exists { delete(m, key) }\<close>\<close>
  "rpl_delete m rgroup key =
     (case m rgroup of None \<Rightarrow> m | Some km \<Rightarrow> m(rgroup \<mapsto> km(key := None)))"

definition archive_writes_old :: "Job \<Rightarrow> Job" where
  \<comment> \<open>The writes of the 2016 \<^verbatim>\<open>jarchive\<close> to the job.\<close>
  "archive_writes_old j =
     j\<lparr>State := JobStateComplete, FailReason := '''',
       Walltime := int (EndTime j) - int (StartTime j)\<rparr>"

definition jarchive_old :: "Server \<Rightarrow> Queue \<Rightarrow> clientRequest \<Rightarrow> outcome" where
  "jarchive_old s qu cr =
     (case getij qu cr of
        Inl e \<Rightarrow> (None, Some e, s)
      | Inr (item, job) \<Rightarrow>
          if \<not> Exited job \<or> Exitcode job \<noteq> 0 \<or> StartTime job = 0 \<or> EndTime job = 0
          then (None, Some ErrBadRequest, s)
          else
            let key = jobKey job;
                qu1 = modify_job qu (iKey item) archive_writes_old
            in (case archiveJob (db s) key (archive_writes_old job) of
                  (False, d1) \<Rightarrow>
                    (None, Some ErrDBError, put_queue (s\<lparr>db := d1\<rparr>) (QueueName cr) qu1)
                | (True, d1) \<Rightarrow>
                    (case Remove qu1 key of
                       Inl e \<Rightarrow>
                         (None, Some ErrInternalError,
                          put_queue (s\<lparr>db := d1\<rparr>) (QueueName cr) qu1)
                     | Inr qu2 \<Rightarrow>
                         (None, None,
                          decrementGroupCount_old
                            (put_queue
                               (s\<lparr>db := d1, rpl := rpl_delete (rpl s) (RepGroup job) key\<rparr>)
                               (QueueName cr) qu2)
                            (archive_writes_old job) (Name qu)))))"

definition release_writes :: "string \<Rightarrow> Job \<Rightarrow> Job" where
  \<comment> \<open>The writes of \<^verbatim>\<open>jrelease\<close> to the job: the fail reason, and one retry less
      after a failed exit.\<close>
  "release_writes failReason j =
     (let j1 = j\<lparr>FailReason := failReason\<rparr>
      in if Exited j1 \<and> Exitcode j1 \<noteq> 0
         then j1\<lparr>UntilBuried := UntilBuried j1 - 1\<rparr> else j1)"

definition jrelease_old :: "Server \<Rightarrow> Queue \<Rightarrow> clientRequest \<Rightarrow> outcome" where
  "jrelease_old s qu cr =
     (case getij qu cr of
        Inl e \<Rightarrow> (None, Some e, s)
      | Inr (item, job) \<Rightarrow>
          let upd = release_writes (FailReason (reqJob cr));
              qu1 = modify_job qu (iKey item) upd
          in if UntilBuried (upd job) \<le> 0
             then (case Bury qu1 (iKey item) of
                     Inl e \<Rightarrow> (None, Some ErrInternalError, put_queue s (QueueName cr) qu1)
                   | Inr qu2 \<Rightarrow> (None, None, put_queue s (QueueName cr) qu2))
             else (case SetDelay qu1 (iKey item) (Timeout cr) of
                     Inl e \<Rightarrow> (None, Some ErrInternalError, put_queue s (QueueName cr) qu1)
                   | Inr qu2 \<Rightarrow>
                       (case Release qu2 (iKey item) of
                          Inl e \<Rightarrow> (None, Some ErrInternalError, put_queue s (QueueName cr) qu2)
                        | Inr qu3 \<Rightarrow> (None, None, put_queue s (QueueName cr) qu3))))"

definition jbury_old :: "Server \<Rightarrow> Queue \<Rightarrow> clientRequest \<Rightarrow> outcome" where
  "jbury_old s qu cr =
     (case getij qu cr of
        Inl e \<Rightarrow> (None, Some e, s)
      | Inr (item, job) \<Rightarrow>
          let upd = (\<lambda>j. j\<lparr>FailReason := FailReason (reqJob cr)\<rparr>);
              qu1 = modify_job qu (iKey item) upd
          in (case Bury qu1 (iKey item) of
                Inl e \<Rightarrow> (None, Some ErrInternalError, put_queue s (QueueName cr) qu1)
              | Inr qu2 \<Rightarrow>
                  (None, None, decrementGroupCount_old (put_queue s (QueueName cr) qu2) (upd job) (Name qu))))"

definition handleRequest_old :: "Deps \<Rightarrow> Server \<Rightarrow> clientRequest \<Rightarrow> serverResponse \<times> Server" where
  \<comment> \<open>The 2016 \<^verbatim>\<open>handleRequest\<close>: the queue of the request is looked up or made,
      the method's case runs, the reply is sent.\<close>
  "handleRequest_old D s0 cr =
     (case select_queue s0 (QueueName cr) of
        (qu, s) \<Rightarrow>
          reply_of
            (if Method cr = ''ping'' then (None, None, s)
             else if Method cr = ''add'' then add_old s qu cr
             else if Method cr = ''jarchive'' then jarchive_old s qu cr
             else if Method cr = ''jrelease'' then jrelease_old s qu cr
             else if Method cr = ''jbury'' then jbury_old s qu cr
             else if Method cr \<in> set [''sstats'', ''reserve'', ''jstart'', ''jtouch'', ''jend'',
                                     ''jkick'', ''jdel'', ''getbc'', ''getbr'', ''getin'']
             then other_methods D s cr
             else (None, Some ErrUnknownCommand, s)))"

subsection \<open>The 2019 revision: helpers\<close>

definition tokenMatches :: "string \<Rightarrow> string \<Rightarrow> bool" where
  \<comment> \<open>Modelled from the spec: \<^verbatim>\<open>tokenMatches\<close> is not in the source file; it is
      the "constant-time-compared token equal to the server's". Its timing is not
      modelled, its result is the equality of the two byte slices.\<close>
  "tokenMatches input expected = (input = expected)"

text \<open>
  Go's \<^verbatim>\<open>strings.Split(s, sep)\<close>: the pieces of \<open>s\<close> between the occurrences of
  \<open>sep\<close>, found from the left without overlap; with an empty \<open>sep\<close>, the
  characters of \<open>s\<close> (bytes here).
\<close>

fun split_from :: "string \<Rightarrow> string \<Rightarrow> string \<Rightarrow> string list" where
  "split_from sep acc [] = [acc]"
| "split_from sep acc (c # cs) =
     (if take (length sep) (c # cs) = sep
      then acc # split_from sep [] (drop (length sep - 1) cs)
      else split_from sep (acc @ [c]) cs)"

definition Split :: "string \<Rightarrow> string \<Rightarrow> string list" where
  "Split s sep = (if sep = [] then map (\<lambda>c. [c]) s else split_from sep [] s)"

definition schedGroupToLimitGroups :: "Deps \<Rightarrow> string \<Rightarrow> string list" where
  "schedGroupToLimitGroups D grp =
     (let parts = Split grp (jobSchedLimitGroupSeparator D)
      in if length parts = 2 then Split (parts ! 1) (jobLimitGroupSeparator D) else [])"

definition noteIncrementedLimitGroups :: "string list \<Rightarrow> Job \<Rightarrow> Job" where
  \<comment> \<open>Modelled from the spec: the method is not in the source file; "the Job records
      which groups were incremented".\<close>
  "noteIncrementedLimitGroups groups j = j\<lparr>incrementedLimitGroups := groups\<rparr>"

definition reserveWithLimits ::
  "Deps \<Rightarrow> Server \<Rightarrow> Queue \<Rightarrow> string list \<Rightarrow> (Item option \<times> queue_err option) \<times> Server" where
  \<comment> \<open>\<open>grp\<close> is the variadic argument \<^verbatim>\<open>group\<close>; \<open>qu\<close> is \<^verbatim>\<open>s.q\<close>. The result is the
      item and the error the source returns, with the server afterwards.\<close>
  "reserveWithLimits D s qu grp =
     (let limitGroups = (if length grp = 1 then schedGroupToLimitGroups D (grp ! 0) else []);
          inc = Increment (limiter s) limitGroups
      in if length grp = 1 \<and> limitGroups \<noteq> [] \<and> \<not> fst inc
         then ((None, Some queue_ErrNothingReady), s)
         else
           let s1 = (if length grp = 1 \<and> limitGroups \<noteq> [] then s\<lparr>limiter := snd inc\<rparr> else s)
           in (case Reserve qu (if length grp = 1 then Some (grp ! 0) else None) of
                 Inl e \<Rightarrow>
                   ((None, Some e),
                    if limitGroups \<noteq> []
                    then s1\<lparr>limiter := Decrement (limiter s1) limitGroups\<rparr> else s1)
               | Inr (item, qu1) \<Rightarrow>
                   if limitGroups \<noteq> []
                   then ((Some (item\<lparr>iData := noteIncrementedLimitGroups limitGroups (iData item)\<rparr>),
                          None),
                         s1\<lparr>q := Some (modify_job qu1 (iKey item)
                                          (noteIncrementedLimitGroups limitGroups))\<rparr>)
                   else ((Some item, None), s1\<lparr>q := Some qu1\<rparr>)))"

definition itemStateToJobState :: "ItemState \<Rightarrow> bool \<Rightarrow> JobState" where
  \<comment> \<open>Modelled from the spec: the table \<^verbatim>\<open>itemsStateToJobState\<close> is not in the
      source file; the job state is "derived from sub-queue + lost flag".\<close>
  "itemStateToJobState itemState lost =
     (case itemState of
        ItemStateDelay \<Rightarrow> JobStateDelayed
      | ItemStateReady \<Rightarrow> JobStateReady
      | ItemStateRun \<Rightarrow> (if lost then JobStateLost else JobStateReserved)
      | ItemStateBury \<Rightarrow> JobStateBuried
      | ItemStateDependent \<Rightarrow> JobStateDependent
      | ItemStateRemoved \<Rightarrow> JobStateComplete)"

definition itemToJob :: "Server \<Rightarrow> Item \<Rightarrow> bool \<Rightarrow> bool \<Rightarrow> Job" where
  \<comment> \<open>The copy of the job made for the client: the fields the source copies keep
      their values, the others are zero; then \<^verbatim>\<open>jobPopulateStdEnv\<close> fills in the
      environment (the standard output and error it fills in are not fields of the
      model).\<close>
  "itemToJob s item getStd getEnv =
     (let sjob = iData item;
          state = itemStateToJobState (iState item) (Lost sjob);
          job = sjob\<lparr>State := (if state = JobStateReserved \<and> StartTime sjob \<noteq> 0
                                   then JobStateRunning else state),
                     Walltime := 0, schedulerGroup := '''', killCalled := False, Lost := False,
                     EnvC := '''', EnvCRetrieved := False, incrementedLimitGroups := []\<rparr>
      in if getEnv then job\<lparr>EnvC := retrieveEnv (db s) (EnvKey job), EnvCRetrieved := True\<rparr>
         else job)"

definition updateJobAfterExit :: "DB \<Rightarrow> Job \<Rightarrow> string \<Rightarrow> string \<Rightarrow> bool \<Rightarrow> DB" where
  \<comment> \<open>Modelled from the spec: rewrites the job's row of the live bucket (the standard
      output and error are not modelled); the handlers ignore its outcome.\<close>
  "updateJobAfterExit d job stdo stde forceStorage = d\<lparr>live := (live d)(jobKey job \<mapsto> job)\<rparr>"

text \<open>
  Four methods that the 2019 handlers call are not in the source file:
  \<^verbatim>\<open>Job.updateAfterExit\<close>, the one-argument \<^verbatim>\<open>Server.decrementGroupCount\<close>,
  \<^verbatim>\<open>Server.releaseJob\<close> and \<^verbatim>\<open>Server.createJobs\<close>. Their arguments and
  results are those of the calls in the source; what they do is modelled from the
  specification. A \<^verbatim>\<open>*Job\<close> handed to one of them is the job's key.
\<close>

definition updateAfterExit :: "JobEndState \<Rightarrow> Job \<Rightarrow> Limiter \<Rightarrow> Job \<times> Limiter" where
  \<comment> \<open>Modelled from the spec: section 4.2, "updateAfterExit(endState, limiter) merges
      runner-reported exit observations into the Job, decrements any limit groups the
      Job had incremented on reservation, and clears killCalled". The groups, once
      decremented, are no longer noted on the job. The result is the job and the
      limiter afterwards.\<close>
  "updateAfterExit endState j lim =
     (j\<lparr>Exited := esExited endState, Exitcode := esExitcode endState,
        EndTime := esEndTime endState, killCalled := False, incrementedLimitGroups := []\<rparr>,
      Decrement lim (incrementedLimitGroups j))"

definition decrementGroupCount :: "Server \<Rightarrow> string \<Rightarrow> Server" where
  \<comment> \<open>Modelled from the spec: section 4.3, the count of a group is "decremented when a
      Job leaves the ready/run path to any terminal or non-demand state"; "After any
      change, call Sched.Schedule(fmt(runnerCmd, queueName, tag), sgtr[tag],
      sgroupcounts[tag])"; "When the count reaches 0, delete both sgroupcounts[tag] and
      sgtr[tag]". The steps are those of the two-argument method of the 2016 revision
      (lines 813--823), with the group given instead of the job and the name of the
      server's one queue.\<close>
  "decrementGroupCount s g =
     (let c = count_of s g - 1
      in if c \<le> 0
         then s\<lparr>sgroupcounts := (sgroupcounts s)(g := None), sgtr := (sgtr s)(g := None)\<rparr>
         else s\<lparr>sgroupcounts := (sgroupcounts s)(g \<mapsto> c),
                scheduled := scheduled s @
                  [\<lparr>scFormat = rc s,
                    scArgs = [case q s of None \<Rightarrow> '''' | Some qu \<Rightarrow> Name qu, g],
                    scReq = sgtr s g, scCount = c\<rparr>]\<rparr>)"

definition releaseJob ::
  "Server \<Rightarrow> string \<Rightarrow> JobEndState \<Rightarrow> string \<Rightarrow> bool \<Rightarrow> bool \<times> Server" where
  \<comment> \<open>Modelled from the spec: section 4.6, jrelease is "merge exit info; if last exit
      non-zero, UntilBuried--; if UntilBuried <= 0 bury, else SetDelay(Timeout) then
      Release". The call of the source (line 1339) hands over the job, the end state,
      the fail reason and \<^verbatim>\<open>true\<close>, and no timeout: the method cannot set the
      delay from the request, and a released item keeps the delay it has. A buried
      job leaves the run path, so its group's count is decremented (section 4.3); the
      job is persisted after the transition (section 5). The result says whether the
      method returned without error.\<close>
  "releaseJob s key endState failReason forceStorage =
     (case q s of
        None \<Rightarrow> (False, s)
      | Some qu \<Rightarrow>
          (case lookup qu key of
             None \<Rightarrow> (False, s)
           | Some item \<Rightarrow>
               let upd = (\<lambda>j. release_writes failReason
                                (fst (updateAfterExit endState j (limiter s))));
                   job1 = upd (iData item);
                   qu1 = modify_job qu key upd;
                   s1 = s\<lparr>q := Some qu1,
                          limiter := snd (updateAfterExit endState (iData item) (limiter s))\<rparr>
               in if UntilBuried job1 \<le> 0
                  then (case Bury qu1 key of
                          Inl e \<Rightarrow> (False, s1)
                        | Inr qu2 \<Rightarrow>
                            (let s2 = decrementGroupCount (s1\<lparr>q := Some qu2\<rparr>)
                                        (schedulerGroup job1)
                             in (True,
                                 s2\<lparr>db := updateJobAfterExit (db s2) job1 (Stdout endState)
                                            (Stderr endState) forceStorage\<rparr>)))
                  else (case Release qu1 key of
                          Inl e \<Rightarrow> (False, s1)
                        | Inr qu2 \<Rightarrow>
                            (True,
                             s1\<lparr>q := Some qu2,
                                db := updateJobAfterExit (db s1) job1 (Stdout endState)
                                        (Stderr endState) forceStorage\<rparr>))))"

definition create_writes :: "string \<Rightarrow> Job \<Rightarrow> Job" where
  \<comment> \<open>What \<open>createJobs\<close> writes to each job of the request.\<close>
  "create_writes envkey j = j\<lparr>EnvKey := envkey, UntilBuried := Retries j + 1\<rparr>"

definition createJobs ::
  "Server \<Rightarrow> Job list \<Rightarrow> string \<Rightarrow> bool \<Rightarrow> (jqerr + (int \<times> int \<times> int)) \<times> Server" where
  \<comment> \<open>Modelled from the spec: section 4.6, add "creates jobs server-side, inserts into
      queue, writes live-bucket rows. Persistence-before-ack: the DB write must succeed
      before the client sees Added. Duplicates and already-complete jobs are both
      counted in Existed"; section 7, on a failed write "in-memory state is not advanced
      past the failed write"; section 4.5, the RepGroup index is updated on add. A job
      starts with \<open>Retries + 1\<close> attempts (the value jkick restores). With
      \<^verbatim>\<open>ignoreComplete\<close> a job found in the complete bucket is counted and left
      alone. The result is the error string of the source, or the three counts.\<close>
  "createJobs s inputJobs envkey ignoreComplete =
     (case q s of
        None \<Rightarrow> (Inl ErrInternalError, s)
      | Some qu \<Rightarrow>
          let jobs1 = map (create_writes envkey) inputJobs;
              isComplete = (\<lambda>j. ignoreComplete \<and> complete (db s) (jobKey j) \<noteq> None);
              jobsToQueue = filter (\<lambda>j. \<not> isComplete j) jobs1;
              alreadyComplete = int (length (filter isComplete jobs1));
              itemdefs = map (\<lambda>j. \<lparr>dKey = jobKey j, dData = j, dPriority = Priority j,
                                     dDelay = 0, dTTR = ServerItemTTR\<rparr>) jobsToQueue
          in (case storeNewJobs (db s) jobsToQueue of
                (False, d1) \<Rightarrow> (Inl ErrDBError, s\<lparr>db := d1\<rparr>)
              | (True, d1) \<Rightarrow>
                  (case AddMany qu itemdefs of
                     Inl e \<Rightarrow> (Inl ErrInternalError, s\<lparr>db := d1\<rparr>)
                   | Inr (added, dups, qu1) \<Rightarrow>
                       (Inr (added, dups, alreadyComplete),
                        s\<lparr>db := d1, q := Some qu1,
                          rpl := fold (\<lambda>d m. rpl_add m d) itemdefs (rpl s)\<rparr>))))"

subsection \<open>The 2019 revision: the handlers\<close>

definition skip_first :: "Server \<Rightarrow> clientRequest \<Rightarrow> bool" where
  \<comment> \<open>The value of \<^verbatim>\<open>skip\<close> in the \<^verbatim>\<open>reserve\<close> case, for a request with a
      scheduler group.\<close>
  "skip_first s cr =
     (FirstReserve cr \<and> rc s \<noteq> '''' \<and>
      (case sgroupcounts s (SchedulerGroup cr) of None \<Rightarrow> True | Some c \<Rightarrow> c = 0))"

definition first_reserve ::
  "Deps \<Rightarrow> Server \<Rightarrow> Queue \<Rightarrow> clientRequest \<Rightarrow> (Item option \<times> queue_err option) \<times> Server" where
  \<comment> \<open>"first just try to Reserve normally"\<close>
  "first_reserve D s qu cr =
     (if SchedulerGroup cr \<noteq> ''''
      then if \<not> skip_first s cr then reserveWithLimits D s qu [SchedulerGroup cr]
           else ((None, None), s)
      else reserveWithLimits D s qu [])"

text \<open>
  The polling goroutine of \<^verbatim>\<open>reserve\<close>. Each element of \<open>ws\<close> is what other
  tasks do to the server before one tick of the ticker, for the ticks that come before
  the stop channel fires; \<open>timed\<close> says whether the stop channel fires at all
  (\<^verbatim>\<open>cr.Timeout\<close> positive). \<open>None\<close> is a handler that has not replied: with no
  timeout and nothing reserved the loop goes on, and a queue pointer found nil ends the
  goroutine without an answer.
\<close>

fun poll ::
  "Deps \<Rightarrow> (Server \<Rightarrow> Server) list \<Rightarrow> bool \<Rightarrow> Server \<Rightarrow> clientRequest
    \<Rightarrow> (Item option \<times> jqerr option \<times> Server) option" where
  "poll D [] timed s cr = (if timed then Some (None, None, s) else None)"
| "poll D (w # ws) timed s cr =
     (case q (w s) of
        None \<Rightarrow> None
      | Some qu \<Rightarrow>
          (case reserveWithLimits D (w s) qu [SchedulerGroup cr] of
             ((itemr, Some e), s1) \<Rightarrow>
               if e = queue_ErrNothingReady then poll D ws timed s1 cr
               else if e = queue_ErrQueueClosed then Some (None, Some ErrQueueClosed, s1)
               else Some (None, Some ErrInternalError, s1)
           | ((itemr, None), s1) \<Rightarrow> Some (itemr, None, s1)))"

definition reserve_writes :: "UUID \<Rightarrow> Job \<Rightarrow> Job" where
  \<comment> \<open>"clean up any past state to have a fresh job ready to run"\<close>
  "reserve_writes client j =
     j\<lparr>ReservedBy := client, Exited := False, Pid := 0, Host := '''', StartTime := 0,
       EndTime := 0, PeakRAM := 0, PeakDisk := 0, Exitcode := - 1\<rparr>"

definition with_q :: "Server \<Rightarrow> (Queue \<Rightarrow> Queue) \<Rightarrow> Server" where
  \<comment> \<open>A change made through pointers into \<^verbatim>\<open>s.q\<close>.\<close>
  "with_q s f = (case q s of None \<Rightarrow> s | Some qu \<Rightarrow> s\<lparr>q := Some (f qu)\<rparr>)"

definition reserved_reply :: "Deps \<Rightarrow> Server \<Rightarrow> clientRequest \<Rightarrow> Item \<Rightarrow> outcome" where
  \<comment> \<open>The end of the \<^verbatim>\<open>reserve\<close> case for an item that was reserved. A failure
      of \<^verbatim>\<open>SetDelay\<close> is only logged.\<close>
  "reserved_reply D s cr item =
     (let s1 = with_q s (\<lambda>qu. modify_job qu (iKey item) (reserve_writes (ClientID cr)));
          s2 = with_q s1 (\<lambda>qu. case SetDelay qu (iKey item) (ClientReleaseDelay D) of
                                  Inl e \<Rightarrow> qu | Inr qu1 \<Rightarrow> qu1);
          item1 = item\<lparr>iData := reserve_writes (ClientID cr) (iData item),
                        iDelay := ClientReleaseDelay D\<rparr>
      in (Some (empty_response\<lparr>SJob := Some (itemToJob s2 item1 False True)\<rparr>), None, s2))"

definition reserve ::
  "Deps \<Rightarrow> (Server \<Rightarrow> Server) list \<Rightarrow> Server \<Rightarrow> Queue \<Rightarrow> bool \<Rightarrow> clientRequest
    \<Rightarrow> outcome option" where
  \<comment> \<open>\<open>draining\<close> is the value of \<^verbatim>\<open>s.drain\<close> read at the start of the request.\<close>
  "reserve D ws s qu draining cr =
     (if ClientID cr = 0 then Some (None, Some ErrBadRequest, s)
      else if \<not> draining then
        (case first_reserve D s qu cr of
           ((item, err), s1) \<Rightarrow>
             (case (if err = Some queue_ErrNothingReady then poll D ws (0 < Timeout cr) s1 cr
                    else Some (item, None, s1)) of
                None \<Rightarrow> None
              | Some (Some item2, None, s2) \<Rightarrow> Some (reserved_reply D s2 cr item2)
              | Some (item2, srerr, s2) \<Rightarrow> Some (None, srerr, s2)))
      else Some (None, None, s))"

definition start_writes :: "Deps \<Rightarrow> Time \<Rightarrow> Job \<Rightarrow> Job \<Rightarrow> Job" where
  "start_writes D now rj j =
     j\<lparr>Host := Host rj,
       HostID := (if Host rj \<noteq> '''' then HostToID D (Host rj) else HostID j),
       HostIP := HostIP rj, Pid := Pid rj, StartTime := now, EndTime := 0,
       Attempts := Attempts j + 1, killCalled := False, Lost := False,
       State := JobStateRunning\<rparr>"

definition jstart :: "Deps \<Rightarrow> Time \<Rightarrow> Server \<Rightarrow> Queue \<Rightarrow> clientRequest \<Rightarrow> outcome" where
  \<comment> \<open>\<open>now\<close> is what \<^verbatim>\<open>time.Now()\<close> returns.\<close>
  "jstart D now s qu cr =
     (case getij qu cr of
        Inl e \<Rightarrow> (None, Some e, s)
      | Inr (item, job) \<Rightarrow>
          if Pid (reqJob cr) \<le> 0 \<or> Host (reqJob cr) = '''' then (None, Some ErrBadRequest, s)
          else
            let upd = start_writes D now (reqJob cr)
            in (None, None,
                s\<lparr>q := Some (modify_job qu (iKey item) upd),
                  db := updateJobAfterChange (db s) (upd job)\<rparr>))"

definition jtouch :: "Server \<Rightarrow> Queue \<Rightarrow> clientRequest \<Rightarrow> outcome" where
  \<comment> \<open>The two sends to the status caster, a sink, are left out.\<close>
  "jtouch s qu cr =
     (case getij qu cr of
        Inl e \<Rightarrow> (None, Some e, s)
      | Inr (item, job) \<Rightarrow>
          let kc = (if \<not> killCalled job then killRunners s else killCalled job);
              lost = Lost job
          in if \<not> kc
             then (case Touch qu (iKey item) of
                     Inl e \<Rightarrow>
                       (Some (empty_response\<lparr>KillCalled := kc\<rparr>), Some ErrInternalError, s)
                   | Inr qu1 \<Rightarrow>
                       (Some (empty_response\<lparr>KillCalled := kc\<rparr>), None,
                        s\<lparr>q := Some (if lost
                                      then modify_job qu1 (iKey item)
                                             (\<lambda>j. j\<lparr>Lost := False, EndTime := 0\<rparr>)
                                      else qu1)\<rparr>))
             else (Some (empty_response\<lparr>KillCalled := kc\<rparr>), None, s))"

definition archive_writes :: "Job \<Rightarrow> Job" where
  "archive_writes j = j\<lparr>State := JobStateComplete, FailReason := ''''\<rparr>"

definition jarchive :: "Server \<Rightarrow> Queue \<Rightarrow> clientRequest \<Rightarrow> outcome" where
  \<comment> \<open>The goroutine started at the end (lines 1323--1326) does nothing but call
      \<^verbatim>\<open>decrementGroupCount\<close>, and the handler does nothing after starting it but
      reply: the state returned is the one in which the goroutine has run.\<close>
  "jarchive s qu cr =
     (case getij qu cr of
        Inl e \<Rightarrow> (None, Some e, s)
      | Inr (item, job) \<Rightarrow>
          let upd = (\<lambda>j. fst (updateAfterExit (JobEndState cr) j (limiter s)));
              qu1 = modify_job qu (iKey item) upd;
              job1 = upd job;
              s1 = s\<lparr>q := Some qu1,
                     limiter := snd (updateAfterExit (JobEndState cr) job (limiter s))\<rparr>
          in if item_state qu1 (iKey item) \<noteq> ItemStateRun then (None, Some ErrBadJob, s1)
             else if \<not> Exited job1 \<or> Exitcode job1 \<noteq> 0 \<or> StartTime job1 = 0 \<or> EndTime job1 = 0
             then (None, Some ErrBadRequest, s1)
             else
               let key = jobKey job1;
                   sgroup = schedulerGroup job1;
                   rgroup = RepGroup job1;
                   qu2 = modify_job qu1 (iKey item) archive_writes
               in (case archiveJob (db s1) key (archive_writes job1) of
                     (False, d1) \<Rightarrow> (None, Some ErrDBError, s1\<lparr>q := Some qu2, db := d1\<rparr>)
                   | (True, d1) \<Rightarrow>
                       (case Remove qu2 key of
                          Inl e \<Rightarrow> (None, Some ErrInternalError, s1\<lparr>q := Some qu2, db := d1\<rparr>)
                        | Inr qu3 \<Rightarrow>
                            (None, None,
                             decrementGroupCount
                               (s1\<lparr>q := Some qu3, db := d1,
                                   rpl := rpl_delete (rpl s1) rgroup key\<rparr>)
                               sgroup))))"

definition jrelease_with ::
  "(Server \<Rightarrow> string \<Rightarrow> JobEndState \<Rightarrow> string \<Rightarrow> bool \<Rightarrow> bool \<times> Server)
    \<Rightarrow> Server \<Rightarrow> Queue \<Rightarrow> clientRequest \<Rightarrow> outcome" where
  \<comment> \<open>The \<^verbatim>\<open>jrelease\<close> case, with the method it calls as \<open>rel\<close>: the job, the
      end state with the request's output, the fail reason and \<^verbatim>\<open>true\<close> are
      handed over, and an error it returns is answered \<^verbatim>\<open>ErrInternalError\<close>.\<close>
  "jrelease_with rel s qu cr =
     (case getij qu cr of
        Inl e \<Rightarrow> (None, Some e, s)
      | Inr (item, job) \<Rightarrow>
          (case rel s (iKey item)
                  ((JobEndState cr)\<lparr>Stdout := StdOutC cr, Stderr := StdErrC cr\<rparr>)
                  (FailReason (reqJob cr)) True of
             (False, s1) \<Rightarrow> (None, Some ErrInternalError, s1)
           | (True, s1) \<Rightarrow> (None, None, s1)))"

definition jrelease :: "Server \<Rightarrow> Queue \<Rightarrow> clientRequest \<Rightarrow> outcome" where
  \<comment> \<open>The \<^verbatim>\<open>jrelease\<close> case: the method called is \<^verbatim>\<open>s.releaseJob\<close>.\<close>
  "jrelease s qu cr = jrelease_with releaseJob s qu cr"

definition jbury :: "Server \<Rightarrow> Queue \<Rightarrow> clientRequest \<Rightarrow> outcome" where
  "jbury s qu cr =
     (case getij qu cr of
        Inl e \<Rightarrow> (None, Some e, s)
      | Inr (item, job) \<Rightarrow>
          let upd = (\<lambda>j. (fst (updateAfterExit (JobEndState cr) j (limiter s)))
                           \<lparr>FailReason := FailReason (reqJob cr), State := JobStateBuried\<rparr>);
              qu1 = modify_job qu (iKey item) upd;
              s1 = s\<lparr>q := Some qu1,
                     limiter := snd (updateAfterExit (JobEndState cr) job (limiter s))\<rparr>
          in (case Bury qu1 (iKey item) of
                Inl e \<Rightarrow> (None, Some ErrInternalError, s1)
              | Inr qu2 \<Rightarrow>
                  (let s2 = decrementGroupCount (s1\<lparr>q := Some qu2\<rparr>) (schedulerGroup (upd job))
                   in (None, None,
                       s2\<lparr>db := updateJobAfterExit (db s2) (upd job) (StdOutC cr) (StdErrC cr)
                                  True\<rparr>))))"

definition kick_writes :: "Job \<Rightarrow> Job" where
  "kick_writes j = j\<lparr>UntilBuried := Retries j + 1, State := JobStateReady\<rparr>"

fun jkick_loop :: "string list \<Rightarrow> Queue \<Rightarrow> DB \<Rightarrow> int \<Rightarrow> Queue \<times> DB \<times> int" where
  "jkick_loop [] qu d kicked = (qu, d, kicked)"
| "jkick_loop (jobkey # keys) qu d kicked =
     (case Get qu jobkey of
        Inl e \<Rightarrow> jkick_loop keys qu d kicked
      | Inr item \<Rightarrow>
          if iState item \<noteq> ItemStateBury then jkick_loop keys qu d kicked
          else (case Kick qu jobkey of
                  Inl e \<Rightarrow> jkick_loop keys qu d kicked
                | Inr qu1 \<Rightarrow>
                    jkick_loop keys (modify_job qu1 (iKey item) kick_writes)
                      (updateJobAfterChange d (kick_writes (iData item))) (kicked + 1)))"

definition jkick :: "Server \<Rightarrow> Queue \<Rightarrow> clientRequest \<Rightarrow> outcome" where
  "jkick s qu cr =
     (case Keys cr of
        None \<Rightarrow> (None, Some ErrBadRequest, s)
      | Some keys \<Rightarrow>
          (case jkick_loop keys qu (db s) 0 of
             (qu1, d1, kicked) \<Rightarrow>
               (Some (empty_response\<lparr>Existed := kicked\<rparr>), None, s\<lparr>q := Some qu1, db := d1\<rparr>)))"

definition add :: "Server \<Rightarrow> clientRequest \<Rightarrow> outcome" where
  "add s cr =
     (case (Env cr, Jobs cr) of
        (Some env, Some jobs) \<Rightarrow>
          (case storeEnv (db s) env of
             (None, d1) \<Rightarrow> (None, Some ErrDBError, s\<lparr>db := d1\<rparr>)
           | (Some envkey, d1) \<Rightarrow>
               (case createJobs (s\<lparr>db := d1\<rparr>) jobs envkey (IgnoreComplete cr) of
                  (Inl thisSrerr, s1) \<Rightarrow> (None, Some thisSrerr, s1)
                | (Inr (added, dups, alreadyComplete), s1) \<Rightarrow>
                    (Some (empty_response\<lparr>Added := added, Existed := dups + alreadyComplete\<rparr>),
                     None, s1)))
      | _ \<Rightarrow> (None, Some ErrBadRequest, s))"

definition dispatch ::
  "Deps \<Rightarrow> Time \<Rightarrow> (Server \<Rightarrow> Server) list \<Rightarrow> Server \<Rightarrow> Queue \<Rightarrow> bool \<Rightarrow> clientRequest
    \<Rightarrow> outcome option" where
  \<comment> \<open>The \<^verbatim>\<open>switch cr.Method\<close> of \<^verbatim>\<open>handleRequest\<close>.\<close>
  "dispatch D now ws s qu draining cr =
     (if Method cr = ''ping''
      then Some (Some (empty_response\<lparr>SInfo := Some (ServerInfo s)\<rparr>), None, s)
      else if Method cr = ''add'' then Some (add s cr)
      else if Method cr = ''reserve'' then reserve D ws s qu draining cr
      else if Method cr = ''jstart'' then Some (jstart D now s qu cr)
      else if Method cr = ''jtouch'' then Some (jtouch s qu cr)
      else if Method cr = ''jarchive'' then Some (jarchive s qu cr)
      else if Method cr = ''jrelease'' then Some (jrelease s qu cr)
      else if Method cr = ''jbury'' then Some (jbury s qu cr)
      else if Method cr = ''jkick'' then Some (jkick s qu cr)
      else if Method cr \<in> set [''backup'', ''pause'', ''resume'', ''drain'', ''shutdown'',
                              ''upload'', ''jdel'', ''jmod'', ''jkill'', ''getbc'', ''getbr'',
                              ''getin'', ''getbcs'', ''getsetlg'']
      then Some (other_methods D s cr)
      else Some (None, Some ErrUnknownCommand, s))"

definition handleRequest ::
  "Deps \<Rightarrow> Time \<Rightarrow> (Server \<Rightarrow> Server) list \<Rightarrow> Server \<Rightarrow> clientRequest
    \<Rightarrow> (serverResponse \<times> Server) option" where
  \<comment> \<open>The 2019 \<^verbatim>\<open>handleRequest\<close>, from the decoded request on. \<open>now\<close> is the clock,
      \<open>ws\<close> what other tasks do while a \<^verbatim>\<open>reserve\<close> polls; \<open>None\<close> is a request
      that gets no reply.\<close>
  "handleRequest D now ws s cr =
     (let draining = drain s
      in if (length (Token cr) \<noteq> tokenLength D \<or> \<not> tokenMatches (Token cr) (token s)) \<and>
            Method cr \<noteq> ''ping''
         then Some (reply_of (None, Some ErrPermissionDenied, s))
         else (case q s of
                 None \<Rightarrow> Some (reply_of (None, Some ErrClosedStop, s))
               | Some qu \<Rightarrow>
                   if \<not> up s \<and> \<not> draining then Some (reply_of (None, Some ErrClosedStop, s))
                   else map_option reply_of (dispatch D now ws s qu draining cr)))"

subsection \<open>Observations used in the statements\<close>

definition queue_items :: "Server \<Rightarrow> string \<Rightarrow> Item list" where
  \<comment> \<open>The items of the named queue of the 2016 revision; a queue that does not exist
      holds none.\<close>
  "queue_items s name = (case qs s name of None \<Rightarrow> [] | Some qu \<Rightarrow> items qu)"

definition write_fails :: "DB \<Rightarrow> nat \<Rightarrow> bool" where
  \<comment> \<open>Whether the \<open>n\<close>-th fallible database write to come (from 0) fails.\<close>
  "write_fails d n = (n < length (faults d) \<and> faults d ! n)"

definition buried :: "Queue \<Rightarrow> string \<Rightarrow> bool" where
  \<comment> \<open>Whether the queue holds the key in its bury sub-queue.\<close>
  "buried qu k = (case lookup qu k of None \<Rightarrow> False | Some i \<Rightarrow> iState i = ItemStateBury)"

definition layout :: "Queue \<Rightarrow> (string \<times> ItemState \<times> nat \<times> int \<times> int \<times> string) list" where
  \<comment> \<open>What the queue itself keeps of its items: key, sub-queue and parameters, in
      order. The job an item points to is not part of it.\<close>
  "layout qu =
     map (\<lambda>i. (iKey i, iState i, iPriority i, iDelay i, iTTR i, iReserveGroup i)) (items qu)"

subsection \<open>Sample data\<close>

text \<open>Concrete jobs, queues and servers, on which the theorems below are instantiated.\<close>

definition job0 :: Job where
  "job0 =
     \<lparr>Cmd = ''echo x'', Cwd = ''/tmp'', CwdMatters = False, RepGroup = ''rg'',
      Memory = 100, Time = 1, CPUs = 1, Priority = 0, Retries = 2, UntilBuried = 3,
      State = JobStateReady, FailReason = '''', ReservedBy = 0, Exited = False,
      Exitcode = 0, Pid = 0, Host = '''', HostID = '''', HostIP = '''', StartTime = 0,
      EndTime = 0, Walltime = 0, PeakRAM = 0, PeakDisk = 0, Attempts = 0,
      schedulerGroup = ''g'', killCalled = False, Lost = False, EnvKey = '''',
      EnvC = '''', EnvCRetrieved = False, incrementedLimitGroups = []\<rparr>"

definition item0 :: "ItemState \<Rightarrow> Job \<Rightarrow> Item" where
  "item0 st j =
     \<lparr>iKey = jobKey j, iData = j, iPriority = Priority j, iDelay = 0,
      iTTR = ServerItemTTR, iState = st, iReserveGroup = schedulerGroup j\<rparr>"

definition queue0 :: "Item list \<Rightarrow> Queue" where
  "queue0 is = \<lparr>Name = ''cmds'', items = is, closed = False\<rparr>"

definition db0 :: "bool list \<Rightarrow> DB" where
  "db0 fs = \<lparr>envs = Map.empty, live = Map.empty, complete = Map.empty, faults = fs\<rparr>"

definition req0 :: Requirements where
  "req0 = \<lparr>RMemory = 100, RTime = 1, RCPUs = 1, ROther = ''''\<rparr>"

definition server0 :: "Item list \<Rightarrow> int \<Rightarrow> bool list \<Rightarrow> Server" where
  \<comment> \<open>A server that is up, with the given items in its queue, the given count for the
      scheduler group \<open>g\<close> and the given database faults to come.\<close>
  "server0 is n fs =
     \<lparr>up = True, drain = False, token = ''secret'',
      q = Some (queue0 is), qs = [''cmds'' \<mapsto> queue0 is],
      rpl = [''rg'' \<mapsto> [''echo x'' \<mapsto> True]],
      sgroupcounts = [''g'' \<mapsto> n], sgtr = [''g'' \<mapsto> req0],
      rc = ''runner --queue %s --group %s'', db = db0 fs,
      limiter = \<lparr>limits = Map.empty, counts = (\<lambda>g. 0)\<rparr>,
      killRunners = False,
      ServerInfo = \<lparr>Addr = ''10.0.0.1:11301'', Host' = ''host'', Port = ''11301'', PID = 1\<rparr>,
      scheduled = []\<rparr>"

definition running_job :: "int \<Rightarrow> int \<Rightarrow> Job" where
  \<comment> \<open>\<open>job0\<close> reserved by client 7, started and exited with the given code, with the
      given number of attempts left.\<close>
  "running_job code ub =
     job0\<lparr>ReservedBy := 7, Exited := True, Exitcode := code, UntilBuried := ub,
          StartTime := 5, EndTime := 9, State := JobStateRunning\<rparr>"

definition request0 :: "string \<Rightarrow> clientRequest" where
  \<comment> \<open>A request of client 7 about \<open>job0\<close>, with the server's token.\<close>
  "request0 m =
     \<lparr>Method = m, Token = ''secret'', QueueName = ''cmds'', Jobs = None,
      Job = Some (job0\<lparr>FailReason := ''boom''\<rparr>), StdOutC = '''', StdErrC = '''',
      Keys = None, Env = None, ClientID = 7, SchedulerGroup = '''', FirstReserve = False,
      Timeout = 30,
      JobEndState = \<lparr>Stdout = '''', Stderr = '''', esExited = True, esExitcode = 0,
                     esEndTime = 9\<rparr>,
      IgnoreComplete = False\<rparr>"

definition deps0 :: Deps where
  \<comment> \<open>Simple stand-ins for the parameters: one scheduler group for every job, hosts
      that are their own ids, the separators \<open>~\<close> and \<open>,\<close>.\<close>
  "deps0 =
     \<lparr>Place = (\<lambda>r. ''g''), HostToID = (\<lambda>h. h), tokenLength = 6, ClientReleaseDelay = 30,
      jobSchedLimitGroupSeparator = ''~'', jobLimitGroupSeparator = '','',
      other_methods = (\<lambda>s cr. (None, None, s))\<rparr>"

definition add_request0 :: clientRequest where
  \<comment> \<open>A request to add \<open>job0\<close> with an environment.\<close>
  "add_request0 = (request0 ''add'')\<lparr>Env := Some ''PATH=/bin'', Jobs := Some [job0], Job := None\<rparr>"

definition reserve_request0 :: "bool \<Rightarrow> clientRequest" where
  \<comment> \<open>A \<^verbatim>\<open>reserve\<close> request of client 7 for the scheduler group \<open>g\<close>.\<close>
  "reserve_request0 first =
     (request0 ''reserve'')\<lparr>Job := None, SchedulerGroup := ''g'', FirstReserve := first\<rparr>"

definition limited_job0 :: Job where
  \<comment> \<open>\<open>job0\<close> in a scheduler group that carries the limit groups \<open>a\<close> and \<open>b\<close>.\<close>
  "limited_job0 = job0\<lparr>schedulerGroup := ''g~a,b''\<rparr>"

definition full_limiter :: Limiter where
  \<comment> \<open>A limiter whose group \<open>a\<close> is at its limit.\<close>
  "full_limiter = \<lparr>limits = [''a'' \<mapsto> 1], counts = (\<lambda>g. if g = ''a'' then 1 else 0)\<rparr>"

definition kick_queue0 :: "Item list" where
  \<comment> \<open>A buried job without attempts left and a ready job.\<close>
  "kick_queue0 =
     [item0 ItemStateBury (job0\<lparr>UntilBuried := 0, State := JobStateBuried\<rparr>),
      item0 ItemStateReady (job0\<lparr>Cmd := ''ls'', UntilBuried := 1\<rparr>)]"

definition kick_request0 :: clientRequest where
  \<comment> \<open>A request to kick the buried job (named twice), the ready job and a job that
      the queue does not hold.\<close>
  "kick_request0 =
     (request0 ''jkick'')\<lparr>Job := None, Keys := Some [''echo x'', ''ls'', ''missing'', ''echo x'']\<rparr>"

definition failed_request0 :: "string \<Rightarrow> clientRequest" where
  \<comment> \<open>The request of client 7 about \<open>job0\<close>, reporting an exit with code 1.\<close>
  "failed_request0 m =
     (request0 m)\<lparr>JobEndState := \<lparr>Stdout = '''', Stderr = '''', esExited = True,
                                    esExitcode = 1, esEndTime = 9\<rparr>\<rparr>"

definition limited_request0 :: clientRequest where
  \<comment> \<open>A \<^verbatim>\<open>reserve\<close> request of client 7 for the scheduler group of
      \<open>limited_job0\<close>, not the client's first.\<close>
  "limited_request0 = (reserve_request0 False)\<lparr>SchedulerGroup := ''g~a,b''\<rparr>"

definition limited_server0 :: Server where
  \<comment> \<open>A server with \<open>limited_job0\<close> ready, count 1 for its group, and the limit group
      \<open>a\<close> at its limit.\<close>
  "limited_server0 =
     (server0 [item0 ItemStateReady limited_job0] 0 [])
       \<lparr>sgroupcounts := [''g~a,b'' \<mapsto> 1], limiter := full_limiter\<rparr>"

section \<open>Properties\<close>

subsection \<open>Facts about the queue primitive, the limiter and the group counts\<close>

lemma find_modify:
  "(\<And>i. iKey (f i) = iKey i) \<Longrightarrow>
   find (\<lambda>i. iKey i = k') (map (\<lambda>i. if iKey i = k then f i else i) xs) =
     (if k' = k then map_option f (find (\<lambda>i. iKey i = k) xs) else find (\<lambda>i. iKey i = k') xs)"
  by (induction xs) auto

lemma lookup_modify_item:
  "(\<And>i. iKey (f i) = iKey i) \<Longrightarrow>
   lookup (modify_item qu k f) k' = (if k' = k then map_option f (lookup qu k) else lookup qu k')"
  by (simp add: lookup_def modify_item_def find_modify)

lemma closed_modify_item [simp]: "closed (modify_item qu k f) = closed qu"
  by (simp add: modify_item_def)

lemma lookup_modify_job:
  "lookup (modify_job qu k f) k' =
     (if k' = k then map_option (\<lambda>i. i\<lparr>iData := f (iData i)\<rparr>) (lookup qu k) else lookup qu k')"
  by (simp add: modify_job_def lookup_modify_item)

lemma closed_modify_job [simp]: "closed (modify_job qu k f) = closed qu"
  by (simp add: modify_job_def)

lemma lookup_key: "lookup qu k = Some i \<Longrightarrow> iKey i = k"
  by (auto simp: lookup_def dest: find_Some_iff [THEN iffD1])

lemma getij_found:
  assumes "Job cr = Some rj" "\<not> closed qu" "lookup qu (jobKey rj) = Some item"
    "iState item = ItemStateRun" "ReservedBy (iData item) = ClientID cr"
  shows "getij qu cr = Inr (item, iData item)"
  using assms by (simp add: getij_def Get_def)

lemma move_item_ok:
  assumes "\<not> closed qu" "lookup qu k = Some i" "iState i \<in> set src"
  shows "move_item qu k src dst = Inr (modify_item qu k (\<lambda>i. i\<lparr>iState := dst\<rparr>))"
  using assms by (simp add: move_item_def)

lemma sample_key [simp]: "jobKey job0 = ''echo x''" "jobKey (running_job c u) = ''echo x''"
  "jobKey (job0\<lparr>FailReason := r\<rparr>) = ''echo x''"
  by (simp_all add: jobKey_def job0_def running_job_def)

lemma q_decrementGroupCount [simp]: "q (decrementGroupCount s g) = q s"
  by (simp add: decrementGroupCount_def Let_def)

lemma Decrement_Increment:
  "Increment l gs = (True, l') \<Longrightarrow> Decrement l' gs = l"
  by (auto simp: Increment_def Decrement_def split: if_splits)

subsection \<open>Scheduler-group counts (2016 revision)\<close>

lemma count_of_decrement:
  assumes "\<forall>g. 0 \<le> count_of s g"
  shows "0 \<le> count_of (decrementGroupCount_old s job qn) g"
  using assms [rule_format, of g]
  by (auto simp: decrementGroupCount_old_def count_of_def Let_def split: option.splits)

lemma bump_pos:
  "\<forall>(g, c) \<in> set groups. 0 < c \<Longrightarrow> \<forall>(g, c) \<in> set (bump groups h). 0 < c"
  by (induction groups h rule: bump.induct) auto

lemma sgroupcounts_modify_job_in [simp]:
  "sgroupcounts (modify_job_in s n k f) = sgroupcounts s"
  by (simp add: modify_job_in_def put_queue_def split: option.splits)

lemma place_all_counts:
  "place_all D qn js s groups = (s', groups') \<Longrightarrow> \<forall>(g, c) \<in> set groups. 0 < c \<Longrightarrow>
     sgroupcounts s' = sgroupcounts s \<and> (\<forall>(g, c) \<in> set groups'. 0 < c)"
proof (induction D qn js s groups rule: place_all.induct)
  case (1 D queuename s groups)
  then show ?case by simp
next
  case (2 D queuename k job r s groups)
  then show ?case
    by (simp add: Let_def bump_pos split: if_splits)
qed

lemma schedule_groups_counts:
  "\<forall>(g, c) \<in> set groups. 0 < c \<Longrightarrow> \<forall>g. 0 \<le> count_of s g \<Longrightarrow>
     0 \<le> count_of (schedule_groups qn groups s) h"
proof (induction qn groups s rule: schedule_groups.induct)
  case (1 queuename s)
  then show ?case by simp
next
  case (2 queuename g c r s)
  then show ?case by (auto simp: count_of_def)
qed

lemma count_of_callback:
  assumes "\<forall>g. 0 \<le> count_of s g"
  shows "0 \<le> count_of (readyAddedCallback_old D s qn js) g"
proof (cases "place_all D qn js s []")
  case (Pair s1 groups)
  from place_all_counts [OF Pair] have c: "sgroupcounts s1 = sgroupcounts s"
    and p: "\<forall>(g, c) \<in> set groups. 0 < c" by auto
  from c assms have "\<forall>g. 0 \<le> count_of s1 g" by (simp add: count_of_def)
  with p show ?thesis
    using Pair assms c by (auto simp: readyAddedCallback_old_def schedule_groups_counts)
qed

text \<open>
  Claim C3, as the code has it. The two writers of \<^verbatim>\<open>sgroupcounts\<close> are
  \<^verbatim>\<open>decrementGroupCount\<close> and the ready-added callback; the map starts empty. Both
  keep every count non-negative (\<open>count_of\<close> reads an absent entry as 0). When a
  decrement brings the count of the job's group to 0 or below, the entries of
  \<^verbatim>\<open>sgroupcounts\<close> and \<^verbatim>\<open>sgtr\<close> for the group are deleted and the scheduler is
  not called; when the count stays positive, the new count is stored and
  \<^verbatim>\<open>Schedule\<close> is called once, with the new count, as the last call.
\<close>

theorem decrementGroupCount_old_counts:
  assumes "\<forall>g. 0 \<le> count_of s g"
  shows "(\<forall>g. 0 \<le> count_of (decrementGroupCount_old s job qn) g) \<and>
         (\<forall>g. 0 \<le> count_of (readyAddedCallback_old D s qn js) g) \<and>
         (count_of s (schedulerGroup job) \<le> 1 \<longrightarrow>
            sgroupcounts (decrementGroupCount_old s job qn) (schedulerGroup job) = None \<and>
            sgtr (decrementGroupCount_old s job qn) (schedulerGroup job) = None \<and>
            scheduled (decrementGroupCount_old s job qn) = scheduled s) \<and>
         (1 < count_of s (schedulerGroup job) \<longrightarrow>
            sgroupcounts (decrementGroupCount_old s job qn) (schedulerGroup job) =
              Some (count_of s (schedulerGroup job) - 1) \<and>
            sgtr (decrementGroupCount_old s job qn) = sgtr s \<and>
            scheduled (decrementGroupCount_old s job qn) =
              scheduled s @
                [\<lparr>scFormat = rc s, scArgs = [qn, schedulerGroup job],
                  scReq = sgtr s (schedulerGroup job),
                  scCount = count_of s (schedulerGroup job) - 1\<rparr>])"
proof (intro conjI allI impI)
  fix g show "0 \<le> count_of (decrementGroupCount_old s job qn) g"
    by (rule count_of_decrement [OF assms])
next
  fix g show "0 \<le> count_of (readyAddedCallback_old D s qn js) g"
    by (rule count_of_callback [OF assms])
qed (simp_all add: decrementGroupCount_old_def Let_def)

text \<open>
  The theorem at a server whose group \<open>g\<close> has count 1 (the decrement deletes both
  entries and calls nothing) and at one whose group has count 2 (the decrement stores 1
  and calls \<^verbatim>\<open>Schedule\<close> with 1).
\<close>

theorem decrementGroupCount_old_counts_witness:
  "(\<forall>g. 0 \<le> count_of (server0 [] 1 []) g) \<and>
   (\<forall>g. 0 \<le> count_of (decrementGroupCount_old (server0 [] 1 []) job0 ''cmds'') g) \<and>
   sgroupcounts (decrementGroupCount_old (server0 [] 1 []) job0 ''cmds'') ''g'' = None \<and>
   sgtr (decrementGroupCount_old (server0 [] 1 []) job0 ''cmds'') ''g'' = None \<and>
   scheduled (decrementGroupCount_old (server0 [] 1 []) job0 ''cmds'') = [] \<and>
   (\<forall>g. 0 \<le> count_of (server0 [] 2 []) g) \<and>
   sgroupcounts (decrementGroupCount_old (server0 [] 2 []) job0 ''cmds'') ''g'' = Some 1 \<and>
   scheduled (decrementGroupCount_old (server0 [] 2 []) job0 ''cmds'') =
     [\<lparr>scFormat = ''runner --queue %s --group %s'', scArgs = [''cmds'', ''g''],
       scReq = Some req0, scCount = 1\<rparr>]"
proof -
  have h1: "\<forall>g. 0 \<le> count_of (server0 [] 1 []) g"
    by (simp add: count_of_def server0_def)
  have h2: "\<forall>g. 0 \<le> count_of (server0 [] 2 []) g"
    by (simp add: count_of_def server0_def)
  have g: "schedulerGroup job0 = ''g''" by (simp add: job0_def)
  have c: "count_of (server0 [] n []) ''g'' = n" "scheduled (server0 [] n []) = []"
    "rc (server0 [] n []) = ''runner --queue %s --group %s''"
    "sgtr (server0 [] n []) ''g'' = Some req0" for n
    by (simp_all add: count_of_def server0_def)
  have "sgroupcounts (decrementGroupCount_old (server0 [] 1 []) job0 ''cmds'') ''g'' = None \<and>
        sgtr (decrementGroupCount_old (server0 [] 1 []) job0 ''cmds'') ''g'' = None \<and>
        scheduled (decrementGroupCount_old (server0 [] 1 []) job0 ''cmds'') = [] \<and>
        (\<forall>g. 0 \<le> count_of (decrementGroupCount_old (server0 [] 1 []) job0 ''cmds'') g)"
    using decrementGroupCount_old_counts [OF h1, of job0 "''cmds''"] by (simp add: g c)
  moreover
  have "sgroupcounts (decrementGroupCount_old (server0 [] 2 []) job0 ''cmds'') ''g'' = Some 1 \<and>
        scheduled (decrementGroupCount_old (server0 [] 2 []) job0 ''cmds'') =
          [\<lparr>scFormat = ''runner --queue %s --group %s'', scArgs = [''cmds'', ''g''],
            scReq = Some req0, scCount = 1\<rparr>]"
    using decrementGroupCount_old_counts [OF h2, of job0 "''cmds''"] by (simp add: g c)
  ultimately show ?thesis using h1 h2 by simp
qed

text \<open>
  Claim C3 as stated fails: on a server whose group \<open>g\<close> has count 1 and whose
  scheduler has not been called yet, the decrement brings the count to 0 and no call
  of \<^verbatim>\<open>Schedule\<close> with count 0 is made.
\<close>

theorem schedule_zero_counterexample:
  "count_of (server0 [] 1 []) ''g'' = 1 \<and>
   count_of (decrementGroupCount_old (server0 [] 1 []) job0 ''cmds'') ''g'' = 0 \<and>
   \<not> (\<exists>c. c \<in> set (scheduled (decrementGroupCount_old (server0 [] 1 []) job0 ''cmds'')) \<and>
           scCount c = 0)"
  by (simp add: decrementGroupCount_old_def count_of_def server0_def job0_def Let_def)

subsection \<open>jrelease (both revisions)\<close>

text \<open>
  The 2016 handler releases the job itself: the fail reason is written, a job that
  exited with a non-zero code has one attempt less, and the item is buried when no
  attempt is left, and otherwise gets the request's \<^verbatim>\<open>Timeout\<close> as its delay and
  is released.
\<close>

lemma jrelease_old_released:
  assumes "Method cr = ''jrelease''" and "qs s (QueueName cr) = Some qu"
    and "Job cr = Some rj" and "\<not> closed qu" and "lookup qu (jobKey rj) = Some item"
    and "iState item = ItemStateRun" and "ReservedBy (iData item) = ClientID cr"
  shows "\<exists>qu' item'.
           handleRequest_old D s cr = (empty_response, s\<lparr>qs := (qs s)(QueueName cr \<mapsto> qu')\<rparr>) \<and>
           lookup qu' (jobKey rj) = Some item' \<and>
           FailReason (iData item') = FailReason rj \<and>
           UntilBuried (iData item') =
             (if Exited (iData item) \<and> Exitcode (iData item) \<noteq> 0
              then UntilBuried (iData item) - 1 else UntilBuried (iData item)) \<and>
           (if UntilBuried (iData item') \<le> 0
            then iState item' = ItemStateBury \<and> iDelay item' = iDelay item
            else iState item' = ItemStateDelay \<and> iDelay item' = Timeout cr)"
proof -
  let ?k = "jobKey rj"
  let ?upd = "release_writes (FailReason rj)"
  let ?qu1 = "modify_job qu ?k ?upd"
  let ?item1 = "item\<lparr>iData := ?upd (iData item)\<rparr>"
  have key: "iKey item = ?k" using assms(5) by (rule lookup_key)
  have g: "getij qu cr = Inr (item, iData item)" using assms(3-7) by (rule getij_found)
  have rj: "reqJob cr = rj" using assms(3) by (simp add: reqJob_def)
  have sel: "select_queue s (QueueName cr) = (qu, s)" using assms(2) by (simp add: select_queue_def)
  have l1: "lookup ?qu1 ?k = Some ?item1" by (simp add: lookup_modify_job assms(5))
  have c1: "\<not> closed ?qu1" using assms(4) by simp
  have st1: "iState ?item1 = ItemStateRun" using assms(6) by simp
  show ?thesis
  proof (cases "UntilBuried (?upd (iData item)) \<le> 0")
    case True
    have b: "Bury ?qu1 ?k = Inr (modify_item ?qu1 ?k (\<lambda>i. i\<lparr>iState := ItemStateBury\<rparr>))"
      unfolding Bury_def by (rule move_item_ok [OF _ l1]) (use c1 st1 in simp_all)
    have l2: "lookup (modify_item ?qu1 ?k (\<lambda>i. i\<lparr>iState := ItemStateBury\<rparr>)) ?k
                = Some (?item1\<lparr>iState := ItemStateBury\<rparr>)"
      by (simp add: lookup_modify_item l1)
    have res: "handleRequest_old D s cr =
            (empty_response,
             s\<lparr>qs := (qs s)(QueueName cr \<mapsto> modify_item ?qu1 ?k (\<lambda>i. i\<lparr>iState := ItemStateBury\<rparr>))\<rparr>)"
      using True assms(1) b
      by (simp add: handleRequest_old_def sel jrelease_old_def g key rj reply_of_def put_queue_def Let_def)
    show ?thesis
      by (rule exI [of _ "modify_item ?qu1 ?k (\<lambda>i. i\<lparr>iState := ItemStateBury\<rparr>)"],
          rule exI [of _ "?item1\<lparr>iState := ItemStateBury\<rparr>"])
         (use res l2 True in \<open>simp add: release_writes_def Let_def\<close>)
  next
    case False
    let ?qu2 = "modify_item ?qu1 ?k (\<lambda>i. i\<lparr>iDelay := Timeout cr\<rparr>)"
    let ?item2 = "?item1\<lparr>iDelay := Timeout cr\<rparr>"
    let ?qu3 = "modify_item ?qu2 ?k (\<lambda>i. i\<lparr>iState := ItemStateDelay\<rparr>)"
    have sd: "SetDelay ?qu1 ?k (Timeout cr) = Inr ?qu2"
      using c1 l1 by (simp add: SetDelay_def)
    have l2: "lookup ?qu2 ?k = Some ?item2" by (simp add: lookup_modify_item l1)
    have r: "Release ?qu2 ?k = Inr ?qu3"
      unfolding Release_def by (rule move_item_ok [OF _ l2]) (use c1 st1 in simp_all)
    have l3: "lookup ?qu3 ?k = Some (?item2\<lparr>iState := ItemStateDelay\<rparr>)"
      by (simp add: lookup_modify_item l2)
    have res: "handleRequest_old D s cr = (empty_response, s\<lparr>qs := (qs s)(QueueName cr \<mapsto> ?qu3)\<rparr>)"
      using False assms(1) sd r
      by (simp add: handleRequest_old_def sel jrelease_old_def g key rj reply_of_def put_queue_def Let_def)
    show ?thesis
      by (rule exI [of _ ?qu3], rule exI [of _ "?item2\<lparr>iState := ItemStateDelay\<rparr>"])
         (use res l3 False in \<open>simp add: release_writes_def Let_def\<close>)
  qed
qed

text \<open>
  The 2019 handler hands the job to \<^verbatim>\<open>releaseJob\<close>. Whatever that method does,
  the request's \<^verbatim>\<open>Timeout\<close> is not among its arguments: the outcome of the case
  is the same for every \<^verbatim>\<open>Timeout\<close>.
\<close>

lemma jrelease_with_Timeout:
  "jrelease_with rel s qu (cr\<lparr>Timeout := t\<rparr>) = jrelease_with rel s qu cr"
  by (simp add: jrelease_with_def getij_def reqJob_def
        cong: option.case_cong sum.case_cong prod.case_cong if_cong)

lemma handleRequest_jrelease_Timeout:
  "Method cr = ''jrelease'' \<Longrightarrow>
   handleRequest D now ws s (cr\<lparr>Timeout := t\<rparr>) = handleRequest D now ws s cr"
  by (simp add: handleRequest_def dispatch_def jrelease_def jrelease_with_Timeout Let_def
        cong: option.case_cong if_cong)

lemma jrelease_released:
  assumes "Method cr = ''jrelease''" and "q s = Some qu"
    and "length (Token cr) = tokenLength D" and "Token cr = token s" and "up s \<or> drain s"
    and "Job cr = Some rj" and "\<not> closed qu" and "lookup qu (jobKey rj) = Some item"
    and "iState item = ItemStateRun" and "ReservedBy (iData item) = ClientID cr"
  shows "\<exists>s' qu' item'.
           handleRequest D now ws s cr = Some (empty_response, s') \<and>
           q s' = Some qu' \<and> lookup qu' (jobKey rj) = Some item' \<and>
           FailReason (iData item') = FailReason rj \<and>
           Exited (iData item') = esExited (JobEndState cr) \<and>
           Exitcode (iData item') = esExitcode (JobEndState cr) \<and>
           UntilBuried (iData item') =
             (if Exited (iData item') \<and> Exitcode (iData item') \<noteq> 0
              then UntilBuried (iData item) - 1 else UntilBuried (iData item)) \<and>
           iState item' = (if UntilBuried (iData item') \<le> 0 then ItemStateBury else ItemStateDelay) \<and>
           iDelay item' = iDelay item"
proof -
  let ?k = "jobKey rj"
  let ?es = "(JobEndState cr)\<lparr>Stdout := StdOutC cr, Stderr := StdErrC cr\<rparr>"
  let ?upd = "\<lambda>j. release_writes (FailReason rj) (fst (updateAfterExit ?es j (limiter s)))"
  let ?qu1 = "modify_job qu ?k ?upd"
  let ?item1 = "item\<lparr>iData := ?upd (iData item)\<rparr>"
  have key: "iKey item = ?k" using assms(8) by (rule lookup_key)
  have g: "getij qu cr = Inr (item, iData item)" using assms(6-10) by (rule getij_found)
  have rj: "reqJob cr = rj" using assms(6) by (simp add: reqJob_def)
  have gate: "handleRequest D now ws s cr = Some (reply_of (jrelease s qu cr))"
    using assms(1-5)
    by (auto simp: handleRequest_def tokenMatches_def dispatch_def Let_def)
  have l1: "lookup ?qu1 ?k = Some ?item1" by (simp add: lookup_modify_job assms(8))
  have c1: "\<not> closed ?qu1" using assms(7) by simp
  have st1: "iState ?item1 = ItemStateRun" using assms(9) by simp
  have w: "FailReason (?upd j) = FailReason rj"
    "Exited (?upd j) = esExited (JobEndState cr)"
    "Exitcode (?upd j) = esExitcode (JobEndState cr)"
    "UntilBuried (?upd j) =
       (if esExited (JobEndState cr) \<and> esExitcode (JobEndState cr) \<noteq> 0
        then UntilBuried j - 1 else UntilBuried j)" for j
    by (simp_all add: release_writes_def updateAfterExit_def Let_def)
  show ?thesis
  proof (cases "UntilBuried (?upd (iData item)) \<le> 0")
    case True
    let ?qu2 = "modify_item ?qu1 ?k (\<lambda>i. i\<lparr>iState := ItemStateBury\<rparr>)"
    have b: "Bury ?qu1 ?k = Inr ?qu2"
      unfolding Bury_def by (rule move_item_ok [OF _ l1]) (use c1 st1 in simp_all)
    have l2: "lookup ?qu2 ?k = Some (?item1\<lparr>iState := ItemStateBury\<rparr>)"
      by (simp add: lookup_modify_item l1)
    obtain s' where res: "jrelease s qu cr = (None, None, s')" and qs': "q s' = Some ?qu2"
      using True b assms(2,8)
      by (simp add: jrelease_def jrelease_with_def g key rj releaseJob_def Let_def)
    show ?thesis
      by (rule exI [of _ s'], rule exI [of _ ?qu2], rule exI [of _ "?item1\<lparr>iState := ItemStateBury\<rparr>"])
         (use res qs' l2 True in \<open>simp add: gate reply_of_def w\<close>)
  next
    case False
    let ?qu2 = "modify_item ?qu1 ?k (\<lambda>i. i\<lparr>iState := ItemStateDelay\<rparr>)"
    have b: "Release ?qu1 ?k = Inr ?qu2"
      unfolding Release_def by (rule move_item_ok [OF _ l1]) (use c1 st1 in simp_all)
    have l2: "lookup ?qu2 ?k = Some (?item1\<lparr>iState := ItemStateDelay\<rparr>)"
      by (simp add: lookup_modify_item l1)
    obtain s' where res: "jrelease s qu cr = (None, None, s')" and qs': "q s' = Some ?qu2"
      using False b assms(2,8)
      by (simp add: jrelease_def jrelease_with_def g key rj releaseJob_def Let_def)
    show ?thesis
      by (rule exI [of _ s'], rule exI [of _ ?qu2], rule exI [of _ "?item1\<lparr>iState := ItemStateDelay\<rparr>"])
         (use res qs' l2 False in \<open>simp add: gate reply_of_def w\<close>)
  qed
qed

text \<open>
  Claim C2, as the code has it, for both revisions. The request is a
  \<^verbatim>\<open>jrelease\<close> whose job is found in the queue, in the run sub-queue, reserved
  by the requesting client.
  \<^item> 2016 handler (the queue is the one the request names): the reply carries no error;
    the job has the request's fail reason; its \<^verbatim>\<open>UntilBuried\<close> is one less than
    before exactly when the job had exited with a non-zero exit code; the item is in the
    bury sub-queue if the new \<^verbatim>\<open>UntilBuried\<close> is at most 0, and otherwise in the
    delay sub-queue with the request's \<^verbatim>\<open>Timeout\<close> as its delay.
  \<^item> 2019 handler (the request carries the server's token, the server is up or
    draining): the reply carries no error; the job has the request's fail reason and
    the exit observations of the request's end state; its \<^verbatim>\<open>UntilBuried\<close> is one
    less than before exactly when that exit has a non-zero code; the item is in the bury
    sub-queue if the new \<^verbatim>\<open>UntilBuried\<close> is at most 0 and otherwise in the delay
    sub-queue; its delay is the one it had.
  \<^item> In the 2019 handler the request's \<^verbatim>\<open>Timeout\<close> plays no part: the case gives
    the same outcome for every \<^verbatim>\<open>Timeout\<close>, whatever the method it calls does
    (\<open>rel\<close>), and so does the whole request.
\<close>

theorem jrelease_spec:
  assumes "Method cr = ''jrelease''" and "Job cr = Some rj" and "\<not> closed qu"
    and "lookup qu (jobKey rj) = Some item" and "iState item = ItemStateRun"
    and "ReservedBy (iData item) = ClientID cr"
  shows "(qs s (QueueName cr) = Some qu \<longrightarrow>
            (\<exists>qu' item'.
               handleRequest_old D s cr =
                 (empty_response, s\<lparr>qs := (qs s)(QueueName cr \<mapsto> qu')\<rparr>) \<and>
               lookup qu' (jobKey rj) = Some item' \<and>
               FailReason (iData item') = FailReason rj \<and>
               UntilBuried (iData item') =
                 (if Exited (iData item) \<and> Exitcode (iData item) \<noteq> 0
                  then UntilBuried (iData item) - 1 else UntilBuried (iData item)) \<and>
               (if UntilBuried (iData item') \<le> 0
                then iState item' = ItemStateBury \<and> iDelay item' = iDelay item
                else iState item' = ItemStateDelay \<and> iDelay item' = Timeout cr))) \<and>
         (q s = Some qu \<and> length (Token cr) = tokenLength D \<and> Token cr = token s \<and>
          (up s \<or> drain s) \<longrightarrow>
            (\<exists>s' qu' item'.
               handleRequest D now ws s cr = Some (empty_response, s') \<and>
               q s' = Some qu' \<and> lookup qu' (jobKey rj) = Some item' \<and>
               FailReason (iData item') = FailReason rj \<and>
               Exited (iData item') = esExited (JobEndState cr) \<and>
               Exitcode (iData item') = esExitcode (JobEndState cr) \<and>
               UntilBuried (iData item') =
                 (if Exited (iData item') \<and> Exitcode (iData item') \<noteq> 0
                  then UntilBuried (iData item) - 1 else UntilBuried (iData item)) \<and>
               iState item' =
                 (if UntilBuried (iData item') \<le> 0 then ItemStateBury else ItemStateDelay) \<and>
               iDelay item' = iDelay item)) \<and>
         jrelease_with rel s qu (cr\<lparr>Timeout := t\<rparr>) = jrelease_with rel s qu cr \<and>
         handleRequest D now ws s (cr\<lparr>Timeout := t\<rparr>) = handleRequest D now ws s cr"
proof (intro conjI impI)
  assume "qs s (QueueName cr) = Some qu"
  from jrelease_old_released [OF assms(1) this assms(2-6)]
  show "\<exists>qu' item'.
               handleRequest_old D s cr =
                 (empty_response, s\<lparr>qs := (qs s)(QueueName cr \<mapsto> qu')\<rparr>) \<and>
               lookup qu' (jobKey rj) = Some item' \<and>
               FailReason (iData item') = FailReason rj \<and>
               UntilBuried (iData item') =
                 (if Exited (iData item) \<and> Exitcode (iData item) \<noteq> 0
                  then UntilBuried (iData item) - 1 else UntilBuried (iData item)) \<and>
               (if UntilBuried (iData item') \<le> 0
                then iState item' = ItemStateBury \<and> iDelay item' = iDelay item
                else iState item' = ItemStateDelay \<and> iDelay item' = Timeout cr)" .
next
  assume h: "q s = Some qu \<and> length (Token cr) = tokenLength D \<and> Token cr = token s \<and>
          (up s \<or> drain s)"
  then have h1: "q s = Some qu" and h2: "length (Token cr) = tokenLength D"
    and h3: "Token cr = token s" and h4: "up s \<or> drain s" by blast+
  from jrelease_released [OF assms(1) h1 h2 h3 h4 assms(2-6)]
  show "\<exists>s' qu' item'.
               handleRequest D now ws s cr = Some (empty_response, s') \<and>
               q s' = Some qu' \<and> lookup qu' (jobKey rj) = Some item' \<and>
               FailReason (iData item') = FailReason rj \<and>
               Exited (iData item') = esExited (JobEndState cr) \<and>
               Exitcode (iData item') = esExitcode (JobEndState cr) \<and>
               UntilBuried (iData item') =
                 (if Exited (iData item') \<and> Exitcode (iData item') \<noteq> 0
                  then UntilBuried (iData item) - 1 else UntilBuried (iData item)) \<and>
               iState item' =
                 (if UntilBuried (iData item') \<le> 0 then ItemStateBury else ItemStateDelay) \<and>
               iDelay item' = iDelay item" .
next
  show "jrelease_with rel s qu (cr\<lparr>Timeout := t\<rparr>) = jrelease_with rel s qu cr"
    by (rule jrelease_with_Timeout)
next
  show "handleRequest D now ws s (cr\<lparr>Timeout := t\<rparr>) = handleRequest D now ws s cr"
    using assms(1) by (rule handleRequest_jrelease_Timeout)
qed

text \<open>
  The theorem at a job with one attempt left (it is buried) and at one with three
  attempts left (it is released), after a failed exit, in both revisions: the 2016
  handler gives the released item the delay 30 of the request, the 2019 handler leaves
  its delay 0, and answers the request with \<^verbatim>\<open>Timeout\<close> 60 as it answers the one
  with 30.
\<close>

theorem jrelease_spec_witness:
  "(\<exists>qu' item'.
      handleRequest_old deps0 (server0 [item0 ItemStateRun (running_job 1 1)] 1 [])
          (request0 ''jrelease'') =
        (empty_response,
         (server0 [item0 ItemStateRun (running_job 1 1)] 1 [])\<lparr>qs := [''cmds'' \<mapsto> qu']\<rparr>) \<and>
      lookup qu' ''echo x'' = Some item' \<and> FailReason (iData item') = ''boom'' \<and>
      UntilBuried (iData item') = 0 \<and> iState item' = ItemStateBury) \<and>
   (\<exists>qu' item'.
      handleRequest_old deps0 (server0 [item0 ItemStateRun (running_job 1 3)] 1 [])
          (request0 ''jrelease'') =
        (empty_response,
         (server0 [item0 ItemStateRun (running_job 1 3)] 1 [])\<lparr>qs := [''cmds'' \<mapsto> qu']\<rparr>) \<and>
      lookup qu' ''echo x'' = Some item' \<and> FailReason (iData item') = ''boom'' \<and>
      UntilBuried (iData item') = 2 \<and> iState item' = ItemStateDelay \<and> iDelay item' = 30) \<and>
   (\<exists>s' qu' item'.
      handleRequest deps0 0 [] (server0 [item0 ItemStateRun (running_job 0 1)] 1 [])
          (failed_request0 ''jrelease'') = Some (empty_response, s') \<and>
      q s' = Some qu' \<and> lookup qu' ''echo x'' = Some item' \<and>
      FailReason (iData item') = ''boom'' \<and> Exitcode (iData item') = 1 \<and>
      UntilBuried (iData item') = 0 \<and> iState item' = ItemStateBury) \<and>
   (\<exists>s' qu' item'.
      handleRequest deps0 0 [] (server0 [item0 ItemStateRun (running_job 0 3)] 1 [])
          (failed_request0 ''jrelease'') = Some (empty_response, s') \<and>
      q s' = Some qu' \<and> lookup qu' ''echo x'' = Some item' \<and>
      FailReason (iData item') = ''boom'' \<and> Exitcode (iData item') = 1 \<and>
      UntilBuried (iData item') = 2 \<and> iState item' = ItemStateDelay \<and> iDelay item' = 0) \<and>
   handleRequest deps0 0 [] (server0 [item0 ItemStateRun (running_job 0 3)] 1 [])
       ((failed_request0 ''jrelease'')\<lparr>Timeout := 60\<rparr>) =
     handleRequest deps0 0 [] (server0 [item0 ItemStateRun (running_job 0 3)] 1 [])
       (failed_request0 ''jrelease'')"
proof -
  have a: "Method (request0 ''jrelease'') = ''jrelease''"
    "Job (request0 ''jrelease'') = Some (job0\<lparr>FailReason := ''boom''\<rparr>)"
    "QueueName (request0 ''jrelease'') = ''cmds''" "ClientID (request0 ''jrelease'') = 7"
    "Timeout (request0 ''jrelease'') = 30"
    by (simp_all add: request0_def)
  have a': "Method (failed_request0 ''jrelease'') = ''jrelease''"
    "Job (failed_request0 ''jrelease'') = Some (job0\<lparr>FailReason := ''boom''\<rparr>)"
    "ClientID (failed_request0 ''jrelease'') = 7"
    "esExited (JobEndState (failed_request0 ''jrelease''))"
    "esExitcode (JobEndState (failed_request0 ''jrelease'')) = 1"
    by (simp_all add: failed_request0_def request0_def)
  have b: "qs (server0 is n fs) ''cmds'' = Some (queue0 is)"
    "qs (server0 is n fs) = [''cmds'' \<mapsto> queue0 is]" for "is" n fs
    by (simp_all add: server0_def)
  have b': "q (server0 is n fs) = Some (queue0 is) \<and>
            length (Token (failed_request0 ''jrelease'')) = tokenLength deps0 \<and>
            Token (failed_request0 ''jrelease'') = token (server0 is n fs) \<and>
            (up (server0 is n fs) \<or> drain (server0 is n fs))" for "is" n fs
    by (simp add: server0_def failed_request0_def request0_def deps0_def)
  have c: "\<not> closed (queue0 is)" for "is" by (simp add: queue0_def)
  have k: "jobKey (job0\<lparr>FailReason := ''boom''\<rparr>) = ''echo x''"
    by (simp add: jobKey_def job0_def)
  have d: "lookup (queue0 [item0 ItemStateRun (running_job e u)]) (jobKey (job0\<lparr>FailReason := ''boom''\<rparr>))
             = Some (item0 ItemStateRun (running_job e u))" for e u
    by (simp add: lookup_def queue0_def item0_def k)
  have e: "iState (item0 ItemStateRun j) = ItemStateRun" "iData (item0 st j) = j"
    "iDelay (item0 st j) = 0" for j st
    by (simp_all add: item0_def)
  have f: "ReservedBy (running_job x u) = 7" "Exited (running_job x u)"
    "Exitcode (running_job x u) = x" "UntilBuried (running_job x u) = u" for x u
    by (simp_all add: running_job_def)
  have o: "ReservedBy (iData (item0 ItemStateRun (running_job x u))) = ClientID (request0 ''jrelease'')"
    "ReservedBy (iData (item0 ItemStateRun (running_job x u))) = ClientID (failed_request0 ''jrelease'')"
    for x u
    by (simp_all add: e f a a')
  note old = jrelease_spec [where D = deps0, OF a(1) a(2) c d e(1) o(1), THEN conjunct1, THEN mp]
  note new1 = jrelease_spec [where D = deps0 and now = 0 and ws = "[]",
      OF a'(1) a'(2) c d [of 0 1] e(1) o(2), THEN conjunct2, THEN conjunct1, THEN mp,
      OF b' [of _ 1 "[]"]]
  note new3 = jrelease_spec [where D = deps0 and now = 0 and ws = "[]",
      OF a'(1) a'(2) c d [of 0 3] e(1) o(2), THEN conjunct2, THEN conjunct1, THEN mp,
      OF b' [of _ 1 "[]"]]
  note ind = jrelease_spec [where D = deps0 and now = 0 and ws = "[]" and t = 60
      and s = "server0 [item0 ItemStateRun (running_job 0 3)] 1 []",
      OF a'(1) a'(2) c d e(1) o(2), THEN conjunct2, THEN conjunct2, THEN conjunct2]
  have 1: "\<exists>qu' item'.
      handleRequest_old deps0 (server0 [item0 ItemStateRun (running_job 1 1)] 1 [])
          (request0 ''jrelease'') =
        (empty_response,
         (server0 [item0 ItemStateRun (running_job 1 1)] 1 [])\<lparr>qs := [''cmds'' \<mapsto> qu']\<rparr>) \<and>
      lookup qu' ''echo x'' = Some item' \<and> FailReason (iData item') = ''boom'' \<and>
      UntilBuried (iData item') = 0 \<and> iState item' = ItemStateBury"
    using old [of "server0 [item0 ItemStateRun (running_job 1 1)] 1 []" 1 1]
    by (simp add: a b k e f) (auto simp: a)
  have 2: "\<exists>qu' item'.
      handleRequest_old deps0 (server0 [item0 ItemStateRun (running_job 1 3)] 1 [])
          (request0 ''jrelease'') =
        (empty_response,
         (server0 [item0 ItemStateRun (running_job 1 3)] 1 [])\<lparr>qs := [''cmds'' \<mapsto> qu']\<rparr>) \<and>
      lookup qu' ''echo x'' = Some item' \<and> FailReason (iData item') = ''boom'' \<and>
      UntilBuried (iData item') = 2 \<and> iState item' = ItemStateDelay \<and> iDelay item' = 30"
    using old [of "server0 [item0 ItemStateRun (running_job 1 3)] 1 []" 1 3]
    by (simp add: a b k e f) (auto simp: a)
  have 3: "\<exists>s' qu' item'.
      handleRequest deps0 0 [] (server0 [item0 ItemStateRun (running_job 0 1)] 1 [])
          (failed_request0 ''jrelease'') = Some (empty_response, s') \<and>
      q s' = Some qu' \<and> lookup qu' ''echo x'' = Some item' \<and>
      FailReason (iData item') = ''boom'' \<and> Exitcode (iData item') = 1 \<and>
      UntilBuried (iData item') = 0 \<and> iState item' = ItemStateBury"
    using new1
    by (simp add: a' k e f cong: if_cong) fastforce
  have 4: "\<exists>s' qu' item'.
      handleRequest deps0 0 [] (server0 [item0 ItemStateRun (running_job 0 3)] 1 [])
          (failed_request0 ''jrelease'') = Some (empty_response, s') \<and>
      q s' = Some qu' \<and> lookup qu' ''echo x'' = Some item' \<and>
      FailReason (iData item') = ''boom'' \<and> Exitcode (iData item') = 1 \<and>
      UntilBuried (iData item') = 2 \<and> iState item' = ItemStateDelay \<and> iDelay item' = 0"
    using new3
    by (simp add: a' k e f cong: if_cong) fastforce
  from 1 2 3 4 ind show ?thesis by (intro conjI)
qed

text \<open>
  Claim C2 as stated fails in the 2019 handler: a job with three attempts left that
  failed is released by a request whose \<^verbatim>\<open>Timeout\<close> is 30, and the item is in the
  delay sub-queue with delay 0, not 30. No \<^verbatim>\<open>releaseJob\<close> could do otherwise for
  every request: the case hands it nothing that depends on the \<^verbatim>\<open>Timeout\<close>, so
  the requests with 30 and with 60 end in the same state.
\<close>

theorem jrelease_timeout_counterexample:
  "Timeout (failed_request0 ''jrelease'') = 30 \<and>
   (\<exists>r s'. handleRequest deps0 0 [] (server0 [item0 ItemStateRun (running_job 0 3)] 1 [])
              (failed_request0 ''jrelease'') = Some (r, s') \<and>
           Err r = None \<and>
           map_option (\<lambda>qu. map (\<lambda>i. (iKey i, iState i, iDelay i, UntilBuried (iData i))) (items qu))
               (q s') =
             Some [(''echo x'', ItemStateDelay, 0, 2)]) \<and>
   (\<forall>rel. jrelease_with rel (server0 [item0 ItemStateRun (running_job 0 3)] 1 [])
              (queue0 [item0 ItemStateRun (running_job 0 3)])
              ((failed_request0 ''jrelease'')\<lparr>Timeout := 60\<rparr>) =
          jrelease_with rel (server0 [item0 ItemStateRun (running_job 0 3)] 1 [])
              (queue0 [item0 ItemStateRun (running_job 0 3)]) (failed_request0 ''jrelease''))"
proof -
  have 1: "Timeout (failed_request0 ''jrelease'') = 30"
    by (simp add: failed_request0_def request0_def)
  have "case handleRequest deps0 0 [] (server0 [item0 ItemStateRun (running_job 0 3)] 1 [])
              (failed_request0 ''jrelease'') of
          None \<Rightarrow> False
        | Some (r, s') \<Rightarrow>
           Err r = None \<and>
           map_option (\<lambda>qu. map (\<lambda>i. (iKey i, iState i, iDelay i, UntilBuried (iData i))) (items qu))
               (q s') =
             Some [(''echo x'', ItemStateDelay, 0, 2)]"
    by code_simp
  then have 2: "\<exists>r s'. handleRequest deps0 0 [] (server0 [item0 ItemStateRun (running_job 0 3)] 1 [])
              (failed_request0 ''jrelease'') = Some (r, s') \<and>
           Err r = None \<and>
           map_option (\<lambda>qu. map (\<lambda>i. (iKey i, iState i, iDelay i, UntilBuried (iData i))) (items qu))
               (q s') =
             Some [(''echo x'', ItemStateDelay, 0, 2)]"
    by (auto split: option.splits)
  have 3: "\<forall>rel. jrelease_with rel (server0 [item0 ItemStateRun (running_job 0 3)] 1 [])
              (queue0 [item0 ItemStateRun (running_job 0 3)])
              ((failed_request0 ''jrelease'')\<lparr>Timeout := 60\<rparr>) =
          jrelease_with rel (server0 [item0 ItemStateRun (running_job 0 3)] 1 [])
              (queue0 [item0 ItemStateRun (running_job 0 3)]) (failed_request0 ''jrelease'')"
    by (simp add: jrelease_with_Timeout)
  from 1 2 3 show ?thesis by (intro conjI)
qed

subsection \<open>add (both revisions)\<close>

lemma fold_live_dom:
  "k \<in> jobKey ` set js \<or> m k \<noteq> None \<Longrightarrow> fold (\<lambda>j m. m(jobKey j \<mapsto> j)) js m k \<noteq> None"
  by (induction js arbitrary: m) auto

lemma fold_live_mapped:
  assumes "j \<in> set js" and "\<And>j. jobKey (f j) = jobKey j"
  shows "\<exists>y. fold (\<lambda>j m. m(jobKey j \<mapsto> j)) (map f js) m (jobKey j) = Some y"
proof -
  have "jobKey j \<in> jobKey ` set (map f js)"
    using assms by (force simp: image_iff)
  then show ?thesis using fold_live_dom [of "jobKey j" "map f js" m] by auto
qed

lemma jobKey_add_writes [simp]:
  "jobKey (j\<lparr>EnvKey := e, UntilBuried := u\<rparr>) = jobKey j"
  by (simp add: jobKey_def)

lemma queue_items_select:
  "select_queue s name = (qu, s1) \<Longrightarrow> queue_items s1 n = queue_items s n \<and> rpl s1 = rpl s \<and> db s1 = db s"
  by (cases "qs s name") (auto simp: select_queue_def queue_items_def queue_New_def)

lemma storeEnv_cases:
  "storeEnv d env =
     (if write_fails d 0 then (None, d\<lparr>faults := tl (faults d)\<rparr>)
      else (Some env, d\<lparr>faults := tl (faults d), envs := (envs d)(env \<mapsto> env)\<rparr>))"
  by (cases "faults d") (auto simp: storeEnv_def next_fault_def write_fails_def)

lemma storeNewJobs_cases:
  "storeNewJobs d js =
     (if write_fails d 0 then (False, d\<lparr>faults := tl (faults d)\<rparr>)
      else (True, d\<lparr>faults := tl (faults d),
                    live := fold (\<lambda>j m. m(jobKey j \<mapsto> j)) js (live d)\<rparr>))"
  by (cases "faults d") (auto simp: storeNewJobs_def next_fault_def write_fails_def)

lemma write_fails_tl:
  "\<not> write_fails d 0 \<Longrightarrow> write_fails (d\<lparr>faults := tl (faults d), envs := e\<rparr>) 0 = write_fails d 1"
  by (cases "faults d") (auto simp: write_fails_def)

text \<open>
  The 2016 handler makes both writes itself, \<^verbatim>\<open>storeEnv\<close> and then
  \<^verbatim>\<open>storeNewJobs\<close>, before it touches the queue and the RepGroup index.
\<close>

lemma add_old_persisted:
  assumes "Method cr = ''add''" and "Env cr = Some env" and "Jobs cr = Some jobs"
  shows "case handleRequest_old D s cr of
           (r, s') \<Rightarrow>
             (Err r = None \<longrightarrow>
                \<not> write_fails (db s) 0 \<and> \<not> write_fails (db s) 1 \<and>
                envs (db s') env = Some env \<and>
                (\<forall>j \<in> set jobs. live (db s') (jobKey j) \<noteq> None) \<and>
                (\<exists>a e. r = empty_response\<lparr>Added := a, Existed := e\<rparr>)) \<and>
             (write_fails (db s) 0 \<or> write_fails (db s) 1 \<longrightarrow>
                r = empty_response\<lparr>Err := Some ErrDBError\<rparr> \<and> rpl s' = rpl s \<and>
                (\<forall>n. queue_items s' n = queue_items s n))"
proof (cases "select_queue s (QueueName cr)")
  case (Pair qu s1)
  note sel = queue_items_select [OF Pair]
  have m: "Method cr \<noteq> ''ping''" using assms(1) by simp
  show ?thesis
  proof (cases "write_fails (db s) 0")
    case True
    then show ?thesis
      using assms sel
      by (simp add: handleRequest_old_def Pair add_old_def storeEnv_cases reply_of_def
            queue_items_def empty_response_def)
  next
    case f0: False
    show ?thesis
    proof (cases "write_fails (db s) 1")
      case True
      then show ?thesis
        using assms sel f0
        by (simp add: handleRequest_old_def Pair add_old_def storeEnv_cases storeNewJobs_cases
              write_fails_tl reply_of_def queue_items_def empty_response_def Let_def)
    next
      case False
      then show ?thesis
        using assms sel f0
        by (cases "AddMany qu (map (\<lambda>j. \<lparr>dKey = jobKey j, dData = j, dPriority = Priority j,
                                          dDelay = 0, dTTR = ServerItemTTR\<rparr>)
                    (map (\<lambda>j. j\<lparr>EnvKey := env, UntilBuried := 3\<rparr>) jobs))")
           (auto simp: handleRequest_old_def Pair add_old_def storeEnv_cases storeNewJobs_cases
              write_fails_tl reply_of_def empty_response_def Let_def put_queue_def
              intro!: fold_live_mapped)
    qed
  qed
qed

text \<open>
  The 2019 handler stores the environment and hands the jobs to \<^verbatim>\<open>createJobs\<close>,
  which makes the second write before it touches the queue and the index.
\<close>

lemma jobKey_create_writes [simp]: "jobKey (create_writes e j) = jobKey j"
  by (simp add: create_writes_def jobKey_def)

lemma fold_live_missing:
  assumes "fold (\<lambda>j m. m(jobKey j \<mapsto> j)) (filter Q (map (create_writes e) jobs)) m (jobKey j) = None"
    and "j \<in> set jobs"
  shows "\<not> Q (create_writes e j)"
proof
  assume "Q (create_writes e j)"
  then have "create_writes e j \<in> set (filter Q (map (create_writes e) jobs))"
    using assms(2) by simp
  then have "jobKey j \<in> jobKey ` set (filter Q (map (create_writes e) jobs))"
    by (metis image_eqI jobKey_create_writes)
  then show False using assms(1) fold_live_dom by blast
qed

lemma created_in_db:
  assumes "fold (\<lambda>j m. m(jobKey j \<mapsto> j))
           (filter (\<lambda>j. ic \<longrightarrow> complete d (jobKey j) = None) (map (create_writes e) jobs)) m
           (jobKey j) = None"
    and "j \<in> set jobs"
  shows "ic" and "\<exists>y. complete d (jobKey j) = Some y"
  using fold_live_missing [OF assms] by simp_all

lemma add_persisted:
  assumes "Method cr = ''add''" and "Env cr = Some env" and "Jobs cr = Some jobs"
    and "q s = Some qu" and "length (Token cr) = tokenLength D" and "Token cr = token s"
    and "up s \<or> drain s"
  shows "\<exists>r s'. handleRequest D now ws s cr = Some (r, s') \<and>
           (Err r = None \<longrightarrow>
              \<not> write_fails (db s) 0 \<and> \<not> write_fails (db s) 1 \<and>
              envs (db s') env = Some env \<and>
              (\<forall>j \<in> set jobs. live (db s') (jobKey j) \<noteq> None \<or>
                               IgnoreComplete cr \<and> complete (db s') (jobKey j) \<noteq> None) \<and>
              (\<exists>a e. r = empty_response\<lparr>Added := a, Existed := e\<rparr>)) \<and>
           (write_fails (db s) 0 \<or> write_fails (db s) 1 \<longrightarrow>
              r = empty_response\<lparr>Err := Some ErrDBError\<rparr> \<and> rpl s' = rpl s \<and> q s' = q s)"
proof -
  have gate: "handleRequest D now ws s cr = Some (reply_of (add s cr))"
    using assms(1,4-7)
    by (auto simp: handleRequest_def tokenMatches_def dispatch_def Let_def)
  show ?thesis
  proof (cases "write_fails (db s) 0")
    case True
    then show ?thesis
      using assms(2,3)
      by (simp add: gate add_def storeEnv_cases reply_of_def empty_response_def)
  next
    case f0: False
    show ?thesis
    proof (cases "write_fails (db s) 1")
      case True
      then show ?thesis
        using assms(2-4) f0
        by (simp add: gate add_def createJobs_def storeEnv_cases storeNewJobs_cases
              write_fails_tl reply_of_def empty_response_def Let_def)
    next
      case False
      let ?P = "\<lambda>j. IgnoreComplete cr \<and> complete (db s) (jobKey j) \<noteq> None"
      show ?thesis
        using assms(2-4) f0 False
        apply (cases "AddMany qu (map (\<lambda>j. \<lparr>dKey = jobKey j, dData = j, dPriority = Priority j,
                                          dDelay = 0, dTTR = ServerItemTTR\<rparr>)
                    (filter (\<lambda>j. \<not> ?P j) (map (create_writes env) jobs)))")
         apply (auto simp: gate add_def createJobs_def storeEnv_cases storeNewJobs_cases
              write_fails_tl reply_of_def empty_response_def Let_def)
         apply (drule (1) created_in_db(1), assumption)
        apply (drule (1) created_in_db(2), assumption)
        done
    qed
  qed
qed

text \<open>
  Claim C7, for both revisions. An \<^verbatim>\<open>add\<close> request with an environment and jobs
  makes two database writes, \<^verbatim>\<open>storeEnv\<close> and then the write of the new jobs.
  \<^item> 2016 handler: if the reply carries no error, neither write failed, the environment
    and a row for every job of the request are in the database, and the reply is the
    \<^verbatim>\<open>{Added, Existed}\<close> one. If either write fails, the reply is exactly
    \<^verbatim>\<open>ErrDBError\<close>, and the RepGroup index and the items of every queue are as they
    were before the request (a queue made for the request holds no item).
  \<^item> 2019 handler (the request carries the server's token, the server is up or
    draining, with its queue): the same, where a job that \<^verbatim>\<open>IgnoreComplete\<close> lets
    pass as already complete has its row in the complete bucket; after a failed write
    the queue and the RepGroup index are as before.
\<close>

theorem add_persistence:
  assumes "Method cr = ''add''" and "Env cr = Some env" and "Jobs cr = Some jobs"
  shows "(case handleRequest_old D s cr of
            (r, s') \<Rightarrow>
              (Err r = None \<longrightarrow>
                 \<not> write_fails (db s) 0 \<and> \<not> write_fails (db s) 1 \<and>
                 envs (db s') env = Some env \<and>
                 (\<forall>j \<in> set jobs. live (db s') (jobKey j) \<noteq> None) \<and>
                 (\<exists>a e. r = empty_response\<lparr>Added := a, Existed := e\<rparr>)) \<and>
              (write_fails (db s) 0 \<or> write_fails (db s) 1 \<longrightarrow>
                 r = empty_response\<lparr>Err := Some ErrDBError\<rparr> \<and> rpl s' = rpl s \<and>
                 (\<forall>n. queue_items s' n = queue_items s n))) \<and>
         (q s = Some qu \<and> length (Token cr) = tokenLength D \<and> Token cr = token s \<and>
          (up s \<or> drain s) \<longrightarrow>
            (\<exists>r s'. handleRequest D now ws s cr = Some (r, s') \<and>
               (Err r = None \<longrightarrow>
                  \<not> write_fails (db s) 0 \<and> \<not> write_fails (db s) 1 \<and>
                  envs (db s') env = Some env \<and>
                  (\<forall>j \<in> set jobs. live (db s') (jobKey j) \<noteq> None \<or>
                                   IgnoreComplete cr \<and> complete (db s') (jobKey j) \<noteq> None) \<and>
                  (\<exists>a e. r = empty_response\<lparr>Added := a, Existed := e\<rparr>)) \<and>
               (write_fails (db s) 0 \<or> write_fails (db s) 1 \<longrightarrow>
                  r = empty_response\<lparr>Err := Some ErrDBError\<rparr> \<and> rpl s' = rpl s \<and>
                  q s' = q s)))"
proof (rule conjI)
  show "case handleRequest_old D s cr of
            (r, s') \<Rightarrow>
              (Err r = None \<longrightarrow>
                 \<not> write_fails (db s) 0 \<and> \<not> write_fails (db s) 1 \<and>
                 envs (db s') env = Some env \<and>
                 (\<forall>j \<in> set jobs. live (db s') (jobKey j) \<noteq> None) \<and>
                 (\<exists>a e. r = empty_response\<lparr>Added := a, Existed := e\<rparr>)) \<and>
              (write_fails (db s) 0 \<or> write_fails (db s) 1 \<longrightarrow>
                 r = empty_response\<lparr>Err := Some ErrDBError\<rparr> \<and> rpl s' = rpl s \<and>
                 (\<forall>n. queue_items s' n = queue_items s n))"
    using assms by (rule add_old_persisted)
next
  show "q s = Some qu \<and> length (Token cr) = tokenLength D \<and> Token cr = token s \<and>
          (up s \<or> drain s) \<longrightarrow>
            (\<exists>r s'. handleRequest D now ws s cr = Some (r, s') \<and>
               (Err r = None \<longrightarrow>
                  \<not> write_fails (db s) 0 \<and> \<not> write_fails (db s) 1 \<and>
                  envs (db s') env = Some env \<and>
                  (\<forall>j \<in> set jobs. live (db s') (jobKey j) \<noteq> None \<or>
                                   IgnoreComplete cr \<and> complete (db s') (jobKey j) \<noteq> None) \<and>
                  (\<exists>a e. r = empty_response\<lparr>Added := a, Existed := e\<rparr>)) \<and>
               (write_fails (db s) 0 \<or> write_fails (db s) 1 \<longrightarrow>
                  r = empty_response\<lparr>Err := Some ErrDBError\<rparr> \<and> rpl s' = rpl s \<and>
                  q s' = q s))"
  proof
    assume h: "q s = Some qu \<and> length (Token cr) = tokenLength D \<and> Token cr = token s \<and>
          (up s \<or> drain s)"
    then have h1: "q s = Some qu" and h2: "length (Token cr) = tokenLength D"
      and h3: "Token cr = token s" and h4: "up s \<or> drain s" by blast+
    from add_persisted [OF assms h1 h2 h3 h4]
    show "\<exists>r s'. handleRequest D now ws s cr = Some (r, s') \<and>
               (Err r = None \<longrightarrow>
                  \<not> write_fails (db s) 0 \<and> \<not> write_fails (db s) 1 \<and>
                  envs (db s') env = Some env \<and>
                  (\<forall>j \<in> set jobs. live (db s') (jobKey j) \<noteq> None \<or>
                                   IgnoreComplete cr \<and> complete (db s') (jobKey j) \<noteq> None) \<and>
                  (\<exists>a e. r = empty_response\<lparr>Added := a, Existed := e\<rparr>)) \<and>
               (write_fails (db s) 0 \<or> write_fails (db s) 1 \<longrightarrow>
                  r = empty_response\<lparr>Err := Some ErrDBError\<rparr> \<and> rpl s' = rpl s \<and>
                  q s' = q s)" .
  qed
qed

text \<open>
  The theorem, in both revisions, at a server whose second write fails and at one whose
  writes succeed.
\<close>

theorem add_persistence_witness:
  "write_fails (db (server0 [] 1 [False, True])) 1 \<and>
   fst (handleRequest_old deps0 (server0 [] 1 [False, True]) add_request0) =
     empty_response\<lparr>Err := Some ErrDBError\<rparr> \<and>
   rpl (snd (handleRequest_old deps0 (server0 [] 1 [False, True]) add_request0)) =
     rpl (server0 [] 1 [False, True]) \<and>
   (\<forall>n. queue_items (snd (handleRequest_old deps0 (server0 [] 1 [False, True]) add_request0)) n =
          queue_items (server0 [] 1 [False, True]) n) \<and>
   fst (handleRequest_old deps0 (server0 [] 1 []) add_request0) =
     empty_response\<lparr>Added := 1, Existed := 0\<rparr> \<and>
   envs (db (snd (handleRequest_old deps0 (server0 [] 1 []) add_request0))) ''PATH=/bin'' =
     Some ''PATH=/bin'' \<and>
   live (db (snd (handleRequest_old deps0 (server0 [] 1 []) add_request0))) (jobKey job0) \<noteq> None \<and>
   (\<exists>s'. handleRequest deps0 0 [] (server0 [] 1 [False, True]) add_request0 =
            Some (empty_response\<lparr>Err := Some ErrDBError\<rparr>, s') \<and>
         rpl s' = rpl (server0 [] 1 [False, True]) \<and> q s' = q (server0 [] 1 [False, True])) \<and>
   (\<exists>s'. handleRequest deps0 0 [] (server0 [] 1 []) add_request0 =
            Some (empty_response\<lparr>Added := 1, Existed := 0\<rparr>, s') \<and>
         envs (db s') ''PATH=/bin'' = Some ''PATH=/bin'' \<and>
         live (db s') (jobKey job0) \<noteq> None)"
proof -
  have r: "Method add_request0 = ''add''" "Env add_request0 = Some ''PATH=/bin''"
    "Jobs add_request0 = Some [job0]"
    by (simp_all add: add_request0_def request0_def)
  have g: "q (server0 [] 1 fs) = Some (queue0 []) \<and>
           length (Token add_request0) = tokenLength deps0 \<and>
           Token add_request0 = token (server0 [] 1 fs) \<and>
           (up (server0 [] 1 fs) \<or> drain (server0 [] 1 fs))" for fs
    by (simp add: server0_def add_request0_def request0_def deps0_def)
  have w: "write_fails (db (server0 [] 1 [False, True])) 1"
    by code_simp
  then have v: "write_fails (db (server0 [] 1 [False, True])) 0 \<or>
                write_fails (db (server0 [] 1 [False, True])) 1"
    by (rule disjI2)
  have ok: "fst (handleRequest_old deps0 (server0 [] 1 []) add_request0) =
              empty_response\<lparr>Added := 1, Existed := 0\<rparr>"
    by code_simp
  then have e: "Err (fst (handleRequest_old deps0 (server0 [] 1 []) add_request0)) = None"
    by (simp add: empty_response_def)
  note failing = add_persistence [OF r, where D = deps0 and s = "server0 [] 1 [False, True]",
      THEN conjunct1, unfolded case_prod_beta, THEN conjunct2, THEN mp, OF v]
  note passing = add_persistence [OF r, where D = deps0 and s = "server0 [] 1 []",
      THEN conjunct1, unfolded case_prod_beta, THEN conjunct1, THEN mp, OF e]
  from passing have p: "envs (db (snd (handleRequest_old deps0 (server0 [] 1 []) add_request0))) ''PATH=/bin'' =
     Some ''PATH=/bin'' \<and>
   live (db (snd (handleRequest_old deps0 (server0 [] 1 []) add_request0))) (jobKey job0) \<noteq> None"
    by (intro conjI) (blast, fastforce)
  note new_failing = add_persistence [OF r, where D = deps0 and now = 0 and ws = "[]"
      and s = "server0 [] 1 [False, True]", THEN conjunct2, THEN mp, OF g]
  note new_passing = add_persistence [OF r, where D = deps0 and now = 0 and ws = "[]"
      and s = "server0 [] 1 []", THEN conjunct2, THEN mp, OF g]
  from new_failing v
  have nf: "\<exists>s'. handleRequest deps0 0 [] (server0 [] 1 [False, True]) add_request0 =
            Some (empty_response\<lparr>Err := Some ErrDBError\<rparr>, s') \<and>
         rpl s' = rpl (server0 [] 1 [False, True]) \<and> q s' = q (server0 [] 1 [False, True])"
    by blast
  have ok2: "map_option fst (handleRequest deps0 0 [] (server0 [] 1 []) add_request0) =
               Some (empty_response\<lparr>Added := 1, Existed := 0\<rparr>)"
    by code_simp
  from new_passing obtain r' s' where
    x: "handleRequest deps0 0 [] (server0 [] 1 []) add_request0 = Some (r', s')" and
    y: "Err r' = None \<longrightarrow>
          \<not> write_fails (db (server0 [] 1 [])) 0 \<and> \<not> write_fails (db (server0 [] 1 [])) 1 \<and>
          envs (db s') ''PATH=/bin'' = Some ''PATH=/bin'' \<and>
          (\<forall>j \<in> set [job0]. live (db s') (jobKey j) \<noteq> None \<or>
             IgnoreComplete add_request0 \<and> complete (db s') (jobKey j) \<noteq> None) \<and>
          (\<exists>a e. r' = empty_response\<lparr>Added := a, Existed := e\<rparr>)"
    by (elim exE conjE) (rule that, assumption+)
  have r': "r' = empty_response\<lparr>Added := 1, Existed := 0\<rparr>"
    using ok2 x by simp
  have ic: "\<not> IgnoreComplete add_request0"
    by (simp add: add_request0_def request0_def)
  have np: "\<exists>s'. handleRequest deps0 0 [] (server0 [] 1 []) add_request0 =
            Some (empty_response\<lparr>Added := 1, Existed := 0\<rparr>, s') \<and>
         envs (db s') ''PATH=/bin'' = Some ''PATH=/bin'' \<and>
         live (db s') (jobKey job0) \<noteq> None"
    using x y r' ic by (simp add: empty_response_def)
  from w failing ok p nf np show ?thesis by blast
qed

subsection \<open>The token check (2019 revision)\<close>

text \<open>
  Claim C5. A request whose method is not \<^verbatim>\<open>ping\<close> and whose token has not the
  expected length or differs from the server's gets exactly the reply
  \<^verbatim>\<open>{Err: ErrPermissionDenied}\<close>, and the server is as before: nothing else has run.
  A \<^verbatim>\<open>ping\<close> is answered whatever its token: its reply does not depend on the
  token and is never \<^verbatim>\<open>ErrPermissionDenied\<close>, and on a server that is up or draining
  and has its queue the reply is the copy of the server's \<^verbatim>\<open>ServerInfo\<close>, without
  error. (What a stopped server answers, to a ping as to any request, is
  \<^verbatim>\<open>ErrClosedStop\<close>: that is the gate after the token check.)
\<close>

theorem token_check:
  "(Method cr \<noteq> ''ping'' \<and> (length (Token cr) \<noteq> tokenLength D \<or> Token cr \<noteq> token s) \<longrightarrow>
      handleRequest D now ws s cr = Some (empty_response\<lparr>Err := Some ErrPermissionDenied\<rparr>, s)) \<and>
   (Method cr = ''ping'' \<longrightarrow>
      handleRequest D now ws s (cr\<lparr>Token := t\<rparr>) = handleRequest D now ws s cr \<and>
      (\<forall>r s'. handleRequest D now ws s cr = Some (r, s') \<longrightarrow> Err r \<noteq> Some ErrPermissionDenied) \<and>
      (q s \<noteq> None \<and> (up s \<or> drain s) \<longrightarrow>
         handleRequest D now ws s cr =
           Some (empty_response\<lparr>SInfo := Some (ServerInfo s)\<rparr>, s)))"
  by (auto simp: handleRequest_def tokenMatches_def reply_of_def dispatch_def Let_def
        empty_response_def split: option.splits)

text \<open>
  The theorem at a token of the right length and wrong content, at one of the wrong
  length, and at a \<^verbatim>\<open>ping\<close> with a wrong token.
\<close>

theorem token_check_witness:
  "handleRequest deps0 0 [] (server0 [] 1 []) ((request0 ''jstart'')\<lparr>Token := ''wrong!''\<rparr>) =
     Some (empty_response\<lparr>Err := Some ErrPermissionDenied\<rparr>, server0 [] 1 []) \<and>
   handleRequest deps0 0 [] (server0 [] 1 []) ((request0 ''jstart'')\<lparr>Token := ''secret1''\<rparr>) =
     Some (empty_response\<lparr>Err := Some ErrPermissionDenied\<rparr>, server0 [] 1 []) \<and>
   handleRequest deps0 0 [] (server0 [] 1 []) ((request0 ''ping'')\<lparr>Token := ''wrong!''\<rparr>) =
     Some (empty_response\<lparr>SInfo := Some (ServerInfo (server0 [] 1 []))\<rparr>, server0 [] 1 [])"
proof -
  have a: "Method ((request0 ''jstart'')\<lparr>Token := t\<rparr>) \<noteq> ''ping'' \<and>
           (length (Token ((request0 ''jstart'')\<lparr>Token := ''wrong!''\<rparr>)) \<noteq> tokenLength deps0 \<or>
            Token ((request0 ''jstart'')\<lparr>Token := ''wrong!''\<rparr>) \<noteq> token (server0 [] 1 []))" for t
    by (simp add: request0_def server0_def)
  have b: "Method ((request0 ''jstart'')\<lparr>Token := t\<rparr>) \<noteq> ''ping'' \<and>
           (length (Token ((request0 ''jstart'')\<lparr>Token := ''secret1''\<rparr>)) \<noteq> tokenLength deps0 \<or>
            Token ((request0 ''jstart'')\<lparr>Token := ''secret1''\<rparr>) \<noteq> token (server0 [] 1 []))" for t
    by (simp add: request0_def server0_def)
  have p: "Method ((request0 ''ping'')\<lparr>Token := ''wrong!''\<rparr>) = ''ping''"
    by (simp add: request0_def)
  have u: "q (server0 [] 1 []) \<noteq> None \<and> (up (server0 [] 1 []) \<or> drain (server0 [] 1 []))"
    by (simp add: server0_def)
  note t1 = token_check [where D = deps0 and now = 0 and ws = "[]" and s = "server0 [] 1 []"
      and cr = "(request0 ''jstart'')\<lparr>Token := ''wrong!''\<rparr>", THEN conjunct1, THEN mp, OF a]
  note t2 = token_check [where D = deps0 and now = 0 and ws = "[]" and s = "server0 [] 1 []"
      and cr = "(request0 ''jstart'')\<lparr>Token := ''secret1''\<rparr>", THEN conjunct1, THEN mp, OF b]
  note t3 = token_check [where D = deps0 and now = 0 and ws = "[]" and s = "server0 [] 1 []"
      and cr = "(request0 ''ping'')\<lparr>Token := ''wrong!''\<rparr>", THEN conjunct2, THEN mp, OF p,
      THEN conjunct2, THEN conjunct2, THEN mp, OF u]
  from t1 t2 t3 show ?thesis by (intro conjI)
qed

subsection \<open>Drain (2019 revision)\<close>

text \<open>
  Claim C6. On a draining server, a \<^verbatim>\<open>reserve\<close> request with a non-zero client
  id (that carries the server's token, the queue being there) gets the empty reply, no
  job and no error, and the server, its queue included, is as before. For every other
  method the value of \<^verbatim>\<open>drain\<close> read at the start of the request plays no part:
  the request passes the gate and the method's case runs as it does when the server is
  not draining.
\<close>

theorem drain_reserve:
  assumes "drain s" and "q s = Some qu"
    and "length (Token cr) = tokenLength D" and "Token cr = token s"
  shows "(Method cr = ''reserve'' \<and> ClientID cr \<noteq> 0 \<longrightarrow>
            handleRequest D now ws s cr = Some (empty_response, s)) \<and>
         (Method cr \<noteq> ''reserve'' \<longrightarrow>
            dispatch D now ws s qu True cr = dispatch D now ws s qu False cr \<and>
            handleRequest D now ws s cr = map_option reply_of (dispatch D now ws s qu False cr))"
  using assms
  by (simp add: handleRequest_def tokenMatches_def reply_of_def dispatch_def Let_def reserve_def)

text \<open>
  The theorem at a draining server with a ready item (the reply to \<^verbatim>\<open>reserve\<close> is
  empty and the item stays), and at a draining server with a running job that exited
  with code 0 (its \<^verbatim>\<open>jarchive\<close> succeeds: the job leaves the queue and is in the
  complete bucket).
\<close>

theorem drain_reserve_witness:
  "handleRequest deps0 0 [] ((server0 [item0 ItemStateReady job0] 1 [])\<lparr>drain := True\<rparr>)
       (reserve_request0 False) =
     Some (empty_response, (server0 [item0 ItemStateReady job0] 1 [])\<lparr>drain := True\<rparr>) \<and>
   (\<exists>s'. handleRequest deps0 0 [] ((server0 [item0 ItemStateRun (running_job 0 3)] 1 [])\<lparr>drain := True\<rparr>)
            (request0 ''jarchive'') = Some (empty_response, s') \<and>
         map_option items (q s') = Some [] \<and>
         map_option State (complete (db s') ''echo x'') = Some JobStateComplete)"
proof -
  let ?s1 = "(server0 [item0 ItemStateReady job0] 1 [])\<lparr>drain := True\<rparr>"
  let ?s2 = "(server0 [item0 ItemStateRun (running_job 0 3)] 1 [])\<lparr>drain := True\<rparr>"
  have h1: "drain ?s1" "q ?s1 = Some (queue0 [item0 ItemStateReady job0])"
    "length (Token (reserve_request0 False)) = tokenLength deps0"
    "Token (reserve_request0 False) = token ?s1"
    by (simp_all add: server0_def reserve_request0_def request0_def deps0_def)
  have h2: "drain ?s2" "q ?s2 = Some (queue0 [item0 ItemStateRun (running_job 0 3)])"
    "length (Token (request0 ''jarchive'')) = tokenLength deps0"
    "Token (request0 ''jarchive'') = token ?s2"
    by (simp_all add: server0_def request0_def deps0_def)
  have c1: "Method (reserve_request0 False) = ''reserve'' \<and> ClientID (reserve_request0 False) \<noteq> 0"
    by (simp add: reserve_request0_def request0_def)
  have c2: "Method (request0 ''jarchive'') \<noteq> ''reserve''"
    by (simp add: request0_def)
  note t1 = drain_reserve [OF h1, where now = 0 and ws = "[]", THEN conjunct1, THEN mp, OF c1]
  note t2 = drain_reserve [OF h2, where now = 0 and ws = "[]", THEN conjunct2, THEN mp, OF c2,
      THEN conjunct2]
  have "case dispatch deps0 0 [] ?s2 (queue0 [item0 ItemStateRun (running_job 0 3)]) False
               (request0 ''jarchive'') of
          None \<Rightarrow> False
        | Some out \<Rightarrow>
            fst (reply_of out) = empty_response \<and>
            map_option items (q (snd (reply_of out))) = Some [] \<and>
            map_option State (complete (db (snd (reply_of out))) ''echo x'') = Some JobStateComplete"
    by code_simp
  then have "\<exists>s'. handleRequest deps0 0 [] ?s2 (request0 ''jarchive'') = Some (empty_response, s') \<and>
         map_option items (q s') = Some [] \<and>
         map_option State (complete (db s') ''echo x'') = Some JobStateComplete"
    unfolding t2 by (auto split: option.splits simp: prod_eq_iff)
  with t1 show ?thesis by (intro conjI)
qed

subsection \<open>Skipping the first reserve (2019 revision)\<close>

text \<open>
  What \<^verbatim>\<open>reserveWithLimits\<close> returns, in terms of the limiter's
  \<^verbatim>\<open>Increment\<close> and the queue's \<^verbatim>\<open>Reserve\<close>.
\<close>

lemma reserveWithLimits_group:
  "reserveWithLimits D s qu [g] =
     (if schedGroupToLimitGroups D g = []
      then (case Reserve qu (Some g) of
              Inl e \<Rightarrow> ((None, Some e), s)
            | Inr (item, qu1) \<Rightarrow> ((Some item, None), s\<lparr>q := Some qu1\<rparr>))
      else if \<not> fst (Increment (limiter s) (schedGroupToLimitGroups D g))
      then ((None, Some queue_ErrNothingReady), s)
      else (case Reserve qu (Some g) of
              Inl e \<Rightarrow> ((None, Some e), s)
            | Inr (item, qu1) \<Rightarrow>
                ((Some (item\<lparr>iData := noteIncrementedLimitGroups (schedGroupToLimitGroups D g)
                                          (iData item)\<rparr>), None),
                 s\<lparr>limiter := snd (Increment (limiter s) (schedGroupToLimitGroups D g)),
                    q := Some (modify_job qu1 (iKey item)
                                 (noteIncrementedLimitGroups (schedGroupToLimitGroups D g)))\<rparr>)))"
proof -
  let ?lgs = "schedGroupToLimitGroups D g"
  have dec: "Decrement (snd (Increment (limiter s) ?lgs)) ?lgs = limiter s"
    if "fst (Increment (limiter s) ?lgs)"
    using that Decrement_Increment [of "limiter s" ?lgs "snd (Increment (limiter s) ?lgs)"]
    by (cases "Increment (limiter s) ?lgs") simp
  show ?thesis
    using dec
    by (cases "Reserve qu (Some g)") (auto simp: reserveWithLimits_def Let_def)
qed

lemma reserveWithLimits_any:
  "reserveWithLimits D s qu [] =
     (case Reserve qu None of
        Inl e \<Rightarrow> ((None, Some e), s)
      | Inr (item, qu1) \<Rightarrow> ((Some item, None), s\<lparr>q := Some qu1\<rparr>))"
  by (cases "Reserve qu None") (auto simp: reserveWithLimits_def Let_def)

text \<open>
  Claim C4, as the code has it. The request is a \<^verbatim>\<open>reserve\<close> with a non-zero client
  id and the server's token, on a server that is up, not draining, with its queue
  \<open>qu\<close>; \<open>qu2\<close> is any queue.
  \<^item> If the request names a scheduler group and has \<^verbatim>\<open>FirstReserve\<close> set, the
    server has a runner command (\<^verbatim>\<open>s.rc\<close> is not empty) and the group's count is
    absent or 0, nothing is reserved: the first attempt yields no item and no error
    whatever the queue holds, and the reply is the empty one, at once, with the server
    unchanged.
  \<^item> In every other case the first attempt is \<^verbatim>\<open>reserveWithLimits\<close>. If the group
    carries limit groups and the limiter's \<^verbatim>\<open>Increment\<close> of them fails, the
    attempt ends as \<^verbatim>\<open>ErrNothingReady\<close> with the server unchanged, whatever the
    queue holds: the queue is not consulted. Otherwise the outcome is the one of the
    queue's \<^verbatim>\<open>Reserve\<close> for the group (for any group, when the request names
    none): its error, with the server unchanged, or its item, which has moved to the
    run sub-queue (with the limit groups noted on the job and counted by the limiter,
    when there are some).
  \<^item> When the first attempt reserves an item, the reply carries its job.
\<close>

theorem skip_first_reserve:
  assumes "Method cr = ''reserve''" and "ClientID cr \<noteq> 0" and "\<not> drain s" and "up s"
    and "q s = Some qu" and "length (Token cr) = tokenLength D" and "Token cr = token s"
  shows "(SchedulerGroup cr \<noteq> '''' \<and> FirstReserve cr \<and> rc s \<noteq> '''' \<and>
            (sgroupcounts s (SchedulerGroup cr) = None \<or> sgroupcounts s (SchedulerGroup cr) = Some 0) \<longrightarrow>
            first_reserve D s qu2 cr = ((None, None), s) \<and>
            handleRequest D now ws s cr = Some (empty_response, s)) \<and>
         (\<not> (SchedulerGroup cr \<noteq> '''' \<and> FirstReserve cr \<and> rc s \<noteq> '''' \<and>
             (sgroupcounts s (SchedulerGroup cr) = None \<or>
              sgroupcounts s (SchedulerGroup cr) = Some 0)) \<longrightarrow>
            (let lgs = (if SchedulerGroup cr = '''' then []
                        else schedGroupToLimitGroups D (SchedulerGroup cr));
                 rg = (if SchedulerGroup cr = '''' then None else Some (SchedulerGroup cr))
             in if lgs \<noteq> [] \<and> \<not> fst (Increment (limiter s) lgs)
                then first_reserve D s qu2 cr = ((None, Some queue_ErrNothingReady), s)
                else first_reserve D s qu cr =
                       (case Reserve qu rg of
                          Inl e \<Rightarrow> ((None, Some e), s)
                        | Inr (item, qu1) \<Rightarrow>
                            if lgs = [] then ((Some item, None), s\<lparr>q := Some qu1\<rparr>)
                            else ((Some (item\<lparr>iData := noteIncrementedLimitGroups lgs
                                                          (iData item)\<rparr>), None),
                                  s\<lparr>limiter := snd (Increment (limiter s) lgs),
                                     q := Some (modify_job qu1 (iKey item)
                                                  (noteIncrementedLimitGroups lgs))\<rparr>)))) \<and>
         (\<forall>item s1. first_reserve D s qu cr = ((Some item, None), s1) \<longrightarrow>
            handleRequest D now ws s cr = Some (reply_of (reserved_reply D s1 cr item)))"
proof (intro conjI impI allI)
  assume "SchedulerGroup cr \<noteq> '''' \<and> FirstReserve cr \<and> rc s \<noteq> '''' \<and>
            (sgroupcounts s (SchedulerGroup cr) = None \<or> sgroupcounts s (SchedulerGroup cr) = Some 0)"
  then show "first_reserve D s qu2 cr = ((None, None), s)"
    by (auto simp: first_reserve_def skip_first_def)
next
  assume "SchedulerGroup cr \<noteq> '''' \<and> FirstReserve cr \<and> rc s \<noteq> '''' \<and>
            (sgroupcounts s (SchedulerGroup cr) = None \<or> sgroupcounts s (SchedulerGroup cr) = Some 0)"
  then show "handleRequest D now ws s cr = Some (empty_response, s)"
    using assms
    by (auto simp: handleRequest_def tokenMatches_def dispatch_def reserve_def first_reserve_def
        skip_first_def reply_of_def Let_def)
next
  assume n: "\<not> (SchedulerGroup cr \<noteq> '''' \<and> FirstReserve cr \<and> rc s \<noteq> '''' \<and>
             (sgroupcounts s (SchedulerGroup cr) = None \<or>
              sgroupcounts s (SchedulerGroup cr) = Some 0))"
  have f: "first_reserve D s qx cr =
             (if SchedulerGroup cr = '''' then reserveWithLimits D s qx []
              else reserveWithLimits D s qx [SchedulerGroup cr])" for qx
    using n by (auto simp: first_reserve_def skip_first_def split: option.splits)
  show "let lgs = (if SchedulerGroup cr = '''' then []
                        else schedGroupToLimitGroups D (SchedulerGroup cr));
                 rg = (if SchedulerGroup cr = '''' then None else Some (SchedulerGroup cr))
             in if lgs \<noteq> [] \<and> \<not> fst (Increment (limiter s) lgs)
                then first_reserve D s qu2 cr = ((None, Some queue_ErrNothingReady), s)
                else first_reserve D s qu cr =
                       (case Reserve qu rg of
                          Inl e \<Rightarrow> ((None, Some e), s)
                        | Inr (item, qu1) \<Rightarrow>
                            if lgs = [] then ((Some item, None), s\<lparr>q := Some qu1\<rparr>)
                            else ((Some (item\<lparr>iData := noteIncrementedLimitGroups lgs
                                                          (iData item)\<rparr>), None),
                                  s\<lparr>limiter := snd (Increment (limiter s) lgs),
                                     q := Some (modify_job qu1 (iKey item)
                                                  (noteIncrementedLimitGroups lgs))\<rparr>))"
  proof (cases "SchedulerGroup cr = ''''")
    case True
    then show ?thesis
      by (simp add: f reserveWithLimits_any split: sum.splits prod.splits)
  next
    case False
    then show ?thesis
      by (simp add: f reserveWithLimits_group Let_def split: sum.splits prod.splits)
  qed
next
  fix item s1
  assume "first_reserve D s qu cr = ((Some item, None), s1)"
  then show "handleRequest D now ws s cr = Some (reply_of (reserved_reply D s1 cr item))"
    using assms
    by (auto simp: handleRequest_def tokenMatches_def dispatch_def reserve_def reply_of_def Let_def)
qed

text \<open>
  The theorem at a server with a runner command and count 0 for \<open>g\<close>, whose queue
  holds a ready job of that group: a first reserve is answered with the empty reply, one
  that is not the first is answered with the job, taken from the queue; and at a server
  whose limit group \<open>a\<close> is full: the attempt for \<open>g~a,b\<close> ends as
  \<^verbatim>\<open>ErrNothingReady\<close>.
\<close>

theorem skip_first_reserve_witness:
  "handleRequest deps0 0 [] (server0 [item0 ItemStateReady job0] 0 []) (reserve_request0 True) =
     Some (empty_response, server0 [item0 ItemStateReady job0] 0 []) \<and>
   handleRequest deps0 0 [] (server0 [item0 ItemStateReady job0] 0 []) (reserve_request0 False) =
     Some (reply_of (reserved_reply deps0
             ((server0 [item0 ItemStateReady job0] 0 [])\<lparr>q := Some (queue0 [item0 ItemStateRun job0])\<rparr>)
             (reserve_request0 False) (item0 ItemStateRun job0))) \<and>
   first_reserve deps0 limited_server0 (queue0 [item0 ItemStateReady limited_job0]) limited_request0 =
     ((None, Some queue_ErrNothingReady), limited_server0)"
proof -
  let ?s = "server0 [item0 ItemStateReady job0] 0 []"
  let ?q = "queue0 [item0 ItemStateReady job0]"
  have h: "Method (reserve_request0 f) = ''reserve''" "ClientID (reserve_request0 f) \<noteq> 0"
    "\<not> drain ?s" "up ?s" "q ?s = Some ?q"
    "length (Token (reserve_request0 f)) = tokenLength deps0"
    "Token (reserve_request0 f) = token ?s" for f
    by (simp_all add: reserve_request0_def request0_def server0_def deps0_def)
  have hl: "Method limited_request0 = ''reserve''" "ClientID limited_request0 \<noteq> 0"
    "\<not> drain limited_server0" "up limited_server0"
    "q limited_server0 = Some (queue0 [item0 ItemStateReady limited_job0])"
    "length (Token limited_request0) = tokenLength deps0"
    "Token limited_request0 = token limited_server0"
    by (simp_all add: limited_request0_def limited_server0_def reserve_request0_def request0_def
          server0_def deps0_def)
  have g: "SchedulerGroup (reserve_request0 f) = ''g''" "FirstReserve (reserve_request0 f) = f" for f
    by (simp_all add: reserve_request0_def)
  have c: "rc ?s \<noteq> []" "sgroupcounts ?s ''g'' = Some 0"
    by (simp_all add: server0_def)
  have sk: "SchedulerGroup (reserve_request0 True) \<noteq> '''' \<and> FirstReserve (reserve_request0 True) \<and>
            rc ?s \<noteq> '''' \<and>
            (sgroupcounts ?s (SchedulerGroup (reserve_request0 True)) = None \<or>
             sgroupcounts ?s (SchedulerGroup (reserve_request0 True)) = Some 0)"
    by (simp add: g c)
  have nsk: "\<not> (SchedulerGroup (reserve_request0 False) \<noteq> '''' \<and> FirstReserve (reserve_request0 False) \<and>
            rc ?s \<noteq> '''' \<and>
            (sgroupcounts ?s (SchedulerGroup (reserve_request0 False)) = None \<or>
             sgroupcounts ?s (SchedulerGroup (reserve_request0 False)) = Some 0))"
    by (simp add: g)
  have nskl: "\<not> (SchedulerGroup limited_request0 \<noteq> '''' \<and> FirstReserve limited_request0 \<and>
            rc limited_server0 \<noteq> '''' \<and>
            (sgroupcounts limited_server0 (SchedulerGroup limited_request0) = None \<or>
             sgroupcounts limited_server0 (SchedulerGroup limited_request0) = Some 0))"
    by (simp add: limited_request0_def reserve_request0_def)
  have lg: "schedGroupToLimitGroups deps0 ''g'' = []"
    "schedGroupToLimitGroups deps0 ''g~a,b'' = [''a'', ''b'']"
    by code_simp+
  have inc: "\<not> fst (Increment (limiter limited_server0) [''a'', ''b''])"
    by code_simp
  have res: "Reserve ?q (Some ''g'') = Inr (item0 ItemStateRun job0, queue0 [item0 ItemStateRun job0])"
    by code_simp
  have gl: "SchedulerGroup limited_request0 = ''g~a,b''"
    by (simp add: limited_request0_def)
  note t1 = skip_first_reserve [OF h, where now = 0 and ws = "[]", THEN conjunct1, THEN mp, OF sk,
      THEN conjunct2]
  note t2 = skip_first_reserve [OF h, where now = 0 and ws = "[]", THEN conjunct2, THEN conjunct1,
      THEN mp, OF nsk]
  note t3 = skip_first_reserve [OF h, where now = 0 and ws = "[]", THEN conjunct2, THEN conjunct2,
      THEN spec, THEN spec, THEN mp]
  note t4 = skip_first_reserve [OF hl, where now = 0 and ws = "[]"
      and ?qu2.0 = "queue0 [item0 ItemStateReady limited_job0]", THEN conjunct2, THEN conjunct1,
      THEN mp, OF nskl]
  have fr: "first_reserve deps0 ?s ?q (reserve_request0 False) =
              ((Some (item0 ItemStateRun job0), None), ?s\<lparr>q := Some (queue0 [item0 ItemStateRun job0])\<rparr>)"
    using t2 by (simp add: g lg res)
  have 2: "handleRequest deps0 0 [] ?s (reserve_request0 False) =
     Some (reply_of (reserved_reply deps0 (?s\<lparr>q := Some (queue0 [item0 ItemStateRun job0])\<rparr>)
             (reserve_request0 False) (item0 ItemStateRun job0)))"
    using fr by (rule t3)
  have 3: "first_reserve deps0 limited_server0 (queue0 [item0 ItemStateReady limited_job0]) limited_request0 =
     ((None, Some queue_ErrNothingReady), limited_server0)"
    using t4 by (simp add: gl lg inc)
  from t1 2 3 show ?thesis by (intro conjI)
qed

text \<open>
  Claim C4 as stated fails twice. On a server without a runner command, a first reserve
  for group \<open>g\<close>, whose count is 0, is answered with the ready job of that group,
  which moves to the run sub-queue. And a reserve that is not the first does not always
  consult the queue: with the limit group \<open>a\<close> at its limit, a request for the group
  \<open>g~a,b\<close>, for which the queue's \<^verbatim>\<open>Reserve\<close> would return the ready job, is
  answered with the empty reply after three polls, and the job is still ready.
\<close>

theorem skip_first_reserve_counterexample:
  "FirstReserve (reserve_request0 True) \<and> SchedulerGroup (reserve_request0 True) = ''g'' \<and>
   sgroupcounts ((server0 [item0 ItemStateReady job0] 0 [])\<lparr>rc := ''''\<rparr>) ''g'' = Some 0 \<and>
   (\<exists>r s'. handleRequest deps0 0 [] ((server0 [item0 ItemStateReady job0] 0 [])\<lparr>rc := ''''\<rparr>)
              (reserve_request0 True) = Some (r, s') \<and>
           Err r = None \<and> map_option Cmd (SJob r) = Some ''echo x'' \<and>
           map_option (\<lambda>qu. map iState (items qu)) (q s') = Some [ItemStateRun]) \<and>
   \<not> FirstReserve limited_request0 \<and>
   (\<exists>i qu1. Reserve (queue0 [item0 ItemStateReady limited_job0]) (Some (SchedulerGroup limited_request0)) =
              Inr (i, qu1) \<and> Cmd (iData i) = ''echo x'') \<and>
   handleRequest deps0 0 [\<lambda>s. s, \<lambda>s. s, \<lambda>s. s] limited_server0 limited_request0 =
     Some (empty_response, limited_server0) \<and>
   map_option (\<lambda>qu. map iState (items qu)) (q limited_server0) = Some [ItemStateReady]"
proof -
  have "FirstReserve (reserve_request0 True)" "SchedulerGroup (reserve_request0 True) = ''g''"
    "sgroupcounts ((server0 [item0 ItemStateReady job0] 0 [])\<lparr>rc := ''''\<rparr>) ''g'' = Some 0"
    by (simp_all add: reserve_request0_def server0_def)
  moreover
  have "case handleRequest deps0 0 [] ((server0 [item0 ItemStateReady job0] 0 [])\<lparr>rc := ''''\<rparr>)
              (reserve_request0 True) of
          None \<Rightarrow> False
        | Some (r, s') \<Rightarrow> Err r = None \<and> map_option Cmd (SJob r) = Some ''echo x'' \<and>
           map_option (\<lambda>qu. map iState (items qu)) (q s') = Some [ItemStateRun]"
    by code_simp
  then have "\<exists>r s'. handleRequest deps0 0 [] ((server0 [item0 ItemStateReady job0] 0 [])\<lparr>rc := ''''\<rparr>)
              (reserve_request0 True) = Some (r, s') \<and>
           Err r = None \<and> map_option Cmd (SJob r) = Some ''echo x'' \<and>
           map_option (\<lambda>qu. map iState (items qu)) (q s') = Some [ItemStateRun]"
    by (auto split: option.splits)
  moreover
  have "\<not> FirstReserve limited_request0"
    by (simp add: limited_request0_def reserve_request0_def)
  moreover
  have "case Reserve (queue0 [item0 ItemStateReady limited_job0]) (Some (SchedulerGroup limited_request0)) of
          Inl e \<Rightarrow> False
        | Inr (i, qu1) \<Rightarrow> Cmd (iData i) = ''echo x''"
    by code_simp
  then have "\<exists>i qu1. Reserve (queue0 [item0 ItemStateReady limited_job0])
                        (Some (SchedulerGroup limited_request0)) = Inr (i, qu1) \<and>
                      Cmd (iData i) = ''echo x''"
    by (auto split: sum.splits)
  moreover
  have lg: "schedGroupToLimitGroups deps0 ''g~a,b'' = [''a'', ''b'']"
    by code_simp
  have inc: "\<not> fst (Increment (limiter limited_server0) [''a'', ''b''])"
    by code_simp
  have rw: "reserveWithLimits deps0 limited_server0 qx [''g~a,b''] =
              ((None, Some queue_ErrNothingReady), limited_server0)" for qx
    by (simp add: reserveWithLimits_group lg inc)
  have fr: "first_reserve deps0 limited_server0 qx limited_request0 =
          ((None, Some queue_ErrNothingReady), limited_server0)" for qx
    by (simp add: first_reserve_def skip_first_def rw limited_request0_def reserve_request0_def)
  have m: "Method limited_request0 = ''reserve''" "ClientID limited_request0 \<noteq> 0"
    "\<not> drain limited_server0" "up limited_server0"
    "q limited_server0 = Some (queue0 [item0 ItemStateReady limited_job0])"
    "length (Token limited_request0) = tokenLength deps0"
    "tokenMatches (Token limited_request0) (token limited_server0)"
    "0 < Timeout limited_request0" "SchedulerGroup limited_request0 = ''g~a,b''"
    by (simp_all add: limited_request0_def limited_server0_def reserve_request0_def request0_def
          server0_def deps0_def tokenMatches_def)
  have "handleRequest deps0 0 [\<lambda>s. s, \<lambda>s. s, \<lambda>s. s] limited_server0 limited_request0 =
     Some (empty_response, limited_server0)"
    by (simp add: handleRequest_def dispatch_def reserve_def Let_def m fr rw reply_of_def)
  moreover
  have "map_option (\<lambda>qu. map iState (items qu)) (q limited_server0) = Some [ItemStateReady]"
    by code_simp
  ultimately show ?thesis by blast
qed

subsection \<open>reserveWithLimits (2019 revision)\<close>

text \<open>
  Claim C10. \<^verbatim>\<open>reserveWithLimits\<close> is called with one scheduler group that carries
  limit groups. If the limiter's \<^verbatim>\<open>Increment\<close> of them fails, the result is
  \<^verbatim>\<open>ErrNothingReady\<close> with no item, and the server (queue and limiter) is unchanged.
  If it succeeds and the queue's \<^verbatim>\<open>Reserve\<close> fails, the groups are decremented
  again and the server is unchanged. If it succeeds and an item is reserved, the item
  returned and the item in the queue hold a job that records the limit groups, and the
  limiter keeps the increment. So whenever no item is returned the server, its limiter
  included, is as before.
\<close>

theorem reserveWithLimits_limits:
  assumes "schedGroupToLimitGroups D g \<noteq> []"
  shows "(\<not> fst (Increment (limiter s) (schedGroupToLimitGroups D g)) \<longrightarrow>
            reserveWithLimits D s qu [g] = ((None, Some queue_ErrNothingReady), s)) \<and>
         (\<forall>e. fst (Increment (limiter s) (schedGroupToLimitGroups D g)) \<and>
              Reserve qu (Some g) = Inl e \<longrightarrow>
            reserveWithLimits D s qu [g] = ((None, Some e), s)) \<and>
         (\<forall>item qu1. fst (Increment (limiter s) (schedGroupToLimitGroups D g)) \<and>
              Reserve qu (Some g) = Inr (item, qu1) \<longrightarrow>
            reserveWithLimits D s qu [g] =
              ((Some (item\<lparr>iData := (iData item)
                        \<lparr>incrementedLimitGroups := schedGroupToLimitGroups D g\<rparr>\<rparr>), None),
               s\<lparr>limiter := snd (Increment (limiter s) (schedGroupToLimitGroups D g)),
                  q := Some (modify_job qu1 (iKey item)
                               (\<lambda>j. j\<lparr>incrementedLimitGroups := schedGroupToLimitGroups D g\<rparr>))\<rparr>)) \<and>
         (fst (fst (reserveWithLimits D s qu [g])) = None \<longrightarrow>
            snd (reserveWithLimits D s qu [g]) = s)"
proof -
  let ?lgs = "schedGroupToLimitGroups D g"
  have dec: "Decrement (snd (Increment (limiter s) ?lgs)) ?lgs = limiter s"
    if "fst (Increment (limiter s) ?lgs)"
    using that Decrement_Increment [of "limiter s" ?lgs "snd (Increment (limiter s) ?lgs)"]
    by (cases "Increment (limiter s) ?lgs") simp
  have n: "noteIncrementedLimitGroups ?lgs = (\<lambda>j. j\<lparr>incrementedLimitGroups := ?lgs\<rparr>)"
    by (rule ext) (simp add: noteIncrementedLimitGroups_def)
  show ?thesis
    using assms dec
    by (cases "Reserve qu (Some g)")
       (auto simp: reserveWithLimits_def Let_def n)
qed

text \<open>
  The theorem at the scheduler group \<open>g~a,b\<close> (limit groups \<open>a\<close> and \<open>b\<close>): with
  \<open>a\<close> at its limit, with an empty queue, and with a ready item of that group.
\<close>

theorem reserveWithLimits_limits_witness:
  "schedGroupToLimitGroups deps0 ''g~a,b'' = [''a'', ''b''] \<and>
   reserveWithLimits deps0 ((server0 [item0 ItemStateReady limited_job0] 1 [])\<lparr>limiter := full_limiter\<rparr>)
       (queue0 [item0 ItemStateReady limited_job0]) [''g~a,b''] =
     ((None, Some queue_ErrNothingReady),
      (server0 [item0 ItemStateReady limited_job0] 1 [])\<lparr>limiter := full_limiter\<rparr>) \<and>
   reserveWithLimits deps0 (server0 [] 1 []) (queue0 []) [''g~a,b''] =
     ((None, Some queue_ErrNothingReady), server0 [] 1 []) \<and>
   map_option (\<lambda>i. incrementedLimitGroups (iData i))
       (fst (fst (reserveWithLimits deps0 (server0 [item0 ItemStateReady limited_job0] 1 [])
                    (queue0 [item0 ItemStateReady limited_job0]) [''g~a,b'']))) =
     Some [''a'', ''b'']"
proof -
  have l: "schedGroupToLimitGroups deps0 ''g~a,b'' = [''a'', ''b'']"
    by code_simp
  then have ne: "schedGroupToLimitGroups deps0 ''g~a,b'' \<noteq> []" by simp
  note t = reserveWithLimits_limits [OF ne]
  have f: "\<not> fst (Increment
                   (limiter ((server0 [item0 ItemStateReady limited_job0] 1 [])\<lparr>limiter := full_limiter\<rparr>))
                   (schedGroupToLimitGroups deps0 ''g~a,b''))"
    by code_simp
  have e: "fst (Increment (limiter (server0 [] 1 [])) (schedGroupToLimitGroups deps0 ''g~a,b'')) \<and>
           Reserve (queue0 []) (Some ''g~a,b'') = Inl queue_ErrNothingReady"
    by code_simp
  have r: "fst (Increment (limiter (server0 [item0 ItemStateReady limited_job0] 1 []))
                  (schedGroupToLimitGroups deps0 ''g~a,b'')) \<and>
           Reserve (queue0 [item0 ItemStateReady limited_job0]) (Some ''g~a,b'') =
             Inr (item0 ItemStateRun limited_job0, queue0 [item0 ItemStateRun limited_job0])"
    by code_simp
  note a = t [THEN conjunct1, THEN mp, OF f]
  note b = t [THEN conjunct2, THEN conjunct1, THEN spec, THEN mp, OF e]
  note c = t [THEN conjunct2, THEN conjunct2, THEN conjunct1, THEN spec, THEN spec, THEN mp, OF r]
  have d: "map_option (\<lambda>i. incrementedLimitGroups (iData i))
       (fst (fst (reserveWithLimits deps0 (server0 [item0 ItemStateReady limited_job0] 1 [])
                    (queue0 [item0 ItemStateReady limited_job0]) [''g~a,b'']))) =
     Some [''a'', ''b'']"
    unfolding c by (simp add: l)
  from l a b d show ?thesis by (intro conjI)
qed

subsection \<open>Requests that getij rejects (2019 revision)\<close>

text \<open>
  Claim C9. The request is a \<^verbatim>\<open>jstart\<close>, \<^verbatim>\<open>jtouch\<close>, \<^verbatim>\<open>jarchive\<close>,
  \<^verbatim>\<open>jrelease\<close> or \<^verbatim>\<open>jbury\<close> that carries the server's token, on a server that
  is up or draining, with its queue. The checks of \<^verbatim>\<open>getij\<close> are made in this
  order: a request without a job is answered \<^verbatim>\<open>ErrBadRequest\<close>; one whose job key
  the queue does not hold, or holds outside the run sub-queue, is answered
  \<^verbatim>\<open>ErrBadJob\<close>; one whose job is in the run sub-queue and reserved by another
  client is answered \<^verbatim>\<open>ErrMustReserve\<close>. In each case the reply is the error alone
  and the server, with its queue and jobs, is as before.
\<close>

theorem getij_rejections:
  assumes "Method cr \<in> set [''jstart'', ''jtouch'', ''jarchive'', ''jrelease'', ''jbury'']"
    and "q s = Some qu" and "up s \<or> drain s"
    and "length (Token cr) = tokenLength D" and "Token cr = token s"
  shows "(Job cr = None \<longrightarrow>
            handleRequest D now ws s cr = Some (empty_response\<lparr>Err := Some ErrBadRequest\<rparr>, s)) \<and>
         (\<forall>rj. Job cr = Some rj \<and>
               (case Get qu (jobKey rj) of Inl e \<Rightarrow> True | Inr item \<Rightarrow> iState item \<noteq> ItemStateRun) \<longrightarrow>
            handleRequest D now ws s cr = Some (empty_response\<lparr>Err := Some ErrBadJob\<rparr>, s)) \<and>
         (\<forall>rj item. Job cr = Some rj \<and> Get qu (jobKey rj) = Inr item \<and>
               iState item = ItemStateRun \<and> ClientID cr \<noteq> ReservedBy (iData item) \<longrightarrow>
            handleRequest D now ws s cr = Some (empty_response\<lparr>Err := Some ErrMustReserve\<rparr>, s))"
proof -
  have g1: "Job cr = None \<Longrightarrow> getij qu cr = Inl ErrBadRequest"
    by (simp add: getij_def)
  have g2: "Job cr = Some rj \<Longrightarrow>
      (case Get qu (jobKey rj) of Inl e \<Rightarrow> True | Inr item \<Rightarrow> iState item \<noteq> ItemStateRun) \<Longrightarrow>
      getij qu cr = Inl ErrBadJob" for rj
    by (auto simp: getij_def split: sum.splits)
  have g3: "Job cr = Some rj \<Longrightarrow> Get qu (jobKey rj) = Inr item \<Longrightarrow>
      iState item = ItemStateRun \<Longrightarrow> ClientID cr \<noteq> ReservedBy (iData item) \<Longrightarrow>
      getij qu cr = Inl ErrMustReserve" for rj item
    by (simp add: getij_def)
  have h: "getij qu cr = Inl e \<Longrightarrow>
      handleRequest D now ws s cr = Some (empty_response\<lparr>Err := Some e\<rparr>, s)" for e
    using assms
    by (auto simp: handleRequest_def tokenMatches_def dispatch_def reply_of_def Let_def
          jstart_def jtouch_def jarchive_def jrelease_def jrelease_with_def jbury_def)
  show ?thesis
    by (intro conjI allI impI h) (auto intro: g1 g2 g3)
qed

text \<open>
  The theorem at a \<^verbatim>\<open>jstart\<close> without a job, a \<^verbatim>\<open>jarchive\<close> of a job that is
  in the ready sub-queue, a \<^verbatim>\<open>jtouch\<close> of a job the queue does not hold, and a
  \<^verbatim>\<open>jbury\<close> by a client that has not reserved the job.
\<close>

theorem getij_rejections_witness:
  "handleRequest deps0 0 [] (server0 [item0 ItemStateRun (running_job 0 3)] 1 [])
       ((request0 ''jstart'')\<lparr>Job := None\<rparr>) =
     Some (empty_response\<lparr>Err := Some ErrBadRequest\<rparr>,
           server0 [item0 ItemStateRun (running_job 0 3)] 1 []) \<and>
   handleRequest deps0 0 [] (server0 [item0 ItemStateReady (running_job 0 3)] 1 [])
       (request0 ''jarchive'') =
     Some (empty_response\<lparr>Err := Some ErrBadJob\<rparr>,
           server0 [item0 ItemStateReady (running_job 0 3)] 1 []) \<and>
   handleRequest deps0 0 [] (server0 [] 1 []) (request0 ''jtouch'') =
     Some (empty_response\<lparr>Err := Some ErrBadJob\<rparr>, server0 [] 1 []) \<and>
   handleRequest deps0 0 [] (server0 [item0 ItemStateRun (running_job 0 3)] 1 [])
       ((request0 ''jbury'')\<lparr>ClientID := 8\<rparr>) =
     Some (empty_response\<lparr>Err := Some ErrMustReserve\<rparr>,
           server0 [item0 ItemStateRun (running_job 0 3)] 1 [])"
proof -
  have m: "Method (request0 x) = x" "Method ((request0 x)\<lparr>Job := j\<rparr>) = x"
    "Method ((request0 x)\<lparr>ClientID := c\<rparr>) = x" for x j c
    by (simp_all add: request0_def)
  have h: "q (server0 is n fs) = Some (queue0 is)" "up (server0 is n fs) \<or> drain (server0 is n fs)"
    for "is" n fs
    by (simp_all add: server0_def)
  have k: "length (Token (request0 x)) = tokenLength deps0" "Token (request0 x) = token (server0 is n fs)"
    "length (Token ((request0 x)\<lparr>Job := j\<rparr>)) = tokenLength deps0"
    "Token ((request0 x)\<lparr>Job := j\<rparr>) = token (server0 is n fs)"
    "length (Token ((request0 x)\<lparr>ClientID := c\<rparr>)) = tokenLength deps0"
    "Token ((request0 x)\<lparr>ClientID := c\<rparr>) = token (server0 is n fs)" for x j c "is" n fs
    by (simp_all add: request0_def server0_def deps0_def)
  have j: "Job ((request0 ''jstart'')\<lparr>Job := None\<rparr>) = None" by simp
  have b1: "Job (request0 ''jarchive'') = Some (job0\<lparr>FailReason := ''boom''\<rparr>) \<and>
            (case Get (queue0 [item0 ItemStateReady (running_job 0 3)])
                    (jobKey (job0\<lparr>FailReason := ''boom''\<rparr>)) of
               Inl e \<Rightarrow> True | Inr item \<Rightarrow> iState item \<noteq> ItemStateRun)"
    by code_simp
  have b2: "Job (request0 ''jtouch'') = Some (job0\<lparr>FailReason := ''boom''\<rparr>) \<and>
            (case Get (queue0 []) (jobKey (job0\<lparr>FailReason := ''boom''\<rparr>)) of
               Inl e \<Rightarrow> True | Inr item \<Rightarrow> iState item \<noteq> ItemStateRun)"
    by code_simp
  have b3: "Job ((request0 ''jbury'')\<lparr>ClientID := 8\<rparr>) = Some (job0\<lparr>FailReason := ''boom''\<rparr>) \<and>
            Get (queue0 [item0 ItemStateRun (running_job 0 3)]) (jobKey (job0\<lparr>FailReason := ''boom''\<rparr>)) =
              Inr (item0 ItemStateRun (running_job 0 3)) \<and>
            iState (item0 ItemStateRun (running_job 0 3)) = ItemStateRun \<and>
            ClientID ((request0 ''jbury'')\<lparr>ClientID := 8\<rparr>) \<noteq>
              ReservedBy (iData (item0 ItemStateRun (running_job 0 3)))"
    by code_simp
  have mem: "''jstart'' \<in> set [''jstart'', ''jtouch'', ''jarchive'', ''jrelease'', ''jbury'']"
    "''jtouch'' \<in> set [''jstart'', ''jtouch'', ''jarchive'', ''jrelease'', ''jbury'']"
    "''jarchive'' \<in> set [''jstart'', ''jtouch'', ''jarchive'', ''jrelease'', ''jbury'']"
    "''jbury'' \<in> set [''jstart'', ''jtouch'', ''jarchive'', ''jrelease'', ''jbury'']"
    by simp_all
  note t1 = getij_rejections [where cr = "(request0 ''jstart'')\<lparr>Job := None\<rparr>" and D = deps0
      and s = "server0 [item0 ItemStateRun (running_job 0 3)] 1 []" and now = 0 and ws = "[]",
      unfolded m, OF mem(1) h k(3) k(4), THEN conjunct1, THEN mp, OF j]
  note t2 = getij_rejections [where cr = "request0 ''jarchive''" and D = deps0
      and s = "server0 [item0 ItemStateReady (running_job 0 3)] 1 []" and now = 0 and ws = "[]",
      unfolded m, OF mem(3) h k(1) k(2), THEN conjunct2, THEN conjunct1, THEN spec, THEN mp, OF b1]
  note t3 = getij_rejections [where cr = "request0 ''jtouch''" and D = deps0
      and s = "server0 [] 1 []" and now = 0 and ws = "[]",
      unfolded m, OF mem(2) h k(1) k(2), THEN conjunct2, THEN conjunct1, THEN spec, THEN mp, OF b2]
  note t4 = getij_rejections [where cr = "(request0 ''jbury'')\<lparr>ClientID := 8\<rparr>" and D = deps0
      and s = "server0 [item0 ItemStateRun (running_job 0 3)] 1 []" and now = 0 and ws = "[]",
      unfolded m, OF mem(4) h k(5) k(6), THEN conjunct2, THEN conjunct2, THEN spec, THEN spec,
      THEN mp, OF b3]
  from t1 t2 t3 t4 show ?thesis by (intro conjI)
qed

subsection \<open>jkick (2019 revision)\<close>

lemma buried_kicked:
  assumes "lookup qu k = Some i"
  shows "buried (modify_job (modify_item qu k (\<lambda>i. i\<lparr>iState := ItemStateReady\<rparr>)) k f) k' =
           (k' \<noteq> k \<and> buried qu k')"
  using assms by (simp add: buried_def lookup_modify_job lookup_modify_item)

lemma lookup_kicked:
  assumes "lookup qu k = Some i"
  shows "lookup (modify_job (modify_item qu k (\<lambda>i. i\<lparr>iState := ItemStateReady\<rparr>)) k f) k' =
           (if k' = k then Some (i\<lparr>iState := ItemStateReady, iData := f (iData i)\<rparr>)
            else lookup qu k')"
  using assms by (simp add: lookup_modify_job lookup_modify_item)

lemma card_buried_step:
  assumes "buried qu k"
  shows "card {k' \<in> set (k # ks). buried qu k'} =
           Suc (card {k' \<in> set ks. k' \<noteq> k \<and> buried qu k'})"
proof -
  have "{k' \<in> set (k # ks). buried qu k'} = insert k {k' \<in> set ks. k' \<noteq> k \<and> buried qu k'}"
    using assms by auto
  then show ?thesis by simp
qed

lemma jkick_loop_spec:
  assumes "\<not> closed qu" and "jkick_loop keys qu d n = (qu', d', n')"
  shows "n' = n + int (card {k \<in> set keys. buried qu k}) \<and>
         (\<forall>k. lookup qu' k =
                (if k \<in> set keys \<and> buried qu k
                 then map_option (\<lambda>i. i\<lparr>iState := ItemStateReady, iData := kick_writes (iData i)\<rparr>)
                        (lookup qu k)
                 else lookup qu k))"
  using assms
proof (induction keys arbitrary: qu d n)
  case Nil
  then show ?case by simp
next
  case (Cons k ks)
  show ?case
  proof (cases "buried qu k")
    case False
    then have "jkick_loop (k # ks) qu d n = jkick_loop ks qu d n"
      using Cons.prems(1)
      by (auto simp: Get_def buried_def split: option.splits)
    with Cons.prems have "jkick_loop ks qu d n = (qu', d', n')" by simp
    from Cons.IH [OF Cons.prems(1) this] False
    have a: "n' = n + int (card {k \<in> set ks. buried qu k})"
      and b: "\<And>k'. lookup qu' k' =
                (if k' \<in> set ks \<and> buried qu k'
                 then map_option (\<lambda>i. i\<lparr>iState := ItemStateReady, iData := kick_writes (iData i)\<rparr>)
                        (lookup qu k')
                 else lookup qu k')" by auto
    have "{k' \<in> set (k # ks). buried qu k'} = {k' \<in> set ks. buried qu k'}"
      using False by auto
    with a b False show ?thesis by auto
  next
    case True
    then obtain i where i: "lookup qu k = Some i" "iState i = ItemStateBury"
      by (auto simp: buried_def split: option.splits)
    have key: "iKey i = k" using i(1) by (rule lookup_key)
    let ?qu2 = "modify_job (modify_item qu k (\<lambda>i. i\<lparr>iState := ItemStateReady\<rparr>)) k kick_writes"
    have kick: "Kick qu k = Inr (modify_item qu k (\<lambda>i. i\<lparr>iState := ItemStateReady\<rparr>))"
      unfolding Kick_def by (rule move_item_ok [OF Cons.prems(1) i(1)]) (simp add: i(2))
    have step: "jkick_loop (k # ks) qu d n =
                  jkick_loop ks ?qu2 (updateJobAfterChange d (kick_writes (iData i))) (n + 1)"
      using Cons.prems(1) i kick by (simp add: Get_def key)
    have c2: "\<not> closed ?qu2" using Cons.prems(1) by simp
    from Cons.prems(2) step
    have "jkick_loop ks ?qu2 (updateJobAfterChange d (kick_writes (iData i))) (n + 1) = (qu', d', n')"
      by simp
    from Cons.IH [OF c2 this]
    have a: "n' = n + 1 + int (card {k' \<in> set ks. buried ?qu2 k'})"
      and b: "\<And>k'. lookup qu' k' =
                (if k' \<in> set ks \<and> buried ?qu2 k'
                 then map_option (\<lambda>i. i\<lparr>iState := ItemStateReady, iData := kick_writes (iData i)\<rparr>)
                        (lookup ?qu2 k')
                 else lookup ?qu2 k')" by auto
    have bk: "buried ?qu2 k' = (k' \<noteq> k \<and> buried qu k')" for k'
      by (rule buried_kicked [OF i(1)])
    have lk: "lookup ?qu2 k' =
                (if k' = k then Some (i\<lparr>iState := ItemStateReady, iData := kick_writes (iData i)\<rparr>)
                 else lookup qu k')" for k'
      by (rule lookup_kicked [OF i(1)])
    have n: "n' = n + int (card {k' \<in> set (k # ks). buried qu k'})"
      unfolding card_buried_step [OF True] using a by (simp add: bk)
    have l: "lookup qu' k' =
                (if k' \<in> set (k # ks) \<and> buried qu k'
                 then map_option (\<lambda>i. i\<lparr>iState := ItemStateReady, iData := kick_writes (iData i)\<rparr>)
                        (lookup qu k')
                 else lookup qu k')" for k'
      using True i(1) by (simp add: b bk lk)
    from n l show ?thesis by blast
  qed
qed

text \<open>
  Claim C8. The request is a \<^verbatim>\<open>jkick\<close> with a key list, carrying the server's
  token, on a server that is up or draining, with a queue that has not been closed. The
  reply carries no error and its count is the number of keys of the list that the
  queue held in the bury sub-queue (a key listed twice counts once: its second turn
  finds the item ready). Afterwards each of those keys is in the ready sub-queue, its
  job has \<^verbatim>\<open>UntilBuried = Retries + 1\<close> and state ready, and every other key,
  listed or not, is as it was.
\<close>

theorem jkick_spec:
  assumes "Method cr = ''jkick''" and "Keys cr = Some keys" and "q s = Some qu"
    and "\<not> closed qu" and "up s \<or> drain s"
    and "length (Token cr) = tokenLength D" and "Token cr = token s"
  shows "\<exists>qu' d'.
           handleRequest D now ws s cr =
             Some (empty_response\<lparr>Existed := int (card {k \<in> set keys. buried qu k})\<rparr>,
                   s\<lparr>q := Some qu', db := d'\<rparr>) \<and>
           (\<forall>k. lookup qu' k =
                  (if k \<in> set keys \<and> buried qu k
                   then map_option
                          (\<lambda>i. i\<lparr>iState := ItemStateReady,
                                 iData := (iData i)\<lparr>UntilBuried := Retries (iData i) + 1,
                                                    State := JobStateReady\<rparr>\<rparr>)
                          (lookup qu k)
                   else lookup qu k))"
proof -
  obtain qu' d' n' where loop: "jkick_loop keys qu (db s) 0 = (qu', d', n')"
    by (cases "jkick_loop keys qu (db s) 0") auto
  from jkick_loop_spec [OF assms(4) loop]
  have n: "n' = int (card {k \<in> set keys. buried qu k})"
    and l: "\<And>k. lookup qu' k =
                (if k \<in> set keys \<and> buried qu k
                 then map_option (\<lambda>i. i\<lparr>iState := ItemStateReady, iData := kick_writes (iData i)\<rparr>)
                        (lookup qu k)
                 else lookup qu k)" by auto
  have res: "handleRequest D now ws s cr =
          Some (empty_response\<lparr>Existed := int (card {k \<in> set keys. buried qu k})\<rparr>,
                s\<lparr>q := Some qu', db := d'\<rparr>)"
    using assms loop n
    by (auto simp: handleRequest_def tokenMatches_def dispatch_def jkick_def reply_of_def Let_def)
  show ?thesis
    by (rule exI [of _ qu'], rule exI [of _ d'])
       (use res l in \<open>simp add: kick_writes_def\<close>)
qed

text \<open>
  The theorem at a queue with a buried job and a ready job, and a key list that names
  the buried job twice, the ready job, and a key the queue does not hold: one job is
  kicked.
\<close>

theorem jkick_spec_witness:
  "\<exists>qu' d'.
     handleRequest deps0 0 [] (server0 kick_queue0 1 []) kick_request0 =
       Some (empty_response\<lparr>Existed := 1\<rparr>, (server0 kick_queue0 1 [])\<lparr>q := Some qu', db := d'\<rparr>) \<and>
     map_option (\<lambda>i. (iState i, UntilBuried (iData i))) (lookup qu' ''echo x'') =
       Some (ItemStateReady, 3) \<and>
     map_option (\<lambda>i. (iState i, UntilBuried (iData i))) (lookup qu' ''ls'') =
       Some (ItemStateReady, 1) \<and>
     lookup qu' ''missing'' = None"
proof -
  let ?keys = "[''echo x'', ''ls'', ''missing'', ''echo x'']"
  have h: "Method kick_request0 = ''jkick''" "Keys kick_request0 = Some ?keys"
    "q (server0 kick_queue0 1 []) = Some (queue0 kick_queue0)" "\<not> closed (queue0 kick_queue0)"
    "up (server0 kick_queue0 1 []) \<or> drain (server0 kick_queue0 1 [])"
    "length (Token kick_request0) = tokenLength deps0"
    "Token kick_request0 = token (server0 kick_queue0 1 [])"
    by (simp_all add: kick_request0_def request0_def server0_def queue0_def deps0_def)
  have b: "buried (queue0 kick_queue0) ''echo x''" "\<not> buried (queue0 kick_queue0) ''ls''"
    "\<not> buried (queue0 kick_queue0) ''missing''"
    by code_simp+
  have l: "map_option (\<lambda>i. (iState i, Retries (iData i))) (lookup (queue0 kick_queue0) ''echo x'') =
             Some (ItemStateBury, 2)"
    "map_option (\<lambda>i. (iState i, UntilBuried (iData i))) (lookup (queue0 kick_queue0) ''ls'') =
             Some (ItemStateReady, 1)"
    "lookup (queue0 kick_queue0) ''missing'' = None"
    by code_simp+
  have "{k \<in> set ?keys. buried (queue0 kick_queue0) k} = {''echo x''}"
    using b by auto
  then have c: "int (card {k \<in> set ?keys. buried (queue0 kick_queue0) k}) = 1"
    by simp
  from jkick_spec [OF h, where now = 0 and ws = "[]"]
  obtain qu' d' where
    r: "handleRequest deps0 0 [] (server0 kick_queue0 1 []) kick_request0 =
          Some (empty_response\<lparr>Existed := 1\<rparr>, (server0 kick_queue0 1 [])\<lparr>q := Some qu', db := d'\<rparr>)"
    and k: "\<And>k. lookup qu' k =
              (if k \<in> set ?keys \<and> buried (queue0 kick_queue0) k
               then map_option
                      (\<lambda>i. i\<lparr>iState := ItemStateReady,
                             iData := (iData i)\<lparr>UntilBuried := Retries (iData i) + 1,
                                                State := JobStateReady\<rparr>\<rparr>)
                      (lookup (queue0 kick_queue0) k)
               else lookup (queue0 kick_queue0) k)"
    unfolding c by blast
  have "map_option (\<lambda>i. (iState i, UntilBuried (iData i))) (lookup qu' ''echo x'') =
          Some (ItemStateReady, 3)"
    using l(1) by (auto simp: k b)
  moreover
  have "map_option (\<lambda>i. (iState i, UntilBuried (iData i))) (lookup qu' ''ls'') =
          Some (ItemStateReady, 1)"
    using l(2) by (simp add: k b)
  moreover
  have "lookup qu' ''missing'' = None"
    using l(3) by (simp add: k b)
  ultimately show ?thesis using r by blast
qed

subsection \<open>jarchive (both revisions)\<close>

lemma layout_modify_job [simp]: "layout (modify_job qu k f) = layout qu"
  by (simp add: layout_def modify_job_def modify_item_def comp_def if_distrib cong: if_cong)

lemma item_state_modify_job [simp]: "item_state (modify_job qu k f) k' = item_state qu k'"
  by (auto simp: item_state_def lookup_modify_job split: option.splits)

lemma lookup_removed:
  "lookup (qu\<lparr>items := filter (\<lambda>i. iKey i \<noteq> k) (items qu)\<rparr>) k = None"
  by (simp add: lookup_def find_None_iff)

lemma Remove_found:
  assumes "\<not> closed qu" and "lookup qu k = Some i"
  shows "Remove qu k = Inr (qu\<lparr>items := filter (\<lambda>i. iKey i \<noteq> k) (items qu)\<rparr>)"
  using assms by (simp add: Remove_def)

lemma archiveJob_cases:
  "archiveJob d key job =
     (if write_fails d 0 then (False, d\<lparr>faults := tl (faults d)\<rparr>)
      else (True, d\<lparr>faults := tl (faults d), live := (live d)(key := None),
                    complete := (complete d)(key \<mapsto> job)\<rparr>))"
  by (cases "faults d") (auto simp: archiveJob_def next_fault_def write_fails_def)

lemma rpl_delete_gone: "rpl_delete m rg k rg = Some km \<Longrightarrow> km k = None"
  by (auto simp: rpl_delete_def split: option.splits)

lemma jobKey_updateAfterExit [simp]: "jobKey (fst (updateAfterExit es j l)) = jobKey j"
  by (simp add: updateAfterExit_def jobKey_def)

lemma decrementGroupCount_fields [simp]:
  "db (decrementGroupCount s g) = db s" "rpl (decrementGroupCount s g) = rpl s"
  "limiter (decrementGroupCount s g) = limiter s" "qs (decrementGroupCount s g) = qs s"
  by (simp_all add: decrementGroupCount_def Let_def)

lemma decrementGroupCount_counts:
  "sgroupcounts (decrementGroupCount s g) =
     (sgroupcounts s)(g := (if count_of s g \<le> 1 then None else Some (count_of s g - 1)))"
  by (auto simp: decrementGroupCount_def Let_def)

text \<open>
  The \<^verbatim>\<open>jarchive\<close> case of the 2019 revision, by cases.
\<close>

lemma jarchive_archived:
  assumes "Method cr = ''jarchive''" and "q s = Some qu" and "\<not> closed qu"
    and "up s \<or> drain s" and "length (Token cr) = tokenLength D" and "Token cr = token s"
    and "Job cr = Some rj" and "lookup qu (jobKey rj) = Some item"
    and "ReservedBy (iData item) = ClientID cr" and "jobKey (iData item) = jobKey rj"
    and "updateAfterExit (JobEndState cr) (iData item) (limiter s) = (job1, lim1)"
  shows "(iState item \<noteq> ItemStateRun \<longrightarrow>
            handleRequest D now ws s cr = Some (empty_response\<lparr>Err := Some ErrBadJob\<rparr>, s)) \<and>
         (iState item = ItemStateRun \<and>
          \<not> (Exited job1 \<and> Exitcode job1 = 0 \<and> StartTime job1 \<noteq> 0 \<and> EndTime job1 \<noteq> 0) \<longrightarrow>
            handleRequest D now ws s cr =
              Some (empty_response\<lparr>Err := Some ErrBadRequest\<rparr>,
                    s\<lparr>q := Some (modify_job qu (jobKey rj)
                                   (\<lambda>j. fst (updateAfterExit (JobEndState cr) j (limiter s)))),
                      limiter := lim1\<rparr>)) \<and>
         (iState item = ItemStateRun \<and>
          Exited job1 \<and> Exitcode job1 = 0 \<and> StartTime job1 \<noteq> 0 \<and> EndTime job1 \<noteq> 0 \<longrightarrow>
            (\<exists>s' qu'. handleRequest D now ws s cr =
                         Some (empty_response\<lparr>Err := (if write_fails (db s) 0 then Some ErrDBError
                                                        else None)\<rparr>, s') \<and>
                       q s' = Some qu' \<and> limiter s' = lim1 \<and>
                       (if write_fails (db s) 0
                        then map_option (\<lambda>i. (iState i, State (iData i), FailReason (iData i)))
                               (lookup qu' (jobKey rj)) =
                               Some (ItemStateRun, JobStateComplete, '''') \<and>
                             layout qu' = layout qu \<and>
                             complete (db s') = complete (db s) \<and> live (db s') = live (db s) \<and>
                             rpl s' = rpl s \<and> sgroupcounts s' = sgroupcounts s
                        else lookup qu' (jobKey rj) = None \<and>
                             complete (db s') (jobKey rj) =
                               Some (job1\<lparr>State := JobStateComplete, FailReason := ''''\<rparr>) \<and>
                             live (db s') (jobKey rj) = None \<and>
                             (\<forall>km. rpl s' (RepGroup job1) = Some km \<longrightarrow> km (jobKey rj) = None) \<and>
                             sgroupcounts s' =
                               (sgroupcounts s)
                                 (schedulerGroup job1 :=
                                    (if count_of s (schedulerGroup job1) \<le> 1 then None
                                     else Some (count_of s (schedulerGroup job1) - 1))))))"
proof -
  let ?k = "jobKey rj"
  let ?upd = "\<lambda>j. fst (updateAfterExit (JobEndState cr) j (limiter s))"
  let ?qu1 = "modify_job qu ?k ?upd"
  let ?qu2 = "modify_job ?qu1 ?k archive_writes"
  let ?ok = "Exited job1 \<and> Exitcode job1 = 0 \<and> StartTime job1 \<noteq> 0 \<and> EndTime job1 \<noteq> 0"
  have key: "iKey item = ?k" using assms(8) by (rule lookup_key)
  have gate: "handleRequest D now ws s cr = Some (reply_of (jarchive s qu cr))"
    using assms(1-6)
    by (auto simp: handleRequest_def tokenMatches_def dispatch_def Let_def)
  have get: "Get qu ?k = Inr item" using assms(3,8) by (simp add: Get_def)
  have u1: "?upd (iData item) = job1"
    and u2: "snd (updateAfterExit (JobEndState cr) (iData item) (limiter s)) = lim1"
    using assms(11) by simp_all
  have k1: "jobKey job1 = ?k" using u1 [symmetric] assms(10) by simp
  have st: "item_state qu ?k = iState item"
    by (simp add: item_state_def assms(8))
  have l2: "lookup ?qu2 ?k = Some (item\<lparr>iData := archive_writes job1\<rparr>)"
    by (simp add: lookup_modify_job assms(8) u1)
  have c2: "\<not> closed ?qu2" using assms(3) by simp
  have cs: "count_of (s\<lparr>limiter := b, q := a, db := c, rpl := d\<rparr>) g = count_of s g" for a b c d g
    by (simp add: count_of_def)
  have a: "iState item \<noteq> ItemStateRun \<Longrightarrow>
        handleRequest D now ws s cr = Some (empty_response\<lparr>Err := Some ErrBadJob\<rparr>, s)"
    using assms(7) get
    by (simp add: gate jarchive_def getij_def reply_of_def)
  have g: "iState item = ItemStateRun \<Longrightarrow> getij qu cr = Inr (item, iData item)"
    using assms(7,9) get by (simp add: getij_def)
  have b: "iState item = ItemStateRun \<Longrightarrow> \<not> ?ok \<Longrightarrow>
        handleRequest D now ws s cr =
          Some (empty_response\<lparr>Err := Some ErrBadRequest\<rparr>, s\<lparr>q := Some ?qu1, limiter := lim1\<rparr>)"
    by (auto simp: gate jarchive_def g key st u1 u2 reply_of_def Let_def)
  have c: "iState item = ItemStateRun \<Longrightarrow> ?ok \<Longrightarrow> write_fails (db s) 0 \<Longrightarrow>
        handleRequest D now ws s cr =
          Some (empty_response\<lparr>Err := Some ErrDBError\<rparr>,
                s\<lparr>q := Some ?qu2, limiter := lim1, db := (db s)\<lparr>faults := tl (faults (db s))\<rparr>\<rparr>)"
    by (simp add: gate jarchive_def g key st u1 u2 reply_of_def Let_def archiveJob_cases k1)
  have d: "iState item = ItemStateRun \<Longrightarrow> ?ok \<Longrightarrow> \<not> write_fails (db s) 0 \<Longrightarrow>
        handleRequest D now ws s cr =
          Some (empty_response,
                decrementGroupCount
                  (s\<lparr>limiter := lim1,
                     q := Some (?qu2\<lparr>items := filter (\<lambda>i. iKey i \<noteq> ?k) (items ?qu2)\<rparr>),
                     db := (db s)\<lparr>faults := tl (faults (db s)), live := (live (db s))(?k := None),
                                 complete := (complete (db s))(?k \<mapsto> archive_writes job1)\<rparr>,
                     rpl := rpl_delete (rpl s) (RepGroup job1) ?k\<rparr>)
                  (schedulerGroup job1))"
    using Remove_found [OF c2 l2]
    by (simp add: gate jarchive_def g key st u1 u2 reply_of_def Let_def archiveJob_cases k1)
  show ?thesis
  proof (intro conjI impI)
    assume "iState item \<noteq> ItemStateRun"
    then show "handleRequest D now ws s cr = Some (empty_response\<lparr>Err := Some ErrBadJob\<rparr>, s)"
      by (rule a)
  next
    assume "iState item = ItemStateRun \<and> \<not> ?ok"
    then show "handleRequest D now ws s cr =
              Some (empty_response\<lparr>Err := Some ErrBadRequest\<rparr>,
                    s\<lparr>q := Some (modify_job qu (jobKey rj)
                                   (\<lambda>j. fst (updateAfterExit (JobEndState cr) j (limiter s)))),
                      limiter := lim1\<rparr>)"
      using b by blast
  next
    assume h: "iState item = ItemStateRun \<and> ?ok"
    show "\<exists>s' qu'. handleRequest D now ws s cr =
                         Some (empty_response\<lparr>Err := (if write_fails (db s) 0 then Some ErrDBError
                                                        else None)\<rparr>, s') \<and>
                       q s' = Some qu' \<and> limiter s' = lim1 \<and>
                       (if write_fails (db s) 0
                        then map_option (\<lambda>i. (iState i, State (iData i), FailReason (iData i)))
                               (lookup qu' (jobKey rj)) =
                               Some (ItemStateRun, JobStateComplete, '''') \<and>
                             layout qu' = layout qu \<and>
                             complete (db s') = complete (db s) \<and> live (db s') = live (db s) \<and>
                             rpl s' = rpl s \<and> sgroupcounts s' = sgroupcounts s
                        else lookup qu' (jobKey rj) = None \<and>
                             complete (db s') (jobKey rj) =
                               Some (job1\<lparr>State := JobStateComplete, FailReason := ''''\<rparr>) \<and>
                             live (db s') (jobKey rj) = None \<and>
                             (\<forall>km. rpl s' (RepGroup job1) = Some km \<longrightarrow> km (jobKey rj) = None) \<and>
                             sgroupcounts s' =
                               (sgroupcounts s)
                                 (schedulerGroup job1 :=
                                    (if count_of s (schedulerGroup job1) \<le> 1 then None
                                     else Some (count_of s (schedulerGroup job1) - 1))))"
    proof (cases "write_fails (db s) 0")
      case True
      show ?thesis
        by (rule exI [of _ "s\<lparr>q := Some ?qu2, limiter := lim1,
                               db := (db s)\<lparr>faults := tl (faults (db s))\<rparr>\<rparr>"],
            rule exI [of _ ?qu2])
           (use h True c l2 in \<open>simp add: archive_writes_def\<close>)
    next
      case False
      let ?s3 = "s\<lparr>limiter := lim1,
                     q := Some (?qu2\<lparr>items := filter (\<lambda>i. iKey i \<noteq> ?k) (items ?qu2)\<rparr>),
                     db := (db s)\<lparr>faults := tl (faults (db s)), live := (live (db s))(?k := None),
                                 complete := (complete (db s))(?k \<mapsto> archive_writes job1)\<rparr>,
                     rpl := rpl_delete (rpl s) (RepGroup job1) ?k\<rparr>"
      show ?thesis
        by (rule exI [of _ "decrementGroupCount ?s3 (schedulerGroup job1)"],
            rule exI [of _ "?qu2\<lparr>items := filter (\<lambda>i. iKey i \<noteq> ?k) (items ?qu2)\<rparr>"])
           (use h False d in
             \<open>auto simp: archive_writes_def lookup_removed empty_response_def
                   decrementGroupCount_counts cs dest: rpl_delete_gone\<close>)
    qed
  qed
qed

lemma put_queue_fields [simp]:
  "qs (put_queue s n z) n = Some z" "db (put_queue s n z) = db s"
  "rpl (put_queue s n z) = rpl s" "sgroupcounts (put_queue s n z) = sgroupcounts s"
  by (simp_all add: put_queue_def)

lemma decrementGroupCount_old_fields [simp]:
  "db (decrementGroupCount_old s j n) = db s" "rpl (decrementGroupCount_old s j n) = rpl s"
  "qs (decrementGroupCount_old s j n) = qs s"
  by (simp_all add: decrementGroupCount_old_def Let_def)

lemma decrementGroupCount_old_sgroupcounts:
  "sgroupcounts (decrementGroupCount_old s j n) =
     (sgroupcounts s)
       (schedulerGroup j := (if count_of s (schedulerGroup j) \<le> 1 then None
                             else Some (count_of s (schedulerGroup j) - 1)))"
  by (auto simp: decrementGroupCount_old_def Let_def)

text \<open>
  The \<^verbatim>\<open>jarchive\<close> case of the 2016 revision, by cases.
\<close>

lemma jarchive_old_archived:
  assumes "Method cr = ''jarchive''" and "qs s (QueueName cr) = Some qu" and "\<not> closed qu"
    and "Job cr = Some rj" and "lookup qu (jobKey rj) = Some item"
    and "ReservedBy (iData item) = ClientID cr" and "jobKey (iData item) = jobKey rj"
  shows "(iState item \<noteq> ItemStateRun \<longrightarrow>
            handleRequest_old D s cr = (empty_response\<lparr>Err := Some ErrBadJob\<rparr>, s)) \<and>
         (iState item = ItemStateRun \<and>
          \<not> (Exited (iData item) \<and> Exitcode (iData item) = 0 \<and>
             StartTime (iData item) \<noteq> 0 \<and> EndTime (iData item) \<noteq> 0) \<longrightarrow>
            handleRequest_old D s cr = (empty_response\<lparr>Err := Some ErrBadRequest\<rparr>, s)) \<and>
         (iState item = ItemStateRun \<and>
          Exited (iData item) \<and> Exitcode (iData item) = 0 \<and>
          StartTime (iData item) \<noteq> 0 \<and> EndTime (iData item) \<noteq> 0 \<longrightarrow>
            (\<exists>s' qu'. handleRequest_old D s cr =
                         (empty_response\<lparr>Err := (if write_fails (db s) 0 then Some ErrDBError
                                                  else None)\<rparr>, s') \<and>
                       qs s' (QueueName cr) = Some qu' \<and>
                       (if write_fails (db s) 0
                        then map_option (\<lambda>i. (iState i, State (iData i), FailReason (iData i)))
                               (lookup qu' (jobKey rj)) =
                               Some (ItemStateRun, JobStateComplete, '''') \<and>
                             layout qu' = layout qu \<and>
                             complete (db s') = complete (db s) \<and> live (db s') = live (db s) \<and>
                             rpl s' = rpl s \<and> sgroupcounts s' = sgroupcounts s
                        else lookup qu' (jobKey rj) = None \<and>
                             complete (db s') (jobKey rj) =
                               Some ((iData item)\<lparr>State := JobStateComplete, FailReason := '''',
                                       Walltime := int (EndTime (iData item)) -
                                                   int (StartTime (iData item))\<rparr>) \<and>
                             live (db s') (jobKey rj) = None \<and>
                             (\<forall>km. rpl s' (RepGroup (iData item)) = Some km \<longrightarrow>
                                   km (jobKey rj) = None) \<and>
                             sgroupcounts s' =
                               (sgroupcounts s)
                                 (schedulerGroup (iData item) :=
                                    (if count_of s (schedulerGroup (iData item)) \<le> 1 then None
                                     else Some (count_of s (schedulerGroup (iData item)) - 1))))))"
proof -
  let ?k = "jobKey rj"
  let ?job = "iData item"
  let ?qu1 = "modify_job qu ?k archive_writes_old"
  let ?ok = "Exited ?job \<and> Exitcode ?job = 0 \<and> StartTime ?job \<noteq> 0 \<and> EndTime ?job \<noteq> 0"
  have key: "iKey item = ?k" using assms(5) by (rule lookup_key)
  have sel: "select_queue s (QueueName cr) = (qu, s)" using assms(2) by (simp add: select_queue_def)
  have gate: "handleRequest_old D s cr = reply_of (jarchive_old s qu cr)"
    using assms(1) by (simp add: handleRequest_old_def sel)
  have get: "Get qu ?k = Inr item" using assms(3,5) by (simp add: Get_def)
  have l1: "lookup ?qu1 ?k = Some (item\<lparr>iData := archive_writes_old ?job\<rparr>)"
    by (simp add: lookup_modify_job assms(5))
  have c1: "\<not> closed ?qu1" using assms(3) by simp
  have a: "iState item \<noteq> ItemStateRun \<Longrightarrow>
        handleRequest_old D s cr = (empty_response\<lparr>Err := Some ErrBadJob\<rparr>, s)"
    using assms(4) get
    by (simp add: gate jarchive_old_def getij_def reply_of_def)
  have g: "iState item = ItemStateRun \<Longrightarrow> getij qu cr = Inr (item, ?job)"
    using assms(4,6) get by (simp add: getij_def)
  have b: "iState item = ItemStateRun \<Longrightarrow> \<not> ?ok \<Longrightarrow>
        handleRequest_old D s cr = (empty_response\<lparr>Err := Some ErrBadRequest\<rparr>, s)"
    by (auto simp: gate jarchive_old_def g reply_of_def Let_def)
  have c: "iState item = ItemStateRun \<Longrightarrow> ?ok \<Longrightarrow> write_fails (db s) 0 \<Longrightarrow>
        handleRequest_old D s cr =
          (empty_response\<lparr>Err := Some ErrDBError\<rparr>,
           put_queue (s\<lparr>db := (db s)\<lparr>faults := tl (faults (db s))\<rparr>\<rparr>) (QueueName cr) ?qu1)"
    by (simp add: gate jarchive_old_def g key reply_of_def Let_def archiveJob_cases assms(7))
  have d: "iState item = ItemStateRun \<Longrightarrow> ?ok \<Longrightarrow> \<not> write_fails (db s) 0 \<Longrightarrow>
        handleRequest_old D s cr =
          (empty_response,
           decrementGroupCount_old
             (put_queue
                (s\<lparr>db := (db s)\<lparr>faults := tl (faults (db s)), live := (live (db s))(?k := None),
                                  complete := (complete (db s))(?k \<mapsto> archive_writes_old ?job)\<rparr>,
                   rpl := rpl_delete (rpl s) (RepGroup ?job) ?k\<rparr>)
                (QueueName cr) (?qu1\<lparr>items := filter (\<lambda>i. iKey i \<noteq> ?k) (items ?qu1)\<rparr>))
             (archive_writes_old ?job) (Name qu))"
    using Remove_found [OF c1 l1]
    by (simp add: gate jarchive_old_def g key reply_of_def Let_def archiveJob_cases assms(7))
  have sg: "schedulerGroup (archive_writes_old j) = schedulerGroup j" for j
    by (simp add: archive_writes_old_def)
  have cs: "count_of (put_queue (s\<lparr>db := x, rpl := y\<rparr>) n z) h = count_of s h" for x y n z h
    by (simp add: count_of_def put_queue_def)
  show ?thesis
  proof (intro conjI impI)
    assume "iState item \<noteq> ItemStateRun"
    then show "handleRequest_old D s cr = (empty_response\<lparr>Err := Some ErrBadJob\<rparr>, s)"
      by (rule a)
  next
    assume "iState item = ItemStateRun \<and> \<not> ?ok"
    then show "handleRequest_old D s cr = (empty_response\<lparr>Err := Some ErrBadRequest\<rparr>, s)"
      using b by blast
  next
    assume h: "iState item = ItemStateRun \<and> ?ok"
    show "\<exists>s' qu'. handleRequest_old D s cr =
                         (empty_response\<lparr>Err := (if write_fails (db s) 0 then Some ErrDBError
                                                  else None)\<rparr>, s') \<and>
                       qs s' (QueueName cr) = Some qu' \<and>
                       (if write_fails (db s) 0
                        then map_option (\<lambda>i. (iState i, State (iData i), FailReason (iData i)))
                               (lookup qu' (jobKey rj)) =
                               Some (ItemStateRun, JobStateComplete, '''') \<and>
                             layout qu' = layout qu \<and>
                             complete (db s') = complete (db s) \<and> live (db s') = live (db s) \<and>
                             rpl s' = rpl s \<and> sgroupcounts s' = sgroupcounts s
                        else lookup qu' (jobKey rj) = None \<and>
                             complete (db s') (jobKey rj) =
                               Some ((iData item)\<lparr>State := JobStateComplete, FailReason := '''',
                                       Walltime := int (EndTime (iData item)) -
                                                   int (StartTime (iData item))\<rparr>) \<and>
                             live (db s') (jobKey rj) = None \<and>
                             (\<forall>km. rpl s' (RepGroup (iData item)) = Some km \<longrightarrow>
                                   km (jobKey rj) = None) \<and>
                             sgroupcounts s' =
                               (sgroupcounts s)
                                 (schedulerGroup (iData item) :=
                                    (if count_of s (schedulerGroup (iData item)) \<le> 1 then None
                                     else Some (count_of s (schedulerGroup (iData item)) - 1))))"
    proof (cases "write_fails (db s) 0")
      case True
      show ?thesis
        by (rule exI [of _ "put_queue (s\<lparr>db := (db s)\<lparr>faults := tl (faults (db s))\<rparr>\<rparr>)
                              (QueueName cr) ?qu1"],
            rule exI [of _ ?qu1])
           (use h True c l1 in \<open>simp add: archive_writes_old_def\<close>)
    next
      case False
      let ?s3 = "put_queue
                (s\<lparr>db := (db s)\<lparr>faults := tl (faults (db s)), live := (live (db s))(?k := None),
                                  complete := (complete (db s))(?k \<mapsto> archive_writes_old ?job)\<rparr>,
                   rpl := rpl_delete (rpl s) (RepGroup ?job) ?k\<rparr>)
                (QueueName cr) (?qu1\<lparr>items := filter (\<lambda>i. iKey i \<noteq> ?k) (items ?qu1)\<rparr>)"
      show ?thesis
        by (rule exI [of _ "decrementGroupCount_old ?s3 (archive_writes_old ?job) (Name qu)"],
            rule exI [of _ "?qu1\<lparr>items := filter (\<lambda>i. iKey i \<noteq> ?k) (items ?qu1)\<rparr>"])
           (use h False d in
             \<open>auto simp: lookup_removed empty_response_def sg cs
                   decrementGroupCount_old_sgroupcounts archive_writes_old_def
                   dest: rpl_delete_gone\<close>)
    qed
  qed
qed

text \<open>
  Claim C1, as the code has it, for both revisions. The request is a \<^verbatim>\<open>jarchive\<close>;
  the queue holds the request's job key, filed under its job's own key, and the job is
  reserved by the requesting client.

  2019 handler (the request carries the server's token, the server is up or draining);
  \<open>job1\<close> and \<open>lim1\<close> are the job and the limiter as \<^verbatim>\<open>updateAfterExit\<close> leaves
  them:
  \<^item> If the item is not in the run sub-queue, the reply is \<^verbatim>\<open>ErrBadJob\<close> and the
    server is unchanged.
  \<^item> If it is, and \<open>job1\<close> has not exited with code 0 with both times set, the reply is
    \<^verbatim>\<open>ErrBadRequest\<close>. Of the server, only what \<^verbatim>\<open>updateAfterExit\<close> wrote
    has changed: the job holds the merged end state and the limiter is \<open>lim1\<close>; no
    item has moved, and the database, the RepGroup index and the counts are as before.
  \<^item> Otherwise the job's state becomes complete and its fail reason is cleared, and
    then: if the write of \<^verbatim>\<open>archiveJob\<close> succeeds, the reply carries no error, the
    job is in the complete bucket and gone from the live bucket and from the queue, its
    key is gone from the index of its RepGroup, and the count of its scheduler group is
    one less (the entry is deleted when the count was at most 1); if the write fails,
    the reply is \<^verbatim>\<open>ErrDBError\<close>, the item stays in the run sub-queue, and the
    buckets, the index and the counts are as before.

  2016 handler (the queue is the one the request names): the same three cases, where the
  job is tested as it is in the queue, a rejected request leaves the server unchanged,
  and the archived job also gets its \<^verbatim>\<open>Walltime\<close>.
\<close>

theorem jarchive_spec:
  assumes "Method cr = ''jarchive''" and "\<not> closed qu" and "Job cr = Some rj"
    and "lookup qu (jobKey rj) = Some item" and "ReservedBy (iData item) = ClientID cr"
    and "jobKey (iData item) = jobKey rj"
    and "updateAfterExit (JobEndState cr) (iData item) (limiter s) = (job1, lim1)"
  shows "(q s = Some qu \<and> length (Token cr) = tokenLength D \<and> Token cr = token s \<and>
          (up s \<or> drain s) \<longrightarrow>
           (iState item \<noteq> ItemStateRun \<longrightarrow>
              handleRequest D now ws s cr = Some (empty_response\<lparr>Err := Some ErrBadJob\<rparr>, s)) \<and>
           (iState item = ItemStateRun \<and>
            \<not> (Exited job1 \<and> Exitcode job1 = 0 \<and> StartTime job1 \<noteq> 0 \<and> EndTime job1 \<noteq> 0) \<longrightarrow>
              handleRequest D now ws s cr =
                Some (empty_response\<lparr>Err := Some ErrBadRequest\<rparr>,
                      s\<lparr>q := Some (modify_job qu (jobKey rj)
                                     (\<lambda>j. fst (updateAfterExit (JobEndState cr) j (limiter s)))),
                        limiter := lim1\<rparr>)) \<and>
           (iState item = ItemStateRun \<and>
            Exited job1 \<and> Exitcode job1 = 0 \<and> StartTime job1 \<noteq> 0 \<and> EndTime job1 \<noteq> 0 \<longrightarrow>
              (\<exists>s' qu'. handleRequest D now ws s cr =
                           Some (empty_response\<lparr>Err := (if write_fails (db s) 0 then Some ErrDBError
                                                          else None)\<rparr>, s') \<and>
                         q s' = Some qu' \<and> limiter s' = lim1 \<and>
                         (if write_fails (db s) 0
                          then map_option (\<lambda>i. (iState i, State (iData i), FailReason (iData i)))
                                 (lookup qu' (jobKey rj)) =
                                 Some (ItemStateRun, JobStateComplete, '''') \<and>
                               layout qu' = layout qu \<and>
                               complete (db s') = complete (db s) \<and> live (db s') = live (db s) \<and>
                               rpl s' = rpl s \<and> sgroupcounts s' = sgroupcounts s
                          else lookup qu' (jobKey rj) = None \<and>
                               complete (db s') (jobKey rj) =
                                 Some (job1\<lparr>State := JobStateComplete, FailReason := ''''\<rparr>) \<and>
                               live (db s') (jobKey rj) = None \<and>
                               (\<forall>km. rpl s' (RepGroup job1) = Some km \<longrightarrow> km (jobKey rj) = None) \<and>
                               sgroupcounts s' =
                                 (sgroupcounts s)
                                   (schedulerGroup job1 :=
                                      (if count_of s (schedulerGroup job1) \<le> 1 then None
                                       else Some (count_of s (schedulerGroup job1) - 1))))))) \<and>
         (qs s (QueueName cr) = Some qu \<longrightarrow>
           (iState item \<noteq> ItemStateRun \<longrightarrow>
              handleRequest_old D s cr = (empty_response\<lparr>Err := Some ErrBadJob\<rparr>, s)) \<and>
           (iState item = ItemStateRun \<and>
            \<not> (Exited (iData item) \<and> Exitcode (iData item) = 0 \<and>
               StartTime (iData item) \<noteq> 0 \<and> EndTime (iData item) \<noteq> 0) \<longrightarrow>
              handleRequest_old D s cr = (empty_response\<lparr>Err := Some ErrBadRequest\<rparr>, s)) \<and>
           (iState item = ItemStateRun \<and>
            Exited (iData item) \<and> Exitcode (iData item) = 0 \<and>
            StartTime (iData item) \<noteq> 0 \<and> EndTime (iData item) \<noteq> 0 \<longrightarrow>
              (\<exists>s' qu'. handleRequest_old D s cr =
                           (empty_response\<lparr>Err := (if write_fails (db s) 0 then Some ErrDBError
                                                    else None)\<rparr>, s') \<and>
                         qs s' (QueueName cr) = Some qu' \<and>
                         (if write_fails (db s) 0
                          then map_option (\<lambda>i. (iState i, State (iData i), FailReason (iData i)))
                                 (lookup qu' (jobKey rj)) =
                                 Some (ItemStateRun, JobStateComplete, '''') \<and>
                               layout qu' = layout qu \<and>
                               complete (db s') = complete (db s) \<and> live (db s') = live (db s) \<and>
                               rpl s' = rpl s \<and> sgroupcounts s' = sgroupcounts s
                          else lookup qu' (jobKey rj) = None \<and>
                               complete (db s') (jobKey rj) =
                                 Some ((iData item)\<lparr>State := JobStateComplete, FailReason := '''',
                                         Walltime := int (EndTime (iData item)) -
                                                     int (StartTime (iData item))\<rparr>) \<and>
                               live (db s') (jobKey rj) = None \<and>
                               (\<forall>km. rpl s' (RepGroup (iData item)) = Some km \<longrightarrow>
                                     km (jobKey rj) = None) \<and>
                               sgroupcounts s' =
                                 (sgroupcounts s)
                                   (schedulerGroup (iData item) :=
                                      (if count_of s (schedulerGroup (iData item)) \<le> 1 then None
                                       else Some (count_of s (schedulerGroup (iData item)) - 1)))))))"
proof (rule conjI; rule impI)
  assume h: "q s = Some qu \<and> length (Token cr) = tokenLength D \<and> Token cr = token s \<and>
          (up s \<or> drain s)"
  then have h1: "q s = Some qu" and h2: "length (Token cr) = tokenLength D"
    and h3: "Token cr = token s" and h4: "up s \<or> drain s" by blast+
  show "(iState item \<noteq> ItemStateRun \<longrightarrow>
              handleRequest D now ws s cr = Some (empty_response\<lparr>Err := Some ErrBadJob\<rparr>, s)) \<and>
           (iState item = ItemStateRun \<and>
            \<not> (Exited job1 \<and> Exitcode job1 = 0 \<and> StartTime job1 \<noteq> 0 \<and> EndTime job1 \<noteq> 0) \<longrightarrow>
              handleRequest D now ws s cr =
                Some (empty_response\<lparr>Err := Some ErrBadRequest\<rparr>,
                      s\<lparr>q := Some (modify_job qu (jobKey rj)
                                     (\<lambda>j. fst (updateAfterExit (JobEndState cr) j (limiter s)))),
                        limiter := lim1\<rparr>)) \<and>
           (iState item = ItemStateRun \<and>
            Exited job1 \<and> Exitcode job1 = 0 \<and> StartTime job1 \<noteq> 0 \<and> EndTime job1 \<noteq> 0 \<longrightarrow>
              (\<exists>s' qu'. handleRequest D now ws s cr =
                           Some (empty_response\<lparr>Err := (if write_fails (db s) 0 then Some ErrDBError
                                                          else None)\<rparr>, s') \<and>
                         q s' = Some qu' \<and> limiter s' = lim1 \<and>
                         (if write_fails (db s) 0
                          then map_option (\<lambda>i. (iState i, State (iData i), FailReason (iData i)))
                                 (lookup qu' (jobKey rj)) =
                                 Some (ItemStateRun, JobStateComplete, '''') \<and>
                               layout qu' = layout qu \<and>
                               complete (db s') = complete (db s) \<and> live (db s') = live (db s) \<and>
                               rpl s' = rpl s \<and> sgroupcounts s' = sgroupcounts s
                          else lookup qu' (jobKey rj) = None \<and>
                               complete (db s') (jobKey rj) =
                                 Some (job1\<lparr>State := JobStateComplete, FailReason := ''''\<rparr>) \<and>
                               live (db s') (jobKey rj) = None \<and>
                               (\<forall>km. rpl s' (RepGroup job1) = Some km \<longrightarrow> km (jobKey rj) = None) \<and>
                               sgroupcounts s' =
                                 (sgroupcounts s)
                                   (schedulerGroup job1 :=
                                      (if count_of s (schedulerGroup job1) \<le> 1 then None
                                       else Some (count_of s (schedulerGroup job1) - 1))))))"
    by (rule jarchive_archived [OF assms(1) h1 assms(2) h4 h2 h3 assms(3-7)])
next
  assume h: "qs s (QueueName cr) = Some qu"
  show "(iState item \<noteq> ItemStateRun \<longrightarrow>
              handleRequest_old D s cr = (empty_response\<lparr>Err := Some ErrBadJob\<rparr>, s)) \<and>
           (iState item = ItemStateRun \<and>
            \<not> (Exited (iData item) \<and> Exitcode (iData item) = 0 \<and>
               StartTime (iData item) \<noteq> 0 \<and> EndTime (iData item) \<noteq> 0) \<longrightarrow>
              handleRequest_old D s cr = (empty_response\<lparr>Err := Some ErrBadRequest\<rparr>, s)) \<and>
           (iState item = ItemStateRun \<and>
            Exited (iData item) \<and> Exitcode (iData item) = 0 \<and>
            StartTime (iData item) \<noteq> 0 \<and> EndTime (iData item) \<noteq> 0 \<longrightarrow>
              (\<exists>s' qu'. handleRequest_old D s cr =
                           (empty_response\<lparr>Err := (if write_fails (db s) 0 then Some ErrDBError
                                                    else None)\<rparr>, s') \<and>
                         qs s' (QueueName cr) = Some qu' \<and>
                         (if write_fails (db s) 0
                          then map_option (\<lambda>i. (iState i, State (iData i), FailReason (iData i)))
                                 (lookup qu' (jobKey rj)) =
                                 Some (ItemStateRun, JobStateComplete, '''') \<and>
                               layout qu' = layout qu \<and>
                               complete (db s') = complete (db s) \<and> live (db s') = live (db s) \<and>
                               rpl s' = rpl s \<and> sgroupcounts s' = sgroupcounts s
                          else lookup qu' (jobKey rj) = None \<and>
                               complete (db s') (jobKey rj) =
                                 Some ((iData item)\<lparr>State := JobStateComplete, FailReason := '''',
                                         Walltime := int (EndTime (iData item)) -
                                                     int (StartTime (iData item))\<rparr>) \<and>
                               live (db s') (jobKey rj) = None \<and>
                               (\<forall>km. rpl s' (RepGroup (iData item)) = Some km \<longrightarrow>
                                     km (jobKey rj) = None) \<and>
                               sgroupcounts s' =
                                 (sgroupcounts s)
                                   (schedulerGroup (iData item) :=
                                      (if count_of s (schedulerGroup (iData item)) \<le> 1 then None
                                       else Some (count_of s (schedulerGroup (iData item)) - 1))))))"
    by (rule jarchive_old_archived [OF assms(1) h assms(2-6)])
qed

text \<open>
  The theorem at a job in the delay sub-queue, at a running job whose request reports
  the exit code 1 (2019) or that had exited with code 1 (2016), and at a running job
  that exited with code 0, whose group has the count 2: it is archived and the count
  becomes 1.
\<close>

theorem jarchive_spec_witness:
  "handleRequest deps0 0 [] (server0 [item0 ItemStateDelay (running_job 0 3)] 2 [])
       (request0 ''jarchive'') =
     Some (empty_response\<lparr>Err := Some ErrBadJob\<rparr>,
           server0 [item0 ItemStateDelay (running_job 0 3)] 2 []) \<and>
   (\<exists>s'. handleRequest deps0 0 [] (server0 [item0 ItemStateRun (running_job 0 3)] 2 [])
            (failed_request0 ''jarchive'') =
            Some (empty_response\<lparr>Err := Some ErrBadRequest\<rparr>, s') \<and>
         map_option layout (q s') = Some (layout (queue0 [item0 ItemStateRun (running_job 0 3)])) \<and>
         db s' = db (server0 [item0 ItemStateRun (running_job 0 3)] 2 []) \<and>
         rpl s' = rpl (server0 [item0 ItemStateRun (running_job 0 3)] 2 []) \<and>
         sgroupcounts s' = sgroupcounts (server0 [item0 ItemStateRun (running_job 0 3)] 2 [])) \<and>
   (\<exists>s' qu'. handleRequest deps0 0 [] (server0 [item0 ItemStateRun (running_job 0 3)] 2 [])
                (request0 ''jarchive'') = Some (empty_response, s') \<and>
              q s' = Some qu' \<and> lookup qu' ''echo x'' = None \<and>
              map_option State (complete (db s') ''echo x'') = Some JobStateComplete \<and>
              live (db s') ''echo x'' = None \<and>
              (\<forall>km. rpl s' ''rg'' = Some km \<longrightarrow> km ''echo x'' = None) \<and>
              sgroupcounts s' ''g'' = Some 1) \<and>
   handleRequest_old deps0 (server0 [item0 ItemStateRun (running_job 1 3)] 2 [])
       (request0 ''jarchive'') =
     (empty_response\<lparr>Err := Some ErrBadRequest\<rparr>,
      server0 [item0 ItemStateRun (running_job 1 3)] 2 []) \<and>
   (\<exists>s' qu'. handleRequest_old deps0 (server0 [item0 ItemStateRun (running_job 0 3)] 2 [])
                (request0 ''jarchive'') = (empty_response, s') \<and>
              qs s' ''cmds'' = Some qu' \<and> lookup qu' ''echo x'' = None \<and>
              map_option State (complete (db s') ''echo x'') = Some JobStateComplete \<and>
              live (db s') ''echo x'' = None \<and>
              (\<forall>km. rpl s' ''rg'' = Some km \<longrightarrow> km ''echo x'' = None) \<and>
              sgroupcounts s' ''g'' = Some 1)"
proof -
  have r: "Method (request0 ''jarchive'') = ''jarchive''"
    "Job (request0 ''jarchive'') = Some (job0\<lparr>FailReason := ''boom''\<rparr>)"
    "Method (failed_request0 ''jarchive'') = ''jarchive''"
    "Job (failed_request0 ''jarchive'') = Some (job0\<lparr>FailReason := ''boom''\<rparr>)"
    "QueueName (request0 ''jarchive'') = ''cmds''"
    by (simp_all add: request0_def failed_request0_def)
  have gt: "q (server0 is n fs) = Some (queue0 is) \<and>
            length (Token (request0 ''jarchive'')) = tokenLength deps0 \<and>
            Token (request0 ''jarchive'') = token (server0 is n fs) \<and>
            (up (server0 is n fs) \<or> drain (server0 is n fs))"
    "q (server0 is n fs) = Some (queue0 is) \<and>
            length (Token (failed_request0 ''jarchive'')) = tokenLength deps0 \<and>
            Token (failed_request0 ''jarchive'') = token (server0 is n fs) \<and>
            (up (server0 is n fs) \<or> drain (server0 is n fs))" for "is" n fs
    by (simp_all add: server0_def request0_def failed_request0_def deps0_def)
  have s: "\<not> closed (queue0 is)" "qs (server0 is n fs) ''cmds'' = Some (queue0 is)"
    "sgroupcounts (server0 is 2 fs) ''g'' = Some 2" "count_of (server0 is 2 fs) ''g'' = 2"
    "rpl (server0 is n fs) = [''rg'' \<mapsto> [''echo x'' \<mapsto> True]]" for "is" n fs
    by (simp_all add: server0_def queue0_def count_of_def)
  have k: "jobKey (job0\<lparr>FailReason := ''boom''\<rparr>) = ''echo x''" "jobKey (running_job c u) = ''echo x''"
    "RepGroup (running_job c u) = ''rg''" "schedulerGroup (running_job c u) = ''g''" for c u
    by (simp_all add: jobKey_def job0_def running_job_def)
  have i: "iData (item0 st j) = j" "iState (item0 st j) = st" for st j
    by (simp_all add: item0_def)
  have o: "ReservedBy (running_job c u) = 7" "ClientID (request0 ''jarchive'') = 7"
    "ClientID (failed_request0 ''jarchive'') = 7" for c u
    by (simp_all add: running_job_def request0_def failed_request0_def)
  have e: "Exited (running_job c u)" "Exitcode (running_job c u) = c"
    "StartTime (running_job c u) \<noteq> 0" "EndTime (running_job c u) \<noteq> 0" for c u
    by (simp_all add: running_job_def)
  have u: "Exited (fst (updateAfterExit (JobEndState (request0 ''jarchive'')) (running_job c n) l))"
    "Exitcode (fst (updateAfterExit (JobEndState (request0 ''jarchive'')) (running_job c n) l)) = 0"
    "StartTime (fst (updateAfterExit (JobEndState (request0 ''jarchive'')) (running_job c n) l)) \<noteq> 0"
    "EndTime (fst (updateAfterExit (JobEndState (request0 ''jarchive'')) (running_job c n) l)) \<noteq> 0"
    "Exitcode (fst (updateAfterExit (JobEndState (failed_request0 ''jarchive'')) (running_job c n) l)) = 1"
    "RepGroup (fst (updateAfterExit es (running_job c n) l)) = ''rg''"
    "schedulerGroup (fst (updateAfterExit es (running_job c n) l)) = ''g''" for c n l es
    by (simp_all add: updateAfterExit_def request0_def failed_request0_def running_job_def job0_def)
  have w: "\<not> write_fails (db (server0 is n [])) 0" for "is" n
    by (simp add: write_fails_def server0_def db0_def)
  have p4: "lookup (queue0 [item0 st (running_job c u)]) (jobKey (job0\<lparr>FailReason := ''boom''\<rparr>)) =
              Some (item0 st (running_job c u))" for st c u
    by (simp add: lookup_def queue0_def item0_def k)
  have p5: "ReservedBy (iData (item0 st (running_job c u))) = ClientID (request0 ''jarchive'')"
    "ReservedBy (iData (item0 st (running_job c u))) = ClientID (failed_request0 ''jarchive'')"
    for st c u
    by (simp_all add: i o)
  have p6: "jobKey (iData (item0 st (running_job c u))) = jobKey (job0\<lparr>FailReason := ''boom''\<rparr>)"
    for st c u
    by (simp add: i k)
  note tA = jarchive_spec [where D = deps0 and now = 0 and ws = "[]"
      and s = "server0 [item0 ItemStateDelay (running_job 0 3)] 2 []",
      OF r(1) s(1) r(2) p4 [of ItemStateDelay 0 3] p5(1) p6 surjective_pairing,
      THEN conjunct1, THEN mp, OF gt(1), THEN conjunct1]
  note tB = jarchive_spec [where D = deps0 and now = 0 and ws = "[]"
      and s = "server0 [item0 ItemStateRun (running_job 0 3)] 2 []",
      OF r(3) s(1) r(4) p4 [of ItemStateRun 0 3] p5(2) p6 surjective_pairing,
      THEN conjunct1, THEN mp, OF gt(2), THEN conjunct2, THEN conjunct1]
  note tC = jarchive_spec [where D = deps0 and now = 0 and ws = "[]"
      and s = "server0 [item0 ItemStateRun (running_job 0 3)] 2 []",
      OF r(1) s(1) r(2) p4 [of ItemStateRun 0 3] p5(1) p6 surjective_pairing,
      THEN conjunct1, THEN mp, OF gt(1), THEN conjunct2, THEN conjunct2]
  note tD = jarchive_spec [where D = deps0
      and s = "server0 [item0 ItemStateRun (running_job 1 3)] 2 []",
      OF r(1) s(1) r(2) p4 [of ItemStateRun 1 3] p5(1) p6 surjective_pairing,
      THEN conjunct2, THEN mp, unfolded r(5), OF s(2), THEN conjunct2, THEN conjunct1]
  note tE = jarchive_spec [where D = deps0
      and s = "server0 [item0 ItemStateRun (running_job 0 3)] 2 []",
      OF r(1) s(1) r(2) p4 [of ItemStateRun 0 3] p5(1) p6 surjective_pairing,
      THEN conjunct2, THEN mp, unfolded r(5), OF s(2), THEN conjunct2, THEN conjunct2]
  have 1: "handleRequest deps0 0 [] (server0 [item0 ItemStateDelay (running_job 0 3)] 2 [])
       (request0 ''jarchive'') =
     Some (empty_response\<lparr>Err := Some ErrBadJob\<rparr>,
           server0 [item0 ItemStateDelay (running_job 0 3)] 2 [])"
    using tA by (simp add: i)
  have 2: "\<exists>s'. handleRequest deps0 0 [] (server0 [item0 ItemStateRun (running_job 0 3)] 2 [])
            (failed_request0 ''jarchive'') =
            Some (empty_response\<lparr>Err := Some ErrBadRequest\<rparr>, s') \<and>
         map_option layout (q s') = Some (layout (queue0 [item0 ItemStateRun (running_job 0 3)])) \<and>
         db s' = db (server0 [item0 ItemStateRun (running_job 0 3)] 2 []) \<and>
         rpl s' = rpl (server0 [item0 ItemStateRun (running_job 0 3)] 2 []) \<and>
         sgroupcounts s' = sgroupcounts (server0 [item0 ItemStateRun (running_job 0 3)] 2 [])"
    using tB by (simp add: i u)
  have 3: "\<exists>s' qu'. handleRequest deps0 0 [] (server0 [item0 ItemStateRun (running_job 0 3)] 2 [])
                (request0 ''jarchive'') = Some (empty_response, s') \<and>
              q s' = Some qu' \<and> lookup qu' ''echo x'' = None \<and>
              map_option State (complete (db s') ''echo x'') = Some JobStateComplete \<and>
              live (db s') ''echo x'' = None \<and>
              (\<forall>km. rpl s' ''rg'' = Some km \<longrightarrow> km ''echo x'' = None) \<and>
              sgroupcounts s' ''g'' = Some 1"
    using tC by (simp add: i u w s k empty_response_def) fastforce
  have 4: "handleRequest_old deps0 (server0 [item0 ItemStateRun (running_job 1 3)] 2 [])
       (request0 ''jarchive'') =
     (empty_response\<lparr>Err := Some ErrBadRequest\<rparr>,
      server0 [item0 ItemStateRun (running_job 1 3)] 2 [])"
    using tD by (simp add: i e)
  have 5: "\<exists>s' qu'. handleRequest_old deps0 (server0 [item0 ItemStateRun (running_job 0 3)] 2 [])
                (request0 ''jarchive'') = (empty_response, s') \<and>
              qs s' ''cmds'' = Some qu' \<and> lookup qu' ''echo x'' = None \<and>
              map_option State (complete (db s') ''echo x'') = Some JobStateComplete \<and>
              live (db s') ''echo x'' = None \<and>
              (\<forall>km. rpl s' ''rg'' = Some km \<longrightarrow> km ''echo x'' = None) \<and>
              sgroupcounts s' ''g'' = Some 1"
    using tE by (simp add: i e w s k empty_response_def) fastforce
  from 1 2 3 4 5 show ?thesis by (intro conjI)
qed

text \<open>
  Claim C1 as stated fails when the database write fails: in both revisions a job that
  exited with code 0, with both times set, in the run sub-queue and reserved by the
  requester, is neither archived nor removed, and its group's count stays 2; the reply
  is \<^verbatim>\<open>ErrDBError\<close>. And in the 2019 revision a rejected request does change the
  job in the queue: the job had the exit code 0, the request reports the exit code 1 and
  is answered \<^verbatim>\<open>ErrBadRequest\<close>, and the job in the queue has the exit code 1.
\<close>

theorem jarchive_spec_counterexample:
  "Exited (running_job 0 3) \<and> Exitcode (running_job 0 3) = 0 \<and>
   StartTime (running_job 0 3) \<noteq> 0 \<and> EndTime (running_job 0 3) \<noteq> 0 \<and>
   ReservedBy (running_job 0 3) = ClientID (request0 ''jarchive'') \<and>
   (\<exists>r s'. handleRequest deps0 0 [] (server0 [item0 ItemStateRun (running_job 0 3)] 2 [True])
              (request0 ''jarchive'') = Some (r, s') \<and>
           Err r = Some ErrDBError \<and> complete (db s') ''echo x'' = None \<and>
           map_option (\<lambda>qu. map (\<lambda>i. (iKey i, iState i)) (items qu)) (q s') =
             Some [(''echo x'', ItemStateRun)] \<and>
           map_option (\<lambda>m. m ''echo x'') (rpl s' ''rg'') = Some (Some True) \<and>
           sgroupcounts s' ''g'' = Some 2) \<and>
   (\<exists>r s'. handleRequest_old deps0 (server0 [item0 ItemStateRun (running_job 0 3)] 2 [True])
              (request0 ''jarchive'') = (r, s') \<and>
           Err r = Some ErrDBError \<and> complete (db s') ''echo x'' = None \<and>
           map_option (\<lambda>qu. map (\<lambda>i. (iKey i, iState i)) (items qu)) (qs s' ''cmds'') =
             Some [(''echo x'', ItemStateRun)] \<and>
           map_option (\<lambda>m. m ''echo x'') (rpl s' ''rg'') = Some (Some True) \<and>
           sgroupcounts s' ''g'' = Some 2) \<and>
   (\<exists>r s'. handleRequest deps0 0 [] (server0 [item0 ItemStateRun (running_job 0 3)] 2 [])
              (failed_request0 ''jarchive'') = Some (r, s') \<and>
           Err r = Some ErrBadRequest \<and>
           map_option (\<lambda>qu. map (\<lambda>i. (iKey i, iState i, Exitcode (iData i))) (items qu)) (q s') =
             Some [(''echo x'', ItemStateRun, 1)])"
proof -
  have "case handleRequest deps0 0 [] (server0 [item0 ItemStateRun (running_job 0 3)] 2 [True])
              (request0 ''jarchive'') of
          None \<Rightarrow> False
        | Some (r, s') \<Rightarrow>
           Err r = Some ErrDBError \<and> complete (db s') ''echo x'' = None \<and>
           map_option (\<lambda>qu. map (\<lambda>i. (iKey i, iState i)) (items qu)) (q s') =
             Some [(''echo x'', ItemStateRun)] \<and>
           map_option (\<lambda>m. m ''echo x'') (rpl s' ''rg'') = Some (Some True) \<and>
           sgroupcounts s' ''g'' = Some 2"
    by code_simp
  then have 1: "\<exists>r s'. handleRequest deps0 0 [] (server0 [item0 ItemStateRun (running_job 0 3)] 2 [True])
              (request0 ''jarchive'') = Some (r, s') \<and>
           Err r = Some ErrDBError \<and> complete (db s') ''echo x'' = None \<and>
           map_option (\<lambda>qu. map (\<lambda>i. (iKey i, iState i)) (items qu)) (q s') =
             Some [(''echo x'', ItemStateRun)] \<and>
           map_option (\<lambda>m. m ''echo x'') (rpl s' ''rg'') = Some (Some True) \<and>
           sgroupcounts s' ''g'' = Some 2"
    by (auto split: option.splits)
  have "case handleRequest_old deps0 (server0 [item0 ItemStateRun (running_job 0 3)] 2 [True])
              (request0 ''jarchive'') of
          (r, s') \<Rightarrow>
           Err r = Some ErrDBError \<and> complete (db s') ''echo x'' = None \<and>
           map_option (\<lambda>qu. map (\<lambda>i. (iKey i, iState i)) (items qu)) (qs s' ''cmds'') =
             Some [(''echo x'', ItemStateRun)] \<and>
           map_option (\<lambda>m. m ''echo x'') (rpl s' ''rg'') = Some (Some True) \<and>
           sgroupcounts s' ''g'' = Some 2"
    by code_simp
  then have 2: "\<exists>r s'. handleRequest_old deps0 (server0 [item0 ItemStateRun (running_job 0 3)] 2 [True])
              (request0 ''jarchive'') = (r, s') \<and>
           Err r = Some ErrDBError \<and> complete (db s') ''echo x'' = None \<and>
           map_option (\<lambda>qu. map (\<lambda>i. (iKey i, iState i)) (items qu)) (qs s' ''cmds'') =
             Some [(''echo x'', ItemStateRun)] \<and>
           map_option (\<lambda>m. m ''echo x'') (rpl s' ''rg'') = Some (Some True) \<and>
           sgroupcounts s' ''g'' = Some 2"
    by (auto split: prod.splits)
  have "case handleRequest deps0 0 [] (server0 [item0 ItemStateRun (running_job 0 3)] 2 [])
              (failed_request0 ''jarchive'') of
          None \<Rightarrow> False
        | Some (r, s') \<Rightarrow>
           Err r = Some ErrBadRequest \<and>
           map_option (\<lambda>qu. map (\<lambda>i. (iKey i, iState i, Exitcode (iData i))) (items qu)) (q s') =
             Some [(''echo x'', ItemStateRun, 1)]"
    by code_simp
  then have 3: "\<exists>r s'. handleRequest deps0 0 [] (server0 [item0 ItemStateRun (running_job 0 3)] 2 [])
              (failed_request0 ''jarchive'') = Some (r, s') \<and>
           Err r = Some ErrBadRequest \<and>
           map_option (\<lambda>qu. map (\<lambda>i. (iKey i, iState i, Exitcode (iData i))) (items qu)) (q s') =
             Some [(''echo x'', ItemStateRun, 1)]"
    by (auto split: option.splits)
  have 0: "Exited (running_job 0 3) \<and> Exitcode (running_job 0 3) = 0 \<and>
   StartTime (running_job 0 3) \<noteq> 0 \<and> EndTime (running_job 0 3) \<noteq> 0 \<and>
   ReservedBy (running_job 0 3) = ClientID (request0 ''jarchive'')"
    by (simp add: running_job_def request0_def)
  from 0 1 2 3 show ?thesis by blast
qed

end
